theory Spec2Isabelle
  imports Main
begin

section \<open>Decoded JSON and Python values\<close>

text \<open>
  An event payload is the dict that \<^verbatim>\<open>json.loads\<close> returns. JSON numbers with a fraction
  (Python floats) are left out of the value universe. A dict is an association list in
  which the first binding of a key is the one that counts. A string is the list of its
  characters; where Python consults the Unicode tables for a character beyond ASCII
  (lower-casing, digits, spaces) the result is left open, as said at \<open>lower\<close> and
  \<open>int_of_str\<close>.
\<close>

datatype jvalue =
    JNull
  | JBool bool
  | JInt int
  | JStr string
  | JList "jvalue list"
  | JObj "(string \<times> jvalue) list"

type_synonym pydict = "(string \<times> jvalue) list"

text \<open>\<^verbatim>\<open>d.get(k)\<close>: the value, or None when the key is absent.\<close>

definition dict_get :: "pydict \<Rightarrow> string \<Rightarrow> jvalue" where
  "dict_get d k = (case map_of d k of None \<Rightarrow> JNull | Some v \<Rightarrow> v)"

text \<open>\<^verbatim>\<open>d.get(k, dflt)\<close>: the default only replaces an absent key, not a null value.\<close>

definition dict_get_default :: "pydict \<Rightarrow> string \<Rightarrow> jvalue \<Rightarrow> jvalue" where
  "dict_get_default d k dflt = (case map_of d k of None \<Rightarrow> dflt | Some v \<Rightarrow> v)"

text \<open>Python truthiness, as \<^verbatim>\<open>if not event_name\<close> and \<^verbatim>\<open>if internal_asset_id\<close> use it.\<close>

definition truthy :: "jvalue \<Rightarrow> bool" where
  "truthy v =
     (case v of
        JNull \<Rightarrow> False
      | JBool b \<Rightarrow> b
      | JInt n \<Rightarrow> n \<noteq> 0
      | JStr s \<Rightarrow> s \<noteq> []
      | JList xs \<Rightarrow> xs \<noteq> []
      | JObj d \<Rightarrow> d \<noteq> [])"


text \<open>
  \<^verbatim>\<open>str.lower()\<close>. On ASCII text it maps A..Z to a..z and keeps every other character.
  On text with a character beyond ASCII Python follows the Unicode case tables, which are
  not written out here: \<open>lower\<close> is then a function of the text about which nothing
  further is laid down, so no statement below depends on what it returns there.
\<close>

definition ascii :: "string \<Rightarrow> bool" where
  "ascii s = list_all (\<lambda>c. \<not> digit7 c) s"

definition lower_char :: "char \<Rightarrow> char" where
  "lower_char c =
     (case map_of (zip ''ABCDEFGHIJKLMNOPQRSTUVWXYZ'' ''abcdefghijklmnopqrstuvwxyz'') c of
        None \<Rightarrow> c
      | Some l \<Rightarrow> l)"

definition lower_beyond_ascii :: "string \<Rightarrow> string" where
  "lower_beyond_ascii = undefined"

definition lower :: "string \<Rightarrow> string" where
  "lower s = (if ascii s then map lower_char s else lower_beyond_ascii s)"

section \<open>Python text\<close>

text \<open>\<^verbatim>\<open>str(n)\<close> of an integer: decimal digits, with a minus sign below zero.\<close>

definition digit_char :: "nat \<Rightarrow> char" where
  "digit_char n = (''0123456789abcdef'' ! n)"

function decimal :: "nat \<Rightarrow> string" where
  "decimal n =
     (let d = digit_char (n mod 10)
      in if n div 10 = 0 then [d] else decimal (n div 10) @ [d])"
  by pat_completeness auto
termination
  by (relation "measure id") auto

declare decimal.simps [simp del]

definition str_int :: "int \<Rightarrow> string" where
  "str_int i = (if 0 \<le> i then decimal (nat i) else CHR ''-'' # decimal (nat (- i)))"

text \<open>
  \<^verbatim>\<open>repr(s)\<close> of a string of ASCII text: single quotes, unless the text has a single
  quote and no double quote; the quote and the backslash are escaped, control characters
  are written as escapes.
\<close>

definition repr_char :: "char \<Rightarrow> char \<Rightarrow> string" where
  "repr_char quote c =
     (let n = (of_char c :: nat) in
      if c = quote \<or> c = CHR 0x5C then [CHR 0x5C, c]
      else if n = 9 then [CHR 0x5C, CHR ''t'']
      else if n = 10 then [CHR 0x5C, CHR ''n'']
      else if n = 13 then [CHR 0x5C, CHR ''r'']
      else if n < 32 \<or> n = 127
        then [CHR 0x5C, CHR ''x'', digit_char (n div 16), digit_char (n mod 16)]
      else [c])"

definition repr_str :: "string \<Rightarrow> string" where
  "repr_str s =
     (let quote = (if CHR 0x27 \<in> set s \<and> CHR 0x22 \<notin> set s then CHR 0x22 else CHR 0x27)
      in [quote] @ concat (map (repr_char quote) s) @ [quote])"

text \<open>\<^verbatim>\<open>', '.join(parts)\<close>.\<close>

fun join_comma :: "string list \<Rightarrow> string" where
  "join_comma [] = []"
| "join_comma [x] = x"
| "join_comma (x # y # ys) = x @ '', '' @ join_comma (y # ys)"

text \<open>The items of a dict: each key once, with its first binding.\<close>

fun dict_items :: "('k \<times> 'v) list \<Rightarrow> ('k \<times> 'v) list" where
  "dict_items [] = []"
| "dict_items ((k, v) # d) = (k, v) # dict_items (filter (\<lambda>kv. fst kv \<noteq> k) d)"

lemma dict_items_subset: "set (dict_items d) \<subseteq> set d"
  by (induction d rule: dict_items.induct) auto

lemma size_dict_item [termination_simp]:
  "(k, v) \<in> set (dict_items d) \<Longrightarrow> size v < Suc (size_list (\<lambda>x. Suc (size (snd x))) d)"
proof -
  assume "(k, v) \<in> set (dict_items d)"
  then have "(k, v) \<in> set d" using dict_items_subset by blast
  then show ?thesis
    by (induction d) auto
qed

text \<open>\<^verbatim>\<open>repr(v)\<close> and \<^verbatim>\<open>str(v)\<close> of a decoded JSON value.\<close>

fun py_repr :: "jvalue \<Rightarrow> string" where
  "py_repr JNull = ''None''"
| "py_repr (JBool b) = (if b then ''True'' else ''False'')"
| "py_repr (JInt n) = str_int n"
| "py_repr (JStr s) = repr_str s"
| "py_repr (JList xs) = ''['' @ join_comma (map py_repr xs) @ '']''"
| "py_repr (JObj d) =
     ''{'' @ join_comma (map (\<lambda>kv. repr_str (fst kv) @ '': '' @ py_repr (snd kv)) (dict_items d))
       @ ''}''"

definition py_str :: "jvalue \<Rightarrow> string" where
  "py_str v = (case v of JStr s \<Rightarrow> s | _ \<Rightarrow> py_repr v)"

section \<open>Errors\<close>

text \<open>
  Every exception a reducer can end with is a value. \<open>AttributeError\<close>: a method called
  on a value that has none (\<^verbatim>\<open>None.lower()\<close>, \<^verbatim>\<open>None.get(..)\<close>). \<open>TypeError\<close>: an
  unhashable key in the handler registry, or \<^verbatim>\<open>int()\<close> of a list or a dict.
  \<open>ValueError\<close>: \<^verbatim>\<open>int()\<close> of text that is no integer literal. \<open>ValidationError\<close>: a
  value a \<^verbatim>\<open>BooleanField\<close> does not take. \<open>OverflowError\<close>: an integer outside the
  64-bit range handed to the database. \<open>IntegrityError\<close>: NULL written to a column
  declared without \<^verbatim>\<open>null=True\<close>. \<open>MultipleObjectsReturned\<close>: \<^verbatim>\<open>get()\<close> found several
  rows.
\<close>

datatype error =
    AttributeError
  | TypeError
  | ValueError
  | ValidationError
  | OverflowError
  | IntegrityError
  | MultipleObjectsReturned

section \<open>Columns\<close>

text \<open>
  \<^verbatim>\<open>int(s)\<close> of a string, in base 10: white space around the literal is dropped, then
  comes an optional sign and then digits, which single underscores may separate. It is
  written out for text of at most 4300 characters made of printable ASCII characters
  and tab, line feed, vertical tab, form feed and carriage return; on other text (other
  control characters, Unicode digits and spaces, literals long enough to meet Python's
  digit limit) \<open>int_of_str\<close> is a function about which nothing further is laid down.
  None stands for \<^verbatim>\<open>ValueError\<close>.
\<close>

definition is_space :: "char \<Rightarrow> bool" where
  "is_space c = (c \<in> set [CHR 0x09, CHR 0x0A, CHR 0x0B, CHR 0x0C, CHR 0x0D, CHR 0x20])"

definition strip :: "string \<Rightarrow> string" where
  "strip s = rev (dropWhile is_space (rev (dropWhile is_space s)))"

definition digit_value :: "char \<Rightarrow> nat option" where
  "digit_value c = map_of (zip ''0123456789'' [0 ..< 10]) c"

fun int_literal :: "nat \<Rightarrow> bool \<Rightarrow> string \<Rightarrow> nat option" where
  "int_literal acc after_digit [] = (if after_digit then Some acc else None)"
| "int_literal acc after_digit (c # cs) =
     (if c = CHR ''_''
      then (if after_digit then int_literal acc False cs else None)
      else
        (case digit_value c of
           None \<Rightarrow> None
         | Some d \<Rightarrow> int_literal (10 * acc + d) True cs))"

definition signed_literal :: "string \<Rightarrow> int option" where
  "signed_literal s =
     (case s of
        [] \<Rightarrow> None
      | c # cs \<Rightarrow>
          if c = CHR ''-'' then map_option (\<lambda>n. - int n) (int_literal 0 False cs)
          else if c = CHR ''+'' then map_option int (int_literal 0 False cs)
          else map_option int (int_literal 0 False s))"

definition plain_char :: "char \<Rightarrow> bool" where
  "plain_char c = (is_space c \<or> (32 < (of_char c :: nat) \<and> (of_char c :: nat) < 127))"

definition int_of_str_beyond :: "string \<Rightarrow> int option" where
  "int_of_str_beyond = undefined"

definition int_of_str :: "string \<Rightarrow> int option" where
  "int_of_str s =
     (if list_all plain_char s \<and> length s \<le> 4300 then signed_literal (strip s)
      else int_of_str_beyond s)"

text \<open>
  What Django hands to the database for a value given to a column, by the column's
  \<^verbatim>\<open>get_prep_value\<close>: the exception the conversion raises, or the value, None for NULL.
  The conversion is made when a row is inserted or saved, when \<^verbatim>\<open>update()\<close> builds its
  statement, and on the value of a lookup.

  \<^verbatim>\<open>CharField\<close>: a string is kept, any other value goes through \<^verbatim>\<open>str()\<close>. The text of
  a list or a dict, and of an integer long enough to meet Python's digit limit, is not
  written out: the conversion of such a value is a result about which nothing further
  is laid down. The database engine is SQLite, Django's default, which does not enforce
  \<^verbatim>\<open>max_length\<close>.
\<close>

definition char_field_beyond :: "jvalue \<Rightarrow> error + string option" where
  "char_field_beyond = undefined"

definition char_field :: "jvalue \<Rightarrow> error + string option" where
  "char_field v =
     (case v of
        JNull \<Rightarrow> Inr None
      | JStr s \<Rightarrow> Inr (Some s)
      | JBool b \<Rightarrow> Inr (Some (if b then ''True'' else ''False''))
      | JInt n \<Rightarrow>
          (if length (decimal (nat \<bar>n\<bar>)) \<le> 4300 then Inr (Some (str_int n))
           else char_field_beyond v)
      | _ \<Rightarrow> char_field_beyond v)"

text \<open>\<^verbatim>\<open>BigIntegerField\<close>: \<^verbatim>\<open>int(value)\<close>, whose \<^verbatim>\<open>ValueError\<close> or \<^verbatim>\<open>TypeError\<close> Django
  raises again.\<close>

definition int_field :: "jvalue \<Rightarrow> error + int option" where
  "int_field v =
     (case v of
        JNull \<Rightarrow> Inr None
      | JInt n \<Rightarrow> Inr (Some n)
      | JBool b \<Rightarrow> Inr (Some (if b then 1 else 0))
      | JStr s \<Rightarrow> (case int_of_str s of None \<Rightarrow> Inl ValueError | Some n \<Rightarrow> Inr (Some n))
      | _ \<Rightarrow> Inl TypeError)"

text \<open>\<^verbatim>\<open>BooleanField.to_python\<close>: the two booleans, the integers 1 and 0 that equal
  them, and six spellings; anything else is a \<^verbatim>\<open>ValidationError\<close>.\<close>

definition bool_field :: "jvalue \<Rightarrow> error + bool option" where
  "bool_field v =
     (case v of
        JNull \<Rightarrow> Inr None
      | JBool b \<Rightarrow> Inr (Some b)
      | JInt n \<Rightarrow>
          (if n = 1 then Inr (Some True) else if n = 0 then Inr (Some False)
           else Inl ValidationError)
      | JStr s \<Rightarrow>
          (if s \<in> set [''t'', ''True'', ''1''] then Inr (Some True)
           else if s \<in> set [''f'', ''False'', ''0''] then Inr (Some False)
           else Inl ValidationError)
      | _ \<Rightarrow> Inl ValidationError)"

text \<open>The exception of a conversion, and its value (None for NULL, and when it raises).\<close>

definition char_error :: "jvalue \<Rightarrow> error option" where
  "char_error v = (case char_field v of Inl e \<Rightarrow> Some e | Inr _ \<Rightarrow> None)"

definition char_val :: "jvalue \<Rightarrow> string option" where
  "char_val v = (case char_field v of Inl _ \<Rightarrow> None | Inr x \<Rightarrow> x)"

definition int_error :: "jvalue \<Rightarrow> error option" where
  "int_error v = (case int_field v of Inl e \<Rightarrow> Some e | Inr _ \<Rightarrow> None)"

definition int_val :: "jvalue \<Rightarrow> int option" where
  "int_val v = (case int_field v of Inl _ \<Rightarrow> None | Inr x \<Rightarrow> x)"

definition bool_error :: "jvalue \<Rightarrow> error option" where
  "bool_error v = (case bool_field v of Inl e \<Rightarrow> Some e | Inr _ \<Rightarrow> None)"

definition bool_val :: "jvalue \<Rightarrow> bool option" where
  "bool_val v = (case bool_field v of Inl _ \<Rightarrow> None | Inr x \<Rightarrow> x)"

text \<open>The conversions of a statement are made column by column; the first exception
  ends it.\<close>

fun first_error :: "error option list \<Rightarrow> error option" where
  "first_error [] = None"
| "first_error (e # es) = (case e of None \<Rightarrow> first_error es | Some x \<Rightarrow> Some x)"

text \<open>
  A \<^verbatim>\<open>BigIntegerField\<close> column holds 64-bit signed integers. The converted values are
  bound to the statement before it runs, and an integer outside the range raises
  \<^verbatim>\<open>OverflowError\<close> there, so the statement is not executed.
\<close>

definition int64 :: "jvalue \<Rightarrow> bool" where
  "int64 v = (case int_val v of None \<Rightarrow> True | Some n \<Rightarrow> - (2 ^ 63) \<le> n \<and> n < 2 ^ 63)"

section \<open>Tables\<close>

text \<open>
  One record per model class of \<^verbatim>\<open>issuance_models.py\<close>; a column declared with
  \<^verbatim>\<open>null=True\<close> has an option type. \<open>pk\<close> is Django's automatic \<^verbatim>\<open>id\<close>; a foreign key
  holds the \<open>pk\<close> of the row it points to. Field names carry a table prefix because
  record fields share one name space. Times are readings of the clock, as integers.
\<close>

type_synonym timestamp = int

record identifier_row =
  idf_pk :: nat
  idf_internal_asset_id :: string
  idf_isin :: "string option"
  idf_lei :: "string option"
  idf_upi :: "string option"
  idf_cusip :: "string option"
  idf_clearstream_id :: "string option"
  idf_euroclear_id :: "string option"
  idf_created_at :: timestamp
  idf_updated_at :: timestamp

record offering_row =
  off_pk :: nat
  off_internal_asset_id :: string
  off_offering_type :: string
  off_max_raise_amount :: int
  off_lockup_period :: int
  off_start_timestamp :: int
  off_end_timestamp :: int
  off_base_currency :: string
  off_identifier :: nat
  off_total_committed :: int
  off_total_units_issued :: int
  off_is_finalized :: bool
  off_finalized_at :: "int option"
  off_last_event_tx_hash :: "string option"
  off_created_at :: timestamp
  off_updated_at :: timestamp

record investor_row =
  inv_pk :: nat
  inv_wallet_address :: string
  inv_jurisdiction :: "string option"
  inv_kyc_passed :: bool
  inv_aml_passed :: bool
  inv_last_event_tx_hash :: "string option"
  inv_created_at :: timestamp
  inv_updated_at :: timestamp

record commitment_row =
  com_pk :: nat
  com_investor :: nat
  com_amount :: int
  com_currency :: string
  com_payment_reference :: string
  com_tx_hash :: string
  com_committed_at :: timestamp
  com_created_at :: timestamp

record units_issued_row =
  ui_pk :: nat
  ui_investor :: nat
  ui_units :: int
  ui_lockup_release :: int
  ui_isin :: "string option"
  ui_lei :: "string option"
  ui_upi :: "string option"
  ui_identifier :: "nat option"
  ui_tx_hash :: string
  ui_issued_at :: timestamp
  ui_created_at :: timestamp

record settlement_row =
  sr_pk :: nat
  sr_investor :: nat
  sr_units :: int
  sr_settlement_system :: string
  sr_external_reference :: string
  sr_tx_hash :: string
  sr_settled_at :: timestamp
  sr_created_at :: timestamp

text \<open>
  The database: each table is the list of its rows in insertion order. No reducer
  deletes a row, so a new row gets the next \<open>pk\<close> after the table's length.
\<close>

record store =
  identifiers :: "identifier_row list"
  offerings :: "offering_row list"
  investors :: "investor_row list"
  commitments :: "commitment_row list"
  units_issued :: "units_issued_row list"
  settlement_records :: "settlement_row list"

definition empty_store :: store where
  "empty_store =
     \<lparr>identifiers = [], offerings = [], investors = [], commitments = [],
      units_issued = [], settlement_records = []\<rparr>"


section \<open>The clock\<close>

text \<open>
  Django fills a column declared \<^verbatim>\<open>auto_now_add\<close> or \<^verbatim>\<open>auto_now\<close> in the column's
  \<^verbatim>\<open>pre_save\<close>, which reads the clock for that column at that save; \<^verbatim>\<open>timezone.now()\<close>
  in a reducer is one more reading. While one event is reduced each of these readings is
  made at most once, so the clock of an event is given by the value of each reading.
  Nothing is assumed about how the readings relate to each other.
\<close>

datatype reading =
    Timezone_now
  | Identifier_created_at
  | Identifier_updated_at
  | Offering_created_at
  | Offering_updated_at
  | Investor_created_at
  | Investor_updated_at
  | Commitment_created_at
  | UnitsIssued_created_at
  | SettlementRecord_created_at

type_synonym clock = "reading \<Rightarrow> timestamp"

section \<open>The ORM calls of the reducers\<close>

text \<open>
  Each definition is one call of Django's manager as \<^verbatim>\<open>event_ingestor.py\<close> makes it. A
  call returns the error it raises or the row it yields, and the database it leaves.
  \<^verbatim>\<open>update_or_create\<close> and \<^verbatim>\<open>get_or_create\<close> first look the key up with \<^verbatim>\<open>get()\<close>: no
  row creates one, one row is used, several rows raise. Then the statement that writes
  the row is built: the values are converted column by column, bound (where the 64-bit
  range is checked), and the statement runs (where NOT NULL is checked), so a statement
  that raises writes nothing. \<^verbatim>\<open>save()\<close> of a row that exists writes it back under its
  primary key; the lookup has just found it to be the only row with the key, so the
  write is stated over the key. A lookup for None is Django's \<^verbatim>\<open>IS NULL\<close>.
\<close>

text \<open>What saving the six codes of an Identifier raises: every column is nullable
  text.\<close>

definition Identifier_save_error ::
  "jvalue \<Rightarrow> jvalue \<Rightarrow> jvalue \<Rightarrow> jvalue \<Rightarrow> jvalue \<Rightarrow> jvalue \<Rightarrow> error option" where
  "Identifier_save_error isin lei upi cusip clearstream_id euroclear_id =
     first_error [char_error isin, char_error lei, char_error upi, char_error cusip,
                  char_error clearstream_id, char_error euroclear_id]"

definition Identifier_update_or_create ::
  "clock \<Rightarrow> jvalue \<Rightarrow> jvalue \<Rightarrow> jvalue \<Rightarrow> jvalue \<Rightarrow> jvalue \<Rightarrow> jvalue \<Rightarrow> jvalue \<Rightarrow> store
     \<Rightarrow> (error + identifier_row) \<times> store" where
  "Identifier_update_or_create clock key isin lei upi cusip clearstream_id euroclear_id s =
     (case char_error key of
        Some e \<Rightarrow> (Inl e, s)
      | None \<Rightarrow>
          (case filter (\<lambda>r. Some (idf_internal_asset_id r) = char_val key) (identifiers s) of
             [] \<Rightarrow>
               (case Identifier_save_error isin lei upi cusip clearstream_id euroclear_id of
                  Some e \<Rightarrow> (Inl e, s)
                | None \<Rightarrow>
                    (case char_val key of
                       None \<Rightarrow> (Inl IntegrityError, s)
                     | Some k \<Rightarrow>
                         (let r = \<lparr>idf_pk = Suc (length (identifiers s)),
                                   idf_internal_asset_id = k,
                                   idf_isin = char_val isin,
                                   idf_lei = char_val lei,
                                   idf_upi = char_val upi,
                                   idf_cusip = char_val cusip,
                                   idf_clearstream_id = char_val clearstream_id,
                                   idf_euroclear_id = char_val euroclear_id,
                                   idf_created_at = clock Identifier_created_at,
                                   idf_updated_at = clock Identifier_updated_at\<rparr>
                          in (Inr r, s\<lparr>identifiers := identifiers s @ [r]\<rparr>))))
           | [r] \<Rightarrow>
               (case Identifier_save_error isin lei upi cusip clearstream_id euroclear_id of
                  Some e \<Rightarrow> (Inl e, s)
                | None \<Rightarrow>
                    (let r' = r\<lparr>idf_isin := char_val isin,
                                idf_lei := char_val lei,
                                idf_upi := char_val upi,
                                idf_cusip := char_val cusip,
                                idf_clearstream_id := char_val clearstream_id,
                                idf_euroclear_id := char_val euroclear_id,
                                idf_updated_at := clock Identifier_updated_at\<rparr>
                     in (Inr r',
                         s\<lparr>identifiers :=
                             map (\<lambda>x. if Some (idf_internal_asset_id x) = char_val key
                                      then r' else x)
                               (identifiers s)\<rparr>)))
           | _ \<Rightarrow> (Inl MultipleObjectsReturned, s)))"

text \<open>\<^verbatim>\<open>Identifier.objects.get_or_create(internal_asset_id=..)\<close>: a new row has every
  other code NULL.\<close>

definition Identifier_get_or_create ::
  "clock \<Rightarrow> jvalue \<Rightarrow> store \<Rightarrow> (error + identifier_row) \<times> store" where
  "Identifier_get_or_create clock key s =
     (case char_error key of
        Some e \<Rightarrow> (Inl e, s)
      | None \<Rightarrow>
          (case filter (\<lambda>r. Some (idf_internal_asset_id r) = char_val key) (identifiers s) of
             [] \<Rightarrow>
               (case char_val key of
                  None \<Rightarrow> (Inl IntegrityError, s)
                | Some k \<Rightarrow>
                    (let r = \<lparr>idf_pk = Suc (length (identifiers s)),
                              idf_internal_asset_id = k,
                              idf_isin = None, idf_lei = None, idf_upi = None,
                              idf_cusip = None,
                              idf_clearstream_id = None, idf_euroclear_id = None,
                              idf_created_at = clock Identifier_created_at,
                              idf_updated_at = clock Identifier_updated_at\<rparr>
                     in (Inr r, s\<lparr>identifiers := identifiers s @ [r]\<rparr>)))
           | [r] \<Rightarrow> (Inr r, s)
           | _ \<Rightarrow> (Inl MultipleObjectsReturned, s)))"

text \<open>
  What saving the defaults of an Offering raises: a conversion that fails, then an
  integer out of range, then NULL for one of the six configuration columns, which are
  declared NOT NULL.
\<close>

definition Offering_save_error ::
  "jvalue \<Rightarrow> jvalue \<Rightarrow> jvalue \<Rightarrow> jvalue \<Rightarrow> jvalue \<Rightarrow> jvalue \<Rightarrow> jvalue \<Rightarrow> error option" where
  "Offering_save_error offering_type max_raise_amount lockup_period start_timestamp
       end_timestamp base_currency last_event_tx_hash =
     (case first_error [char_error offering_type, int_error max_raise_amount,
                        int_error lockup_period, int_error start_timestamp,
                        int_error end_timestamp, char_error base_currency,
                        char_error last_event_tx_hash] of
        Some e \<Rightarrow> Some e
      | None \<Rightarrow>
          if \<not> (int64 max_raise_amount \<and> int64 lockup_period \<and> int64 start_timestamp
                 \<and> int64 end_timestamp)
          then Some OverflowError
          else if char_val offering_type = None
                  \<or> int_val max_raise_amount = None \<or> int_val lockup_period = None
                  \<or> int_val start_timestamp = None \<or> int_val end_timestamp = None
                  \<or> char_val base_currency = None
          then Some IntegrityError
          else None)"

text \<open>
  \<^verbatim>\<open>Offering.objects.update_or_create(internal_asset_id=.., defaults={..})\<close>. The
  defaults do not name the totals, the finalized flag or \<^verbatim>\<open>finalized_at\<close>: a new row
  takes the model's defaults for them (0, 0, False, NULL), a row that exists keeps them.
\<close>

definition Offering_update_or_create ::
  "clock \<Rightarrow> jvalue \<Rightarrow> jvalue \<Rightarrow> jvalue \<Rightarrow> jvalue \<Rightarrow> jvalue \<Rightarrow> jvalue \<Rightarrow> jvalue
     \<Rightarrow> identifier_row \<Rightarrow> jvalue \<Rightarrow> store \<Rightarrow> (error + offering_row) \<times> store" where
  "Offering_update_or_create clock key offering_type max_raise_amount lockup_period
       start_timestamp end_timestamp base_currency identifier last_event_tx_hash s =
     (case char_error key of
        Some e \<Rightarrow> (Inl e, s)
      | None \<Rightarrow>
          (case filter (\<lambda>r. Some (off_internal_asset_id r) = char_val key) (offerings s) of
             [] \<Rightarrow>
               (case Offering_save_error offering_type max_raise_amount lockup_period
                       start_timestamp end_timestamp base_currency last_event_tx_hash of
                  Some e \<Rightarrow> (Inl e, s)
                | None \<Rightarrow>
                    (case char_val key of
                       None \<Rightarrow> (Inl IntegrityError, s)
                     | Some k \<Rightarrow>
                         (let r = \<lparr>off_pk = Suc (length (offerings s)),
                                   off_internal_asset_id = k,
                                   off_offering_type = the (char_val offering_type),
                                   off_max_raise_amount = the (int_val max_raise_amount),
                                   off_lockup_period = the (int_val lockup_period),
                                   off_start_timestamp = the (int_val start_timestamp),
                                   off_end_timestamp = the (int_val end_timestamp),
                                   off_base_currency = the (char_val base_currency),
                                   off_identifier = idf_pk identifier,
                                   off_total_committed = 0,
                                   off_total_units_issued = 0,
                                   off_is_finalized = False,
                                   off_finalized_at = None,
                                   off_last_event_tx_hash = char_val last_event_tx_hash,
                                   off_created_at = clock Offering_created_at,
                                   off_updated_at = clock Offering_updated_at\<rparr>
                          in (Inr r, s\<lparr>offerings := offerings s @ [r]\<rparr>))))
           | [r] \<Rightarrow>
               (case Offering_save_error offering_type max_raise_amount lockup_period
                       start_timestamp end_timestamp base_currency last_event_tx_hash of
                  Some e \<Rightarrow> (Inl e, s)
                | None \<Rightarrow>
                    (let r' = r\<lparr>off_offering_type := the (char_val offering_type),
                                off_max_raise_amount := the (int_val max_raise_amount),
                                off_lockup_period := the (int_val lockup_period),
                                off_start_timestamp := the (int_val start_timestamp),
                                off_end_timestamp := the (int_val end_timestamp),
                                off_base_currency := the (char_val base_currency),
                                off_identifier := idf_pk identifier,
                                off_last_event_tx_hash := char_val last_event_tx_hash,
                                off_updated_at := clock Offering_updated_at\<rparr>
                     in (Inr r',
                         s\<lparr>offerings :=
                             map (\<lambda>x. if Some (off_internal_asset_id x) = char_val key
                                      then r' else x)
                               (offerings s)\<rparr>)))
           | _ \<Rightarrow> (Inl MultipleObjectsReturned, s)))"

text \<open>
  \<^verbatim>\<open>Offering.objects.filter(last_event_tx_hash=..).update(..)\<close>: one UPDATE statement
  over every row the filter selects. The hash is converted when the filter is built,
  the three integers when the statement is built, and they are bound before it runs,
  whether or not a row is selected. NULL for a total violates the column only when a row
  is selected. The statement does not go through \<^verbatim>\<open>save()\<close>, so \<^verbatim>\<open>updated_at\<close> stays.
\<close>

definition Offering_filter_update ::
  "jvalue \<Rightarrow> jvalue \<Rightarrow> jvalue \<Rightarrow> jvalue \<Rightarrow> store \<Rightarrow> error option \<times> store" where
  "Offering_filter_update last_event_tx_hash total_committed total_units_issued finalized_at s =
     (case first_error [char_error last_event_tx_hash, int_error total_committed,
                        int_error total_units_issued, int_error finalized_at] of
        Some e \<Rightarrow> (Some e, s)
      | None \<Rightarrow>
          if \<not> (int64 total_committed \<and> int64 total_units_issued \<and> int64 finalized_at)
          then (Some OverflowError, s)
          else if filter (\<lambda>r. off_last_event_tx_hash r = char_val last_event_tx_hash)
                    (offerings s) \<noteq> []
                  \<and> (int_val total_committed = None \<or> int_val total_units_issued = None)
          then (Some IntegrityError, s)
          else
            (None,
             s\<lparr>offerings :=
                 map (\<lambda>r. if off_last_event_tx_hash r = char_val last_event_tx_hash
                          then r\<lparr>off_total_committed := the (int_val total_committed),
                                 off_total_units_issued := the (int_val total_units_issued),
                                 off_finalized_at := int_val finalized_at,
                                 off_is_finalized := True\<rparr>
                          else r)
                   (offerings s)\<rparr>))"

text \<open>What saving the defaults of an Investor raises: the two flags are declared NOT
  NULL.\<close>

definition Investor_save_error :: "jvalue \<Rightarrow> jvalue \<Rightarrow> jvalue \<Rightarrow> jvalue \<Rightarrow> error option" where
  "Investor_save_error jurisdiction kyc_passed aml_passed last_event_tx_hash =
     (case first_error [char_error jurisdiction, bool_error kyc_passed, bool_error aml_passed,
                        char_error last_event_tx_hash] of
        Some e \<Rightarrow> Some e
      | None \<Rightarrow>
          if bool_val kyc_passed = None \<or> bool_val aml_passed = None
          then Some IntegrityError
          else None)"

text \<open>\<^verbatim>\<open>Investor.objects.update_or_create(wallet_address=.., defaults={..})\<close>; the key is
  the string the reducer has lower-cased.\<close>

definition Investor_update_or_create ::
  "clock \<Rightarrow> string \<Rightarrow> jvalue \<Rightarrow> jvalue \<Rightarrow> jvalue \<Rightarrow> jvalue \<Rightarrow> store
     \<Rightarrow> (error + investor_row) \<times> store" where
  "Investor_update_or_create clock wallet jurisdiction kyc_passed aml_passed
       last_event_tx_hash s =
     (case filter (\<lambda>r. inv_wallet_address r = wallet) (investors s) of
        [] \<Rightarrow>
          (case Investor_save_error jurisdiction kyc_passed aml_passed last_event_tx_hash of
             Some e \<Rightarrow> (Inl e, s)
           | None \<Rightarrow>
               (let r = \<lparr>inv_pk = Suc (length (investors s)),
                         inv_wallet_address = wallet,
                         inv_jurisdiction = char_val jurisdiction,
                         inv_kyc_passed = the (bool_val kyc_passed),
                         inv_aml_passed = the (bool_val aml_passed),
                         inv_last_event_tx_hash = char_val last_event_tx_hash,
                         inv_created_at = clock Investor_created_at,
                         inv_updated_at = clock Investor_updated_at\<rparr>
                in (Inr r, s\<lparr>investors := investors s @ [r]\<rparr>)))
      | [r] \<Rightarrow>
          (case Investor_save_error jurisdiction kyc_passed aml_passed last_event_tx_hash of
             Some e \<Rightarrow> (Inl e, s)
           | None \<Rightarrow>
               (let r' = r\<lparr>inv_jurisdiction := char_val jurisdiction,
                           inv_kyc_passed := the (bool_val kyc_passed),
                           inv_aml_passed := the (bool_val aml_passed),
                           inv_last_event_tx_hash := char_val last_event_tx_hash,
                           inv_updated_at := clock Investor_updated_at\<rparr>
                in (Inr r',
                    s\<lparr>investors :=
                        map (\<lambda>x. if inv_wallet_address x = wallet then r' else x)
                          (investors s)\<rparr>)))
      | _ \<Rightarrow> (Inl MultipleObjectsReturned, s))"

text \<open>\<^verbatim>\<open>Investor.objects.get_or_create(wallet_address=..)\<close>: a row that exists is
  returned as it is; a new row takes the model's defaults.\<close>

definition Investor_get_or_create ::
  "clock \<Rightarrow> string \<Rightarrow> store \<Rightarrow> (error + investor_row) \<times> store" where
  "Investor_get_or_create clock wallet s =
     (case filter (\<lambda>r. inv_wallet_address r = wallet) (investors s) of
        [] \<Rightarrow>
          (let r = \<lparr>inv_pk = Suc (length (investors s)),
                    inv_wallet_address = wallet,
                    inv_jurisdiction = None,
                    inv_kyc_passed = False,
                    inv_aml_passed = False,
                    inv_last_event_tx_hash = None,
                    inv_created_at = clock Investor_created_at,
                    inv_updated_at = clock Investor_updated_at\<rparr>
           in (Inr r, s\<lparr>investors := investors s @ [r]\<rparr>))
      | [r] \<Rightarrow> (Inr r, s)
      | _ \<Rightarrow> (Inl MultipleObjectsReturned, s))"

text \<open>\<^verbatim>\<open>Commitment.objects.create(..)\<close>: every column is declared NOT NULL.\<close>

definition Commitment_create ::
  "clock \<Rightarrow> investor_row \<Rightarrow> jvalue \<Rightarrow> jvalue \<Rightarrow> jvalue \<Rightarrow> jvalue \<Rightarrow> timestamp \<Rightarrow> store
     \<Rightarrow> error option \<times> store" where
  "Commitment_create clock investor amount currency payment_reference tx_hash committed_at s =
     (case first_error [int_error amount, char_error currency, char_error payment_reference,
                        char_error tx_hash] of
        Some e \<Rightarrow> (Some e, s)
      | None \<Rightarrow>
          if \<not> int64 amount then (Some OverflowError, s)
          else if int_val amount = None \<or> char_val currency = None
                  \<or> char_val payment_reference = None \<or> char_val tx_hash = None
          then (Some IntegrityError, s)
          else
            (None,
             s\<lparr>commitments := commitments s @
                 [\<lparr>com_pk = Suc (length (commitments s)),
                   com_investor = inv_pk investor,
                   com_amount = the (int_val amount),
                   com_currency = the (char_val currency),
                   com_payment_reference = the (char_val payment_reference),
                   com_tx_hash = the (char_val tx_hash),
                   com_committed_at = committed_at,
                   com_created_at = clock Commitment_created_at\<rparr>]\<rparr>))"

text \<open>\<^verbatim>\<open>UnitsIssued.objects.create(..)\<close>: the three codes and the identifier may be
  NULL.\<close>

definition UnitsIssued_create ::
  "clock \<Rightarrow> investor_row \<Rightarrow> jvalue \<Rightarrow> jvalue \<Rightarrow> jvalue \<Rightarrow> jvalue \<Rightarrow> jvalue
     \<Rightarrow> identifier_row option \<Rightarrow> jvalue \<Rightarrow> timestamp \<Rightarrow> store \<Rightarrow> error option \<times> store" where
  "UnitsIssued_create clock investor units lockup_release isin lei upi identifier tx_hash
       issued_at s =
     (case first_error [int_error units, int_error lockup_release, char_error isin,
                        char_error lei, char_error upi, char_error tx_hash] of
        Some e \<Rightarrow> (Some e, s)
      | None \<Rightarrow>
          if \<not> (int64 units \<and> int64 lockup_release) then (Some OverflowError, s)
          else if int_val units = None \<or> int_val lockup_release = None
                  \<or> char_val tx_hash = None
          then (Some IntegrityError, s)
          else
            (None,
             s\<lparr>units_issued := units_issued s @
                 [\<lparr>ui_pk = Suc (length (units_issued s)),
                   ui_investor = inv_pk investor,
                   ui_units = the (int_val units),
                   ui_lockup_release = the (int_val lockup_release),
                   ui_isin = char_val isin,
                   ui_lei = char_val lei,
                   ui_upi = char_val upi,
                   ui_identifier = map_option idf_pk identifier,
                   ui_tx_hash = the (char_val tx_hash),
                   ui_issued_at = issued_at,
                   ui_created_at = clock UnitsIssued_created_at\<rparr>]\<rparr>))"

text \<open>\<^verbatim>\<open>SettlementRecord.objects.create(..)\<close>: the six columns the reducer names, and
  the two automatic ones; every column is declared NOT NULL.\<close>

definition SettlementRecord_create ::
  "clock \<Rightarrow> investor_row \<Rightarrow> jvalue \<Rightarrow> jvalue \<Rightarrow> jvalue \<Rightarrow> jvalue \<Rightarrow> timestamp \<Rightarrow> store
     \<Rightarrow> error option \<times> store" where
  "SettlementRecord_create clock investor units settlement_system external_reference tx_hash
       settled_at s =
     (case first_error [int_error units, char_error settlement_system,
                        char_error external_reference, char_error tx_hash] of
        Some e \<Rightarrow> (Some e, s)
      | None \<Rightarrow>
          if \<not> int64 units then (Some OverflowError, s)
          else if int_val units = None \<or> char_val settlement_system = None
                  \<or> char_val external_reference = None \<or> char_val tx_hash = None
          then (Some IntegrityError, s)
          else
            (None,
             s\<lparr>settlement_records := settlement_records s @
                 [\<lparr>sr_pk = Suc (length (settlement_records s)),
                   sr_investor = inv_pk investor,
                   sr_units = the (int_val units),
                   sr_settlement_system = the (char_val settlement_system),
                   sr_external_reference = the (char_val external_reference),
                   sr_tx_hash = the (char_val tx_hash),
                   sr_settled_at = settled_at,
                   sr_created_at = clock SettlementRecord_created_at\<rparr>]\<rparr>))"

section \<open>The reducers\<close>

text \<open>
  A reducer takes the clock of the event, the payload and the database, and returns the
  exception it ends with (None when it returns) and the database it leaves. Neither a
  reducer nor the view opens a transaction, so under Django's autocommit the writes made
  before an exception stay.
\<close>

type_synonym reducer = "clock \<Rightarrow> pydict \<Rightarrow> store \<Rightarrow> error option \<times> store"

definition handle_offering_configured :: reducer where
  "handle_offering_configured clock payload s =
     (case dict_get_default payload ''identifiers'' (JObj []) of
        JObj identifiers_data \<Rightarrow>
          (case Identifier_update_or_create clock
                  (dict_get identifiers_data ''internal_asset_id'')
                  (dict_get identifiers_data ''isin'')
                  (dict_get identifiers_data ''lei'')
                  (dict_get identifiers_data ''upi'')
                  (dict_get identifiers_data ''cusip'')
                  (dict_get identifiers_data ''clearstream_id'')
                  (dict_get identifiers_data ''euroclear_id'') s of
             (Inl e, s1) \<Rightarrow> (Some e, s1)
           | (Inr identifier, s1) \<Rightarrow>
               (case Offering_update_or_create clock
                       (dict_get identifiers_data ''internal_asset_id'')
                       (dict_get payload ''offering_type'')
                       (dict_get payload ''max_raise_amount'')
                       (dict_get payload ''lockup_period'')
                       (dict_get payload ''start_timestamp'')
                       (dict_get payload ''end_timestamp'')
                       (dict_get payload ''base_currency'')
                       identifier
                       (dict_get payload ''transaction_hash'') s1 of
                  (Inl e, s2) \<Rightarrow> (Some e, s2)
                | (Inr offering, s2) \<Rightarrow> (None, s2)))
      | _ \<Rightarrow> (Some AttributeError, s))"

definition handle_investor_whitelisted :: reducer where
  "handle_investor_whitelisted clock payload s =
     (case dict_get payload ''investor'' of
        JStr investor \<Rightarrow>
          (case Investor_update_or_create clock (lower investor)
                  (dict_get payload ''jurisdiction'')
                  (dict_get_default payload ''kyc_passed'' (JBool False))
                  (dict_get_default payload ''aml_passed'' (JBool False))
                  (dict_get payload ''transaction_hash'') s of
             (Inl e, s1) \<Rightarrow> (Some e, s1)
           | (Inr row, s1) \<Rightarrow> (None, s1))
      | _ \<Rightarrow> (Some AttributeError, s))"

definition handle_commitment_recorded :: reducer where
  "handle_commitment_recorded clock payload s =
     (case dict_get payload ''investor'' of
        JStr w \<Rightarrow>
          (let wallet = lower w in
           case Investor_get_or_create clock wallet s of
             (Inl e, s1) \<Rightarrow> (Some e, s1)
           | (Inr investor, s1) \<Rightarrow>
               Commitment_create clock investor
                 (dict_get payload ''amount'')
                 (dict_get payload ''currency'')
                 (dict_get payload ''payment_reference'')
                 (dict_get payload ''transaction_hash'')
                 (clock Timezone_now) s1)
      | _ \<Rightarrow> (Some AttributeError, s))"

definition handle_units_issued :: reducer where
  "handle_units_issued clock payload s =
     (case dict_get payload ''investor'' of
        JStr w \<Rightarrow>
          (let wallet = lower w in
           case Investor_get_or_create clock wallet s of
             (Inl e, s1) \<Rightarrow> (Some e, s1)
           | (Inr investor, s1) \<Rightarrow>
               (case dict_get_default payload ''identifiers'' (JObj []) of
                  JObj identifiers_data \<Rightarrow>
                    (let internal_asset_id = dict_get identifiers_data ''internal_asset_id'' in
                     if truthy internal_asset_id
                     then
                       (case Identifier_get_or_create clock internal_asset_id s1 of
                          (Inl e, s2) \<Rightarrow> (Some e, s2)
                        | (Inr identifier, s2) \<Rightarrow>
                            UnitsIssued_create clock investor
                              (dict_get payload ''units'')
                              (dict_get payload ''lockup_release'')
                              (dict_get identifiers_data ''isin'')
                              (dict_get identifiers_data ''lei'')
                              (dict_get identifiers_data ''upi'')
                              (Some identifier)
                              (dict_get payload ''transaction_hash'')
                              (clock Timezone_now) s2)
                     else
                       UnitsIssued_create clock investor
                         (dict_get payload ''units'')
                         (dict_get payload ''lockup_release'')
                         (dict_get identifiers_data ''isin'')
                         (dict_get identifiers_data ''lei'')
                         (dict_get identifiers_data ''upi'')
                         None
                         (dict_get payload ''transaction_hash'')
                         (clock Timezone_now) s1)
                | _ \<Rightarrow> (Some AttributeError, s1)))
      | _ \<Rightarrow> (Some AttributeError, s))"

definition handle_settlement_recorded :: reducer where
  "handle_settlement_recorded clock payload s =
     (case dict_get payload ''investor'' of
        JStr w \<Rightarrow>
          (let wallet = lower w in
           case Investor_get_or_create clock wallet s of
             (Inl e, s1) \<Rightarrow> (Some e, s1)
           | (Inr investor, s1) \<Rightarrow>
               SettlementRecord_create clock investor
                 (dict_get payload ''units'')
                 (dict_get payload ''settlement_system'')
                 (dict_get payload ''external_reference'')
                 (dict_get payload ''transaction_hash'')
                 (clock Timezone_now) s1)
      | _ \<Rightarrow> (Some AttributeError, s))"

definition handle_finalized :: reducer where
  "handle_finalized clock payload s =
     (let tx_hash = dict_get payload ''transaction_hash'' in
      Offering_filter_update tx_hash
        (dict_get payload ''total_committed'')
        (dict_get payload ''total_units_issued'')
        (dict_get payload ''finalized_at'') s)"

section \<open>Dispatch\<close>

text \<open>The registry the \<^verbatim>\<open>event_handler\<close> decorator fills at import time.\<close>

definition EVENT_HANDLERS :: "string \<Rightarrow> reducer option" where
  "EVENT_HANDLERS =
     map_of
       [(''OfferingConfigured'', handle_offering_configured),
        (''InvestorWhitelisted'', handle_investor_whitelisted),
        (''CommitmentRecorded'', handle_commitment_recorded),
        (''UnitsIssued'', handle_units_issued),
        (''SettlementRecorded'', handle_settlement_recorded),
        (''Finalized'', handle_finalized)]"

text \<open>
  \<^verbatim>\<open>ingest_event\<close>: a falsy event name and a name without a handler return at once. A
  list or a dict as the name is truthy when it is not empty, and then cannot be hashed
  for the registry lookup.
\<close>

definition ingest_event :: reducer where
  "ingest_event clock event_payload s =
     (let event_name = dict_get event_payload ''event'' in
      if \<not> truthy event_name then (None, s)
      else
        (case event_name of
           JStr name \<Rightarrow>
             (case EVENT_HANDLERS name of
                None \<Rightarrow> (None, s)
              | Some handler \<Rightarrow> handler clock event_payload s)
         | JList _ \<Rightarrow> (Some TypeError, s)
         | JObj _ \<Rightarrow> (Some TypeError, s)
         | _ \<Rightarrow> (None, s)))"

text \<open>
  A stream of events, each with its clock. The view answers an
  exception with status 500 and takes the next request, so the database an event
  leaves is the one the next event finds.
\<close>

fun ingest_all :: "(clock \<times> pydict) list \<Rightarrow> store \<Rightarrow> store" where
  "ingest_all [] s = s"
| "ingest_all ((clock, event_payload) # events) s =
     ingest_all events (snd (ingest_event clock event_payload s))"

text \<open>The column names and values of a settlement row, in the order of the model class
  \<^verbatim>\<open>SettlementRecord\<close> (Django's \<^verbatim>\<open>_meta.fields\<close>).\<close>

definition SettlementRecord_fields :: "settlement_row \<Rightarrow> (string \<times> jvalue) list" where
  "SettlementRecord_fields r =
     [(''id'', JInt (int (sr_pk r))),
      (''investor'', JInt (int (sr_investor r))),
      (''units'', JInt (sr_units r)),
      (''settlement_system'', JStr (sr_settlement_system r)),
      (''external_reference'', JStr (sr_external_reference r)),
      (''tx_hash'', JStr (sr_tx_hash r)),
      (''settled_at'', JInt (sr_settled_at r)),
      (''created_at'', JInt (sr_created_at r))]"

section \<open>Example events\<close>

text \<open>Payloads as the ledger sends them, used to run the reducers on concrete input.
  \<open>tick n\<close> is the clock of the \<open>n\<close>-th event of an example: its readings differ in
  the last two digits.\<close>

definition tick :: "int \<Rightarrow> clock" where
  "tick n reading =
     100 * n +
     (case reading of
        Timezone_now \<Rightarrow> 0
      | Identifier_created_at \<Rightarrow> 1
      | Identifier_updated_at \<Rightarrow> 2
      | Offering_created_at \<Rightarrow> 3
      | Offering_updated_at \<Rightarrow> 4
      | Investor_created_at \<Rightarrow> 5
      | Investor_updated_at \<Rightarrow> 6
      | Commitment_created_at \<Rightarrow> 7
      | UnitsIssued_created_at \<Rightarrow> 8
      | SettlementRecord_created_at \<Rightarrow> 9)"

definition offering_configured_event :: "string \<Rightarrow> int \<Rightarrow> string \<Rightarrow> pydict" where
  "offering_configured_event asset max_raise tx =
     [(''event'', JStr ''OfferingConfigured''),
      (''identifiers'', JObj [(''internal_asset_id'', JStr asset), (''isin'', JStr ''US0378331005'')]),
      (''offering_type'', JStr ''REG_D''),
      (''max_raise_amount'', JInt max_raise),
      (''lockup_period'', JInt 31536000),
      (''start_timestamp'', JInt 1700000000),
      (''end_timestamp'', JInt 1800000000),
      (''base_currency'', JStr ''USD''),
      (''transaction_hash'', JStr tx)]"

definition finalized_event :: "string \<Rightarrow> int \<Rightarrow> int \<Rightarrow> pydict" where
  "finalized_event tx committed issued =
     [(''event'', JStr ''Finalized''),
      (''transaction_hash'', JStr tx),
      (''total_committed'', JInt committed),
      (''total_units_issued'', JInt issued),
      (''finalized_at'', JInt 1800000001)]"

text \<open>The same event with its two totals sent as text.\<close>

definition finalized_event_text :: "string \<Rightarrow> string \<Rightarrow> string \<Rightarrow> pydict" where
  "finalized_event_text tx committed issued =
     [(''event'', JStr ''Finalized''),
      (''transaction_hash'', JStr tx),
      (''total_committed'', JStr committed),
      (''total_units_issued'', JStr issued),
      (''finalized_at'', JInt 1800000001)]"



definition investor_whitelisted_event :: "string \<Rightarrow> string \<Rightarrow> bool \<Rightarrow> pydict" where
  "investor_whitelisted_event wallet jurisdiction kyc =
     [(''event'', JStr ''InvestorWhitelisted''),
      (''investor'', JStr wallet),
      (''jurisdiction'', JStr jurisdiction),
      (''kyc_passed'', JBool kyc),
      (''aml_passed'', JBool True),
      (''transaction_hash'', JStr ''0xW1'')]"

definition commitment_recorded_event :: "string \<Rightarrow> int \<Rightarrow> pydict" where
  "commitment_recorded_event wallet amount =
     [(''event'', JStr ''CommitmentRecorded''),
      (''investor'', JStr wallet),
      (''amount'', JInt amount),
      (''currency'', JStr ''USD''),
      (''payment_reference'', JStr ''REF1''),
      (''transaction_hash'', JStr ''0xH1'')]"

definition units_issued_event :: "string \<Rightarrow> int \<Rightarrow> pydict" where
  "units_issued_event wallet units =
     [(''event'', JStr ''UnitsIssued''),
      (''investor'', JStr wallet),
      (''units'', JInt units),
      (''lockup_release'', JInt 1900000000),
      (''identifiers'', JObj [(''internal_asset_id'', JStr ''ASSET-A'')]),
      (''transaction_hash'', JStr ''0xU1'')]"

definition settlement_recorded_event :: "string \<Rightarrow> int \<Rightarrow> pydict" where
  "settlement_recorded_event wallet units =
     [(''event'', JStr ''SettlementRecorded''),
      (''investor'', JStr wallet),
      (''units'', JInt units),
      (''settlement_system'', JStr ''CLEARSTREAM''),
      (''external_reference'', JStr ''CLSTM-2025-001''),
      (''transaction_hash'', JStr ''0xS1'')]"

definition one_investor :: store where
  "one_investor = ingest_all [(tick 1, investor_whitelisted_event ''0xABC'' ''US'' True)] empty_store"

definition whitelisted_then_committed :: store where
  "whitelisted_then_committed =
     ingest_all
       [(tick 1, investor_whitelisted_event ''0xABC'' ''US'' True),
        (tick 2, commitment_recorded_event ''0xabc'' 1000)]
       empty_store"

text \<open>One wallet, written in four ways by four events.\<close>

definition one_wallet_events :: "(clock \<times> pydict) list" where
  "one_wallet_events =
     [(tick 1, investor_whitelisted_event ''0xABC'' ''US'' True),
      (tick 2, commitment_recorded_event ''0xabc'' 1000),
      (tick 3, units_issued_event ''0xAbC'' 10),
      (tick 4, settlement_recorded_event ''0XABC'' 10)]"

definition one_wallet :: store where
  "one_wallet = ingest_all one_wallet_events empty_store"

definition configured_once :: store where
  "configured_once =
     snd (handle_offering_configured (tick 1) (offering_configured_event ''ASSET-A'' 1000 ''0xT1'')
            empty_store)"

definition configured_twice :: store where
  "configured_twice =
     snd (handle_offering_configured (tick 2) (offering_configured_event ''ASSET-A'' 1000 ''0xT1'')
            configured_once)"

text \<open>
  The columns of an Identifier and of an Offering that section 3 of the specification
  and the reducers name: every column but the two that Django keeps for itself,
  \<^verbatim>\<open>created_at\<close> and \<^verbatim>\<open>updated_at\<close>.
\<close>

definition identifier_values ::
  "identifier_row \<Rightarrow> nat \<times> string \<times> string option list" where
  "identifier_values r =
     (idf_pk r, idf_internal_asset_id r,
      [idf_isin r, idf_lei r, idf_upi r, idf_cusip r, idf_clearstream_id r, idf_euroclear_id r])"

definition offering_values ::
  "offering_row \<Rightarrow> nat \<times> string \<times> string list \<times> int list \<times> nat \<times> bool \<times> int option
     \<times> string option" where
  "offering_values r =
     (off_pk r, off_internal_asset_id r,
      [off_offering_type r, off_base_currency r],
      [off_max_raise_amount r, off_lockup_period r, off_start_timestamp r, off_end_timestamp r,
       off_total_committed r, off_total_units_issued r],
      off_identifier r, off_is_finalized r, off_finalized_at r, off_last_event_tx_hash r)"

definition offering_config :: "offering_row \<Rightarrow> string \<times> int \<times> int \<times> int \<times> int \<times> string" where
  "offering_config r =
     (off_offering_type r, off_max_raise_amount r, off_lockup_period r,
      off_start_timestamp r, off_end_timestamp r, off_base_currency r)"

definition offering_totals :: "offering_row \<Rightarrow> int \<times> int" where
  "offering_totals r = (off_total_committed r, off_total_units_issued r)"

text \<open>
  The totals of a Finalized payload as the columns take them: neither converts to a
  negative integer.
\<close>

definition nonneg_totals :: "pydict \<Rightarrow> bool" where
  "nonneg_totals p =
     ((case int_val (dict_get p ''total_committed'') of Some n \<Rightarrow> 0 \<le> n | None \<Rightarrow> True) \<and>
      (case int_val (dict_get p ''total_units_issued'') of Some n \<Rightarrow> 0 \<le> n | None \<Rightarrow> True))"

text \<open>
  How one event may change one Offering row: the key stays, \<open>is_finalized\<close> does not
  fall back, the configuration changes only under OfferingConfigured for the row's own
  asset, the totals only under Finalized with the row's last event hash. The asset and
  the hash of the payload are taken as the columns convert them.
\<close>

definition offering_row_step :: "pydict \<Rightarrow> offering_row \<Rightarrow> offering_row \<Rightarrow> bool" where
  "offering_row_step p r r' =
     (off_internal_asset_id r' = off_internal_asset_id r \<and>
      (off_is_finalized r \<longrightarrow> off_is_finalized r') \<and>
      (offering_config r' \<noteq> offering_config r \<longrightarrow>
         dict_get p ''event'' = JStr ''OfferingConfigured'' \<and>
         (case dict_get_default p ''identifiers'' (JObj []) of
            JObj d \<Rightarrow>
              char_val (dict_get d ''internal_asset_id'') = Some (off_internal_asset_id r)
          | _ \<Rightarrow> False)) \<and>
      (offering_totals r' \<noteq> offering_totals r \<longrightarrow>
         dict_get p ''event'' = JStr ''Finalized'' \<and>
         off_last_event_tx_hash r = char_val (dict_get p ''transaction_hash'')))"

definition offerings_step :: "pydict \<Rightarrow> offering_row list \<Rightarrow> offering_row list \<Rightarrow> bool" where
  "offerings_step p xs xs' =
     (length xs \<le> length xs' \<and> (\<forall>i < length xs. offering_row_step p (xs ! i) (xs' ! i)))"

definition totals_nonneg :: "store \<Rightarrow> bool" where
  "totals_nonneg s =
     (\<forall>r \<in> set (offerings s). 0 \<le> off_total_committed r \<and> 0 \<le> off_total_units_issued r)"


definition finalized_offering :: store where
  "finalized_offering =
     ingest_all
       [(tick 1, offering_configured_event ''ASSET-A'' 1000 ''0xT1''),
        (tick 2, finalized_event ''0xT1'' 500 20)]
       empty_store"

definition reconfigured_offering :: store where
  "reconfigured_offering =
     snd (ingest_event (tick 3) (offering_configured_event ''ASSET-A'' 9999 ''0xT3'') finalized_offering)"

definition refinalized_offering :: store where
  "refinalized_offering =
     snd (ingest_event (tick 3) (finalized_event ''0xT1'' 777 21) finalized_offering)"

definition negative_totals_offering :: store where
  "negative_totals_offering =
     ingest_all
       [(tick 1, offering_configured_event ''ASSET-A'' 1000 ''0xT1''),
        (tick 2, finalized_event ''0xT1'' (- 5) (- 7))]
       empty_store"

definition text_totals_offering :: store where
  "text_totals_offering =
     ingest_all
       [(tick 1, offering_configured_event ''ASSET-A'' 1000 ''0xT1''),
        (tick 2, finalized_event_text ''0xT1'' ''-5'' '' 7_000 '')]
       empty_store"

definition settlement_recorded_once :: store where
  "settlement_recorded_once =
     snd (handle_settlement_recorded (tick 5) (settlement_recorded_event ''0xABC'' 100) empty_store)"


section \<open>The reconciliation service\<close>

text \<open>
  Modelled from the spec: \<^verbatim>\<open>csd_reconciliation.py\<close> imports \<^verbatim>\<open>CSDSystem\<close>,
  \<^verbatim>\<open>SettlementStatus\<close> and \<^verbatim>\<open>InvestorPosition\<close> from the models module, which does not
  define them, and it reads attributes of \<^verbatim>\<open>SettlementRecord\<close> and \<^verbatim>\<open>CSDMapping\<close> that
  the Django classes do not have. The types below are those declarations, taken from the
  attributes the service reads and from the objects its \<^verbatim>\<open>main()\<close> builds. \<open>CSDSystem\<close>
  has the four members the service names; \<open>OTHER\<close> stands for any further member. The
  value of a member is its name, as the credential keys of \<^verbatim>\<open>main()\<close> show. A datetime
  is held as the two texts the adapters send.
\<close>

datatype CSDSystem = CLEARSTREAM | EUROCLEAR | DTCC | DPO_GLOBAL | OTHER string

fun CSDSystem_value :: "CSDSystem \<Rightarrow> string" where
  "CSDSystem_value CLEARSTREAM = ''CLEARSTREAM''"
| "CSDSystem_value EUROCLEAR = ''EUROCLEAR''"
| "CSDSystem_value DTCC = ''DTCC''"
| "CSDSystem_value DPO_GLOBAL = ''DPO_GLOBAL''"
| "CSDSystem_value (OTHER name) = name"

record datetime =
  strftime_ymd :: string
  isoformat :: string

record recon_record =
  investor_address :: string
  units :: string
  settlement_system :: CSDSystem
  external_ref :: string
  settlement_date :: datetime
  block_number :: int
  transaction_hash :: string

record recon_mapping =
  csd_system :: CSDSystem
  csd_security_id :: string
  active :: bool
  metadata :: jvalue

text \<open>\<^verbatim>\<open>api_credentials\<close>: CSD system name to a dict of credential strings.\<close>

type_synonym credentials = "(string \<times> (string \<times> string) list) list"

text \<open>
  The provider's side of one call of the HTTP client: the request as the adapter hands
  it over, and what comes back. The call returns a response or raises (no connection,
  the 30 second timeout, a value the client cannot send); \<^verbatim>\<open>response.json()\<close> returns
  the decoded body or raises on a body that is not JSON. Exceptions are of the class
  \<^verbatim>\<open>Exception\<close> and carry the text \<^verbatim>\<open>str(e)\<close> gives; task cancellation and interpreter
  exit are not calls' outcomes here.
\<close>

datatype exn = Exn string

datatype http_request =
    GET string "(string \<times> string option) list" "(string \<times> string) list"
  | POST string "(string \<times> string option) list" pydict

datatype http_body = Json jvalue | Not_json exn

datatype http_reply = Reply int http_body | Raises exn

type_synonym network = "http_request \<Rightarrow> http_reply"

text \<open>A step of an adapter: what it returns or raises, and the requests it has sent.\<close>

type_synonym 'a io = "(exn + 'a) \<times> http_request list"

text \<open>The result tuple \<^verbatim>\<open>(reconciled, error_message)\<close>; the message is None, a text, or
  for the internal system whatever the provider put under \<^verbatim>\<open>"error"\<close>.\<close>

type_synonym outcome = "bool \<times> jvalue"

text \<open>\<^verbatim>\<open>except Exception as e: return handler(str(e))\<close> around a block.\<close>

definition except_Exception :: "'a io \<Rightarrow> (string \<Rightarrow> 'a) \<Rightarrow> 'a io" where
  "except_Exception block handler =
     (case block of
        (Inl (Exn msg), sent) \<Rightarrow> (Inr (handler msg), sent)
      | (Inr v, sent) \<Rightarrow> (Inr v, sent))"

text \<open>An optional text inside an f-string: None prints as \<^verbatim>\<open>None\<close>.\<close>

definition fstr :: "string option \<Rightarrow> string" where
  "fstr v = (case v of None \<Rightarrow> ''None'' | Some s \<Rightarrow> s)"

text \<open>The AttributeError of \<^verbatim>\<open>v.get(..)\<close> on a value that is not a dict.\<close>

definition type_name :: "jvalue \<Rightarrow> string" where
  "type_name v =
     (case v of
        JNull \<Rightarrow> ''NoneType'' | JBool _ \<Rightarrow> ''bool'' | JInt _ \<Rightarrow> ''int''
      | JStr _ \<Rightarrow> ''str'' | JList _ \<Rightarrow> ''list'' | JObj _ \<Rightarrow> ''dict'')"

definition no_attribute_get :: "jvalue \<Rightarrow> exn" where
  "no_attribute_get v =
     Exn ([CHR 0x27] @ type_name v @ [CHR 0x27] @ '' object has no attribute ''
          @ [CHR 0x27] @ ''get'' @ [CHR 0x27])"

definition reconcile_clearstream ::
  "credentials \<Rightarrow> network \<Rightarrow> recon_record \<Rightarrow> recon_mapping \<Rightarrow> outcome io" where
  "reconcile_clearstream credentials http_client record mapping =
     except_Exception
       (case map_of credentials (CSDSystem_value CLEARSTREAM) of
          None \<Rightarrow> (Inr (False, JStr ''Clearstream credentials not configured''), [])
        | Some creds \<Rightarrow>
            (let endpoint = map_of creds ''endpoint'';
                 api_key = map_of creds ''api_key'';
                 headers = [(''Authorization'', Some (''Bearer '' @ fstr api_key)),
                            (''Content-Type'', Some ''application/json'')];
                 params = [(''reference'', external_ref record),
                           (''security_id'', csd_security_id mapping),
                           (''date'', strftime_ymd (settlement_date record))];
                 request = GET (fstr endpoint @ ''/settlements/verify'') headers params
             in case http_client request of
                  Raises e \<Rightarrow> (Inl e, [request])
                | Reply status_code body \<Rightarrow>
                    if status_code = 200
                    then
                      (case body of
                         Not_json e \<Rightarrow> (Inl e, [request])
                       | Json (JObj csd_data) \<Rightarrow>
                           (let csd_units =
                                  py_str (dict_get_default csd_data ''quantity'' (JStr ''0''))
                            in if csd_units = units record
                               then (Inr (True, JNull), [request])
                               else (Inr (False,
                                          JStr (''Unit mismatch: on-chain='' @ units record
                                                @ '', CSD='' @ csd_units)),
                                     [request]))
                       | Json v \<Rightarrow> (Inl (no_attribute_get v), [request]))
                    else (Inr (False,
                               JStr (''Clearstream API error: '' @ str_int status_code)),
                          [request])))
       (\<lambda>msg. (False, JStr (''Clearstream reconciliation failed: '' @ msg)))"

definition reconcile_euroclear ::
  "credentials \<Rightarrow> network \<Rightarrow> recon_record \<Rightarrow> recon_mapping \<Rightarrow> outcome io" where
  "reconcile_euroclear credentials http_client record mapping =
     except_Exception
       (case map_of credentials (CSDSystem_value EUROCLEAR) of
          None \<Rightarrow> (Inr (False, JStr ''Euroclear credentials not configured''), [])
        | Some creds \<Rightarrow>
            (let endpoint = map_of creds ''endpoint'';
                 api_key = map_of creds ''api_key'';
                 headers = [(''X-API-Key'', api_key),
                            (''Content-Type'', Some ''application/json'')]
             in case metadata mapping of
                  JObj meta \<Rightarrow>
                    (let payload = [(''instruction_reference'', JStr (external_ref record)),
                                    (''isin'', dict_get meta ''isin''),
                                    (''settlement_date'', JStr (isoformat (settlement_date record))),
                                    (''quantity'', JStr (units record))];
                         request = POST (fstr endpoint @ ''/v1/settlement/verify'') headers payload
                     in case http_client request of
                          Raises e \<Rightarrow> (Inl e, [request])
                        | Reply status_code body \<Rightarrow>
                            if status_code = 200
                            then
                              (case body of
                                 Not_json e \<Rightarrow> (Inl e, [request])
                               | Json (JObj result) \<Rightarrow>
                                   if truthy (dict_get_default result ''matched'' (JBool False))
                                   then (Inr (True, JNull), [request])
                                   else (Inr (False,
                                              JStr (''Euroclear mismatch: ''
                                                    @ py_str (dict_get_default result ''reason''
                                                                (JStr ''Unknown'')))),
                                         [request])
                               | Json v \<Rightarrow> (Inl (no_attribute_get v), [request]))
                            else (Inr (False,
                                       JStr (''Euroclear API error: ''
                                             @ str_int status_code)),
                                  [request]))
                | v \<Rightarrow> (Inl (no_attribute_get v), [])))
       (\<lambda>msg. (False, JStr (''Euroclear reconciliation failed: '' @ msg)))"

text \<open>The DTCC adapter is a placeholder: with credentials it reports success without a
  call.\<close>

definition reconcile_dtcc ::
  "credentials \<Rightarrow> network \<Rightarrow> recon_record \<Rightarrow> recon_mapping \<Rightarrow> outcome io" where
  "reconcile_dtcc credentials http_client record mapping =
     except_Exception
       (case map_of credentials (CSDSystem_value DTCC) of
          None \<Rightarrow> (Inr (False, JStr ''DTCC credentials not configured''), [])
        | Some creds \<Rightarrow> (Inr (True, JNull), []))
       (\<lambda>msg. (False, JStr (''DTCC reconciliation failed: '' @ msg)))"

definition reconcile_dpo_global ::
  "credentials \<Rightarrow> network \<Rightarrow> recon_record \<Rightarrow> recon_mapping \<Rightarrow> outcome io" where
  "reconcile_dpo_global credentials http_client record mapping =
     except_Exception
       (case map_of credentials (CSDSystem_value DPO_GLOBAL) of
          None \<Rightarrow> (Inr (False, JStr ''DPO Global credentials not configured''), [])
        | Some creds \<Rightarrow>
            (let endpoint = map_of creds ''endpoint'';
                 api_key = map_of creds ''api_key'';
                 headers = [(''Authorization'', Some (''Bearer '' @ fstr api_key)),
                            (''Content-Type'', Some ''application/json'')];
                 payload = [(''settlement_id'', JStr (external_ref record)),
                            (''investor'', JStr (investor_address record)),
                            (''units'', JStr (units record)),
                            (''timestamp'', JStr (isoformat (settlement_date record)))];
                 request = POST (fstr endpoint @ ''/api/v1/settlements/verify'') headers payload
             in case http_client request of
                  Raises e \<Rightarrow> (Inl e, [request])
                | Reply status_code body \<Rightarrow>
                    if status_code = 200
                    then
                      (case body of
                         Not_json e \<Rightarrow> (Inl e, [request])
                       | Json (JObj result) \<Rightarrow>
                           if truthy (dict_get_default result ''verified'' (JBool False))
                           then (Inr (True, JNull), [request])
                           else (Inr (False,
                                      dict_get_default result ''error''
                                        (JStr ''Verification failed'')),
                                 [request])
                       | Json v \<Rightarrow> (Inl (no_attribute_get v), [request]))
                    else (Inr (False,
                               JStr (''DPO Global API error: '' @ str_int status_code)),
                          [request])))
       (\<lambda>msg. (False, JStr (''DPO Global reconciliation failed: '' @ msg)))"

text \<open>\<^verbatim>\<open>reconcile_settlement\<close>: the dispatch on the mapping's system, inside its own
  \<^verbatim>\<open>try\<close>.\<close>

definition reconcile_settlement ::
  "credentials \<Rightarrow> network \<Rightarrow> recon_record \<Rightarrow> recon_mapping \<Rightarrow> outcome io" where
  "reconcile_settlement credentials http_client on_chain_record csd_mapping =
     except_Exception
       (let csd_system = csd_system csd_mapping in
        if csd_system = CLEARSTREAM
          then reconcile_clearstream credentials http_client on_chain_record csd_mapping
        else if csd_system = EUROCLEAR
          then reconcile_euroclear credentials http_client on_chain_record csd_mapping
        else if csd_system = DTCC
          then reconcile_dtcc credentials http_client on_chain_record csd_mapping
        else if csd_system = DPO_GLOBAL
          then reconcile_dpo_global credentials http_client on_chain_record csd_mapping
        else (Inr (False, JStr (''Unsupported CSD system: '' @ CSDSystem_value csd_system)), []))
       (\<lambda>msg. (False, JStr (''Reconciliation error: '' @ msg)))"

definition example_credentials :: credentials where
  "example_credentials =
     [(''CLEARSTREAM'', [(''api_key'', ''key-1''), (''endpoint'', ''https://api.clearstream.com/v1'')]),
      (''EUROCLEAR'', [(''api_key'', ''key-2''), (''endpoint'', ''https://api.euroclear.com'')]),
      (''DPO_GLOBAL'', [(''api_key'', ''key-3''), (''endpoint'', ''https://api.dpo-global.com'')])]"

definition example_record :: "string \<Rightarrow> string \<Rightarrow> recon_record" where
  "example_record ref n =
     \<lparr>investor_address = ''0x1234'',
      units = n,
      settlement_system = CLEARSTREAM,
      external_ref = ref,
      settlement_date = \<lparr>strftime_ymd = ''2025-01-15'', isoformat = ''2025-01-15T10:00:00''\<rparr>,
      block_number = 12345,
      transaction_hash = ''0xabc''\<rparr>"

definition example_mapping :: "CSDSystem \<Rightarrow> recon_mapping" where
  "example_mapping system =
     \<lparr>csd_system = system, csd_security_id = ''US0378331005'', active = True,
      metadata = JObj [(''isin'', JStr ''US0378331005'')]\<rparr>"

text \<open>A provider that answers every request with status 200 and the given body.\<close>

definition answers :: "jvalue \<Rightarrow> network" where
  "answers body = (\<lambda>request. Reply 200 (Json body))"

text \<open>A provider that cannot be reached, and one that answers 200 with a body that is
  not JSON.\<close>

definition unreachable :: "string \<Rightarrow> network" where
  "unreachable msg = (\<lambda>request. Raises (Exn msg))"

definition garbled :: "string \<Rightarrow> network" where
  "garbled msg = (\<lambda>request. Reply 200 (Not_json (Exn msg)))"

text \<open>The name an adapter uses for its system in its messages.\<close>

fun adapter_name :: "CSDSystem \<Rightarrow> string" where
  "adapter_name CLEARSTREAM = ''Clearstream''"
| "adapter_name EUROCLEAR = ''Euroclear''"
| "adapter_name DTCC = ''DTCC''"
| "adapter_name DPO_GLOBAL = ''DPO Global''"
| "adapter_name (OTHER name) = name"

section \<open>Batch reconciliation\<close>

text \<open>The entry \<^verbatim>\<open>{"success": success, "error": error}\<close> of the result dict.\<close>

record result_entry =
  success :: bool
  error :: jvalue

text \<open>What one task of the batch ends with: the exception it raises, or the pair
  \<^verbatim>\<open>(record.external_ref, entry)\<close> it returns.\<close>

type_synonym task_outcome = "exn + string \<times> result_entry"

text \<open>
  The body of \<^verbatim>\<open>reconcile_with_semaphore\<close> inside \<^verbatim>\<open>async with semaphore\<close>: the call of
  \<open>reconcile_settlement\<close> and the pair built from its result. An exception of the call
  would leave the block as it is.
\<close>

definition reconcile_with_semaphore ::
  "credentials \<Rightarrow> network \<Rightarrow> recon_record \<times> recon_mapping \<Rightarrow> (string \<times> result_entry) io" where
  "reconcile_with_semaphore credentials http_client pair =
     (case pair of (record, mapping) \<Rightarrow>
        (case reconcile_settlement credentials http_client record mapping of
           (Inl e, sent) \<Rightarrow> (Inl e, sent)
         | (Inr result, sent) \<Rightarrow>
             (Inr (external_ref record, \<lparr>success = fst result, error = snd result\<rparr>), sent)))"

text \<open>
  The tasks \<^verbatim>\<open>batch_reconcile\<close> hands to \<^verbatim>\<open>asyncio.gather\<close>, one per pair in the order of
  the list. The providers answer each task on its own, so the network is given per
  position.
\<close>

definition task_outcomes ::
  "credentials \<Rightarrow> (nat \<Rightarrow> network) \<Rightarrow> (recon_record \<times> recon_mapping) list \<Rightarrow> task_outcome list"
  where
  "task_outcomes credentials http_client records =
     map (\<lambda>i. fst (reconcile_with_semaphore credentials (http_client i) (records ! i)))
       [0 ..< length records]"

text \<open>
  The event loop, as far as the semaphore sees it. A task waits for the semaphore, is in
  flight between \<^verbatim>\<open>__aenter__\<close> and \<^verbatim>\<open>__aexit__\<close> of \<^verbatim>\<open>async with semaphore\<close> (the time of
  its adapter call), and is done afterwards with its outcome. \<open>Acquire i\<close> is task \<open>i\<close>
  entering the block, possible while the semaphore's value is positive; \<open>Release i\<close> is
  task \<open>i\<close> leaving it, by return or by exception alike. \<open>finished\<close> lists the tasks in
  the order they completed.
\<close>

datatype task_phase = Waiting | In_flight | Done task_outcome

datatype sched_event = Acquire nat | Release nat

record batch_state =
  permits :: nat
  phases :: "task_phase list"
  finished :: "nat list"

fun fire :: "task_outcome list \<Rightarrow> sched_event \<Rightarrow> batch_state \<Rightarrow> batch_state option" where
  "fire outcomes (Acquire i) s =
     (if i < length (phases s) \<and> phases s ! i = Waiting \<and> 0 < permits s
      then Some (s\<lparr>permits := permits s - 1, phases := (phases s)[i := In_flight]\<rparr>)
      else None)"
| "fire outcomes (Release i) s =
     (if i < length (phases s) \<and> phases s ! i = In_flight
      then Some (s\<lparr>permits := Suc (permits s),
                   phases := (phases s)[i := Done (outcomes ! i)],
                   finished := finished s @ [i]\<rparr>)
      else None)"

text \<open>A run of the event loop: the events in the order they happen. An event that
  cannot happen in the state it meets makes the list no run.\<close>

fun run :: "task_outcome list \<Rightarrow> sched_event list \<Rightarrow> batch_state \<Rightarrow> batch_state option" where
  "run outcomes [] s = Some s"
| "run outcomes (ev # evs) s =
     (case fire outcomes ev s of None \<Rightarrow> None | Some s' \<Rightarrow> run outcomes evs s')"

text \<open>\<^verbatim>\<open>asyncio.Semaphore(max_concurrent)\<close> and one waiting task per pair.\<close>

definition initial_state :: "nat \<Rightarrow> nat \<Rightarrow> batch_state" where
  "initial_state max_concurrent n =
     \<lparr>permits = max_concurrent, phases = replicate n Waiting, finished = []\<rparr>"

definition in_flight :: "batch_state \<Rightarrow> nat" where
  "in_flight s = length (filter (\<lambda>p. p = In_flight) (phases s))"

definition outcome_of :: "task_phase \<Rightarrow> task_outcome option" where
  "outcome_of p = (case p of Done r \<Rightarrow> Some r | _ \<Rightarrow> None)"

text \<open>What \<^verbatim>\<open>gather(*tasks, return_exceptions=True)\<close> returns once every task is done:
  the outcomes in the order of the tasks. Before that it has not returned.\<close>

definition gathered :: "batch_state \<Rightarrow> task_outcome list option" where
  "gathered s = those (map outcome_of (phases s))"

text \<open>The loop over \<^verbatim>\<open>completed\<close>: an exception is logged and skipped, a pair is written
  into the dict under its reference.\<close>

fun collect ::
  "task_outcome list \<Rightarrow> (string \<rightharpoonup> result_entry) \<Rightarrow> (string \<rightharpoonup> result_entry)" where
  "collect [] results = results"
| "collect (Inl e # completed) results = collect completed results"
| "collect (Inr (ref, data) # completed) results = collect completed (results(ref \<mapsto> data))"

text \<open>
  \<^verbatim>\<open>batch_reconcile\<close> under one run of the event loop. A negative \<^verbatim>\<open>max_concurrent\<close> is
  refused by the semaphore's constructor with ValueError. Otherwise the function returns
  when the run has completed every task; None is a list of events that is no run, or a
  run after which \<^verbatim>\<open>gather\<close> is still waiting.
\<close>

definition batch_reconcile ::
  "credentials \<Rightarrow> (nat \<Rightarrow> network) \<Rightarrow> (recon_record \<times> recon_mapping) list \<Rightarrow> int
     \<Rightarrow> sched_event list \<Rightarrow> (exn + (string \<rightharpoonup> result_entry)) option" where
  "batch_reconcile credentials http_client records max_concurrent schedule =
     (if max_concurrent < 0 then Some (Inl (Exn ''Semaphore initial value must be >= 0''))
      else
        (case run (task_outcomes credentials http_client records) schedule
                (initial_state (nat max_concurrent) (length records)) of
           None \<Rightarrow> None
         | Some s \<Rightarrow>
             (case gathered s of
                None \<Rightarrow> None
              | Some completed \<Rightarrow> Some (Inr (collect completed Map.empty)))))"

text \<open>The schedule that runs the tasks one after the other.\<close>

definition sequential :: "nat \<Rightarrow> sched_event list" where
  "sequential n = concat (map (\<lambda>i. [Acquire i, Release i]) [0 ..< n])"

text \<open>
  The result dict as the specification words it, where of two records with one external
  reference the later-completing result overwrites the earlier: the outcomes written in
  the order the tasks completed.
\<close>

definition collect_by_completion ::
  "nat list \<Rightarrow> task_outcome list \<Rightarrow> (string \<rightharpoonup> result_entry)" where
  "collect_by_completion completion_order outcomes =
     collect (map (\<lambda>i. outcomes ! i) completion_order) Map.empty"

text \<open>Example batches: two pairs with one reference, of which the provider confirms the
  first only; three pairs, the provider of the second unreachable; five pairs.\<close>

definition same_ref_pairs :: "(recon_record \<times> recon_mapping) list" where
  "same_ref_pairs =
     [(example_record ''R1'' ''100'', example_mapping CLEARSTREAM),
      (example_record ''R1'' ''100'', example_mapping CLEARSTREAM)]"

definition confirms_first_only :: "nat \<Rightarrow> network" where
  "confirms_first_only i =
     (if i = 0 then answers (JObj [(''quantity'', JInt 100)])
      else answers (JObj [(''quantity'', JInt 99)]))"

definition three_pairs :: "(recon_record \<times> recon_mapping) list" where
  "three_pairs =
     [(example_record ''R1'' ''100'', example_mapping CLEARSTREAM),
      (example_record ''R2'' ''100'', example_mapping CLEARSTREAM),
      (example_record ''R3'' ''100'', example_mapping CLEARSTREAM)]"

definition second_unreachable :: "nat \<Rightarrow> network" where
  "second_unreachable i =
     (if i = 1 then unreachable ''timed out'' else answers (JObj [(''quantity'', JInt 100)]))"


section \<open>Evaluation rules\<close>


lemma first_error_None: "first_error es = None \<longleftrightarrow> (\<forall>e \<in> set es. e = None)"
  by (induction es) (auto split: option.splits)

section \<open>What each ORM call leaves alone\<close>

lemma Investor_get_or_create_existing:
  "\<exists>r \<in> set (investors s). inv_wallet_address r = wallet \<Longrightarrow>
   snd (Investor_get_or_create clock wallet s) = s"
  by (auto simp: Investor_get_or_create_def filter_empty_conv split: list.splits)

lemma Investor_get_or_create_others:
  "Investor_get_or_create clock wallet s = (res, s1) \<Longrightarrow>
   s1\<lparr>investors := investors s\<rparr> = s"
  by (auto simp: Investor_get_or_create_def Let_def split: list.splits)

lemma Identifier_get_or_create_others:
  "Identifier_get_or_create clock key s = (res, s1) \<Longrightarrow>
   s1\<lparr>identifiers := identifiers s\<rparr> = s"
  by (auto simp: Identifier_get_or_create_def Let_def split: list.splits option.splits)

lemma Identifier_update_or_create_others:
  "Identifier_update_or_create clock key a b c d e f s = (res, s1) \<Longrightarrow>
   s1\<lparr>identifiers := identifiers s\<rparr> = s"
  by (auto simp: Identifier_update_or_create_def Let_def split: list.splits option.splits)

lemma Offering_update_or_create_others:
  "Offering_update_or_create clock key a b c d e f idf h s = (res, s1) \<Longrightarrow>
   s1\<lparr>offerings := offerings s\<rparr> = s"
  by (auto simp: Offering_update_or_create_def Let_def split: list.splits option.splits)

lemma Investor_update_or_create_others:
  "Investor_update_or_create clock wallet a b c d s = (res, s1) \<Longrightarrow>
   s1\<lparr>investors := investors s\<rparr> = s"
  by (auto simp: Investor_update_or_create_def Let_def split: list.splits option.splits)

lemma Commitment_create_investors:
  "investors (snd (Commitment_create clock investor a b c d t s)) = investors s"
  by (simp add: Commitment_create_def split: option.splits)

lemma UnitsIssued_create_investors:
  "investors (snd (UnitsIssued_create clock investor a b c d e idf h t s)) = investors s"
  by (simp add: UnitsIssued_create_def split: option.splits)

lemma SettlementRecord_create_investors:
  "investors (snd (SettlementRecord_create clock investor a b c d t s)) = investors s"
  by (simp add: SettlementRecord_create_def split: option.splits)

lemma Identifier_get_or_create_investors:
  "Identifier_get_or_create clock key s = (res, s1) \<Longrightarrow> investors s1 = investors s"
  by (drule Identifier_get_or_create_others, drule arg_cong [where f = investors]) simp

lemma commitment_keeps_investor:
  assumes "\<exists>r \<in> set (investors s). inv_wallet_address r = lower w"
    and "dict_get payload ''investor'' = JStr w"
  shows "investors (snd (handle_commitment_recorded clock payload s)) = investors s"
proof -
  from assms(1) have "snd (Investor_get_or_create clock (lower w) s) = s"
    by (rule Investor_get_or_create_existing)
  then show ?thesis
    using assms(2)
    by (cases "Investor_get_or_create clock (lower w) s")
       (auto simp: handle_commitment_recorded_def Commitment_create_investors split: sum.splits)
qed

lemma settlement_keeps_investor:
  assumes "\<exists>r \<in> set (investors s). inv_wallet_address r = lower w"
    and "dict_get payload ''investor'' = JStr w"
  shows "investors (snd (handle_settlement_recorded clock payload s)) = investors s"
proof -
  from assms(1) have "snd (Investor_get_or_create clock (lower w) s) = s"
    by (rule Investor_get_or_create_existing)
  then show ?thesis
    using assms(2)
    by (cases "Investor_get_or_create clock (lower w) s")
       (auto simp: handle_settlement_recorded_def SettlementRecord_create_investors split: sum.splits)
qed

lemma units_keeps_investor:
  assumes "\<exists>r \<in> set (investors s). inv_wallet_address r = lower w"
    and "dict_get payload ''investor'' = JStr w"
  shows "investors (snd (handle_units_issued clock payload s)) = investors s"
proof -
  from assms(1) have "snd (Investor_get_or_create clock (lower w) s) = s"
    by (rule Investor_get_or_create_existing)
  then show ?thesis
    using assms(2)
    by (cases "Investor_get_or_create clock (lower w) s")
       (auto simp: handle_units_issued_def UnitsIssued_create_investors Let_def
             split: sum.splits jvalue.splits prod.splits
             dest: Identifier_get_or_create_investors)
qed

lemma Investor_save_error_None:
  "Investor_save_error a b c d = None \<Longrightarrow> bool_val b \<noteq> None \<and> bool_val c \<noteq> None"
  by (auto simp: Investor_save_error_def split: option.splits if_splits)

lemma whitelisted_overwrites:
  assumes "handle_investor_whitelisted clock payload s = (None, s')"
    and "dict_get payload ''investor'' = JStr w"
    and "r \<in> set (investors s')" and "inv_wallet_address r = lower w"
  shows "inv_jurisdiction r = char_val (dict_get payload ''jurisdiction'') \<and>
         Some (inv_kyc_passed r) = bool_val (dict_get_default payload ''kyc_passed'' (JBool False)) \<and>
         Some (inv_aml_passed r) = bool_val (dict_get_default payload ''aml_passed'' (JBool False)) \<and>
         inv_last_event_tx_hash r = char_val (dict_get payload ''transaction_hash'')"
  using assms
  by (auto simp: handle_investor_whitelisted_def Investor_update_or_create_def Let_def
                 filter_empty_conv
           split: sum.splits prod.splits list.splits option.splits
           dest!: Investor_save_error_None)


lemma filter_map_same_key:
  assumes "P c"
  shows "filter P (map (\<lambda>x. if P x then c else x) xs) = map (\<lambda>_. c) (filter P xs)"
  by (induction xs) (use assms in auto)

lemma Investor_get_or_create_unique:
  "Investor_get_or_create clock wallet s = (Inr r, s1) \<Longrightarrow>
   filter (\<lambda>x. inv_wallet_address x = wallet) (investors s1) = [r]"
  by (auto simp: Investor_get_or_create_def Let_def split: list.splits)

lemma filter_singletonD: "filter P xs = [x] \<Longrightarrow> P x"
  by (metis list.set_intros(1) mem_Collect_eq set_filter)

lemma Investor_update_or_create_unique:
  assumes "Investor_update_or_create clock wallet a b c d s = (Inr r, s1)"
  shows "filter (\<lambda>x. inv_wallet_address x = wallet) (investors s1) = [r]"
proof (cases "filter (\<lambda>x. inv_wallet_address x = wallet) (investors s)")
  case Nil
  with assms show ?thesis
    by (auto simp: Investor_update_or_create_def Let_def split: option.splits)
next
  case (Cons x xs)
  show ?thesis
  proof (cases xs)
    case Nil
    with Cons have one: "filter (\<lambda>x. inv_wallet_address x = wallet) (investors s) = [x]"
      by simp
    then have "inv_wallet_address x = wallet"
      by (rule filter_singletonD)
    with assms one show ?thesis
      by (auto simp: Investor_update_or_create_def Let_def filter_map_same_key
               split: option.splits)
  next
    case (Cons y ys)
    with assms \<open>filter _ _ = x # xs\<close> show ?thesis
      by (auto simp: Investor_update_or_create_def Let_def split: option.splits)
  qed
qed


lemma Commitment_create_row:
  "Commitment_create clock investor a b c d t s = (None, s') \<Longrightarrow>
   investors s' = investors s \<and> commitments s' \<noteq> [] \<and>
   com_investor (last (commitments s')) = inv_pk investor"
  by (auto simp: Commitment_create_def split: if_splits option.splits)

lemma UnitsIssued_create_row:
  "UnitsIssued_create clock investor a b c d e idf h t s = (None, s') \<Longrightarrow>
   investors s' = investors s \<and> units_issued s' \<noteq> [] \<and>
   ui_investor (last (units_issued s')) = inv_pk investor"
  by (auto simp: UnitsIssued_create_def split: if_splits option.splits)

lemma SettlementRecord_create_row:
  "SettlementRecord_create clock investor a b c d t s = (None, s') \<Longrightarrow>
   investors s' = investors s \<and> settlement_records s' \<noteq> [] \<and>
   sr_investor (last (settlement_records s')) = inv_pk investor"
  by (auto simp: SettlementRecord_create_def split: if_splits option.splits)

lemma whitelisted_unique:
  assumes "handle_investor_whitelisted clock p s = (None, s')"
    and "dict_get p ''investor'' = JStr w"
  shows "\<exists>r. filter (\<lambda>x. inv_wallet_address x = lower w) (investors s') = [r]"
  using assms
  by (auto simp: handle_investor_whitelisted_def split: sum.splits prod.splits
           dest: Investor_update_or_create_unique)

lemma commitment_unique:
  assumes "handle_commitment_recorded clock p s = (None, s')"
    and "dict_get p ''investor'' = JStr w"
  shows "\<exists>r. filter (\<lambda>x. inv_wallet_address x = lower w) (investors s') = [r] \<and>
             commitments s' \<noteq> [] \<and> com_investor (last (commitments s')) = inv_pk r"
  using assms
  by (auto simp: handle_commitment_recorded_def Let_def split: sum.splits prod.splits
           dest!: Investor_get_or_create_unique Commitment_create_row)

lemma settlement_unique:
  assumes "handle_settlement_recorded clock p s = (None, s')"
    and "dict_get p ''investor'' = JStr w"
  shows "\<exists>r. filter (\<lambda>x. inv_wallet_address x = lower w) (investors s') = [r] \<and>
             settlement_records s' \<noteq> [] \<and>
             sr_investor (last (settlement_records s')) = inv_pk r"
  using assms
  by (auto simp: handle_settlement_recorded_def Let_def split: sum.splits prod.splits
           dest!: Investor_get_or_create_unique SettlementRecord_create_row)

lemma units_unique:
  assumes "handle_units_issued clock p s = (None, s')"
    and "dict_get p ''investor'' = JStr w"
  shows "\<exists>r. filter (\<lambda>x. inv_wallet_address x = lower w) (investors s') = [r] \<and>
             units_issued s' \<noteq> [] \<and> ui_investor (last (units_issued s')) = inv_pk r"
  using assms
  by (auto simp: handle_units_issued_def Let_def
           split: sum.splits prod.splits jvalue.splits if_splits
           dest!: Investor_get_or_create_unique UnitsIssued_create_row
                  Identifier_get_or_create_investors)


lemma EVENT_HANDLERS_cases:
  "EVENT_HANDLERS name = Some h \<Longrightarrow>
     h = handle_offering_configured \<or> h = handle_investor_whitelisted \<or>
     h = handle_commitment_recorded \<or> h = handle_units_issued \<or>
     h = handle_settlement_recorded \<or> h = handle_finalized"
  by (auto simp: EVENT_HANDLERS_def split: if_splits)

lemma wallet_case_handlers_gen:
  assumes same: "\<And>k. k \<noteq> ''investor'' \<Longrightarrow> map_of p1 k = map_of p2 k"
    and w1: "dict_get p1 ''investor'' = JStr w1"
    and w2: "dict_get p2 ''investor'' = JStr w2"
    and low: "lower w1 = lower w2"
  shows "handle_investor_whitelisted clock p1 s = handle_investor_whitelisted clock p2 s"
    and "handle_commitment_recorded clock p1 s = handle_commitment_recorded clock p2 s"
    and "handle_units_issued clock p1 s = handle_units_issued clock p2 s"
    and "handle_settlement_recorded clock p1 s = handle_settlement_recorded clock p2 s"
    and "handle_offering_configured clock p1 s = handle_offering_configured clock p2 s"
    and "handle_finalized clock p1 s = handle_finalized clock p2 s"
    and "dict_get p1 ''event'' = dict_get p2 ''event''"
proof -
  have g: "dict_get p1 k = dict_get p2 k" if "k \<noteq> ''investor''" for k
    using same [OF that] by (simp add: dict_get_def)
  have gd: "dict_get_default p1 k d = dict_get_default p2 k d" if "k \<noteq> ''investor''" for k d
    using same [OF that] by (simp add: dict_get_default_def)
  show "handle_investor_whitelisted clock p1 s = handle_investor_whitelisted clock p2 s"
    by (simp add: handle_investor_whitelisted_def g gd w1 w2 low Let_def
          cong del: jvalue.case_cong_weak sum.case_cong_weak prod.case_cong_weak if_weak_cong)
  show "handle_commitment_recorded clock p1 s = handle_commitment_recorded clock p2 s"
    by (simp add: handle_commitment_recorded_def g gd w1 w2 low Let_def
          cong del: jvalue.case_cong_weak sum.case_cong_weak prod.case_cong_weak if_weak_cong)
  show "handle_units_issued clock p1 s = handle_units_issued clock p2 s"
    by (simp add: handle_units_issued_def g gd w1 w2 low Let_def
          cong del: jvalue.case_cong_weak sum.case_cong_weak prod.case_cong_weak if_weak_cong)
  show "handle_settlement_recorded clock p1 s = handle_settlement_recorded clock p2 s"
    by (simp add: handle_settlement_recorded_def g gd w1 w2 low Let_def
          cong del: jvalue.case_cong_weak sum.case_cong_weak prod.case_cong_weak if_weak_cong)
  show "handle_offering_configured clock p1 s = handle_offering_configured clock p2 s"
    by (simp add: handle_offering_configured_def g gd Let_def
          cong del: jvalue.case_cong_weak sum.case_cong_weak prod.case_cong_weak if_weak_cong)
  show "handle_finalized clock p1 s = handle_finalized clock p2 s"
    by (simp add: handle_finalized_def g gd Let_def
          cong del: jvalue.case_cong_weak sum.case_cong_weak prod.case_cong_weak if_weak_cong)
  show "dict_get p1 ''event'' = dict_get p2 ''event''"
    by (simp add: g)
qed

lemma ingest_event_wallet_case:
  assumes same: "\<And>k. k \<noteq> ''investor'' \<Longrightarrow> map_of p1 k = map_of p2 k"
    and w1: "dict_get p1 ''investor'' = JStr w1"
    and w2: "dict_get p2 ''investor'' = JStr w2"
    and low: "lower w1 = lower w2"
  shows "ingest_event clock p1 s = ingest_event clock p2 s"
proof -
  note eqs = wallet_case_handlers_gen [OF same w1 w2 low]
  have "h clock p1 s = h clock p2 s" if "EVENT_HANDLERS name = Some h" for name h
    using EVENT_HANDLERS_cases [OF that] eqs(1-6) by auto
  then show ?thesis
    by (auto simp: ingest_event_def Let_def eqs(7) split: jvalue.splits option.splits)
qed

section \<open>Finalization\<close>




section \<open>Investor rows under get-or-create\<close>

text \<open>
  Claim C10. When an Investor row with the lower-cased wallet of the payload exists,
  CommitmentRecorded, UnitsIssued and SettlementRecorded leave the whole Investor table as
  it is, so the row keeps \<open>jurisdiction\<close>, \<open>kyc_passed\<close>, \<open>aml_passed\<close> and
  \<open>last_event_tx_hash\<close>, whether the reducer returns or raises. InvestorWhitelisted,
  when it returns, has written the payload's four values into the row with that wallet.
\<close>

theorem get_or_create_keeps_investor:
  assumes "dict_get payload ''investor'' = JStr w"
    and "\<exists>r \<in> set (investors s). inv_wallet_address r = lower w"
  shows "investors (snd (handle_commitment_recorded clock payload s)) = investors s
       \<and> investors (snd (handle_units_issued clock payload s)) = investors s
       \<and> investors (snd (handle_settlement_recorded clock payload s)) = investors s
       \<and> (fst (handle_investor_whitelisted clock payload s) = None \<longrightarrow>
            (\<forall>r \<in> set (investors (snd (handle_investor_whitelisted clock payload s))).
               inv_wallet_address r = lower w \<longrightarrow>
                 inv_jurisdiction r = char_val (dict_get payload ''jurisdiction'') \<and>
                 Some (inv_kyc_passed r)
                   = bool_val (dict_get_default payload ''kyc_passed'' (JBool False)) \<and>
                 Some (inv_aml_passed r)
                   = bool_val (dict_get_default payload ''aml_passed'' (JBool False)) \<and>
                 inv_last_event_tx_hash r = char_val (dict_get payload ''transaction_hash'')))"
proof (intro conjI impI ballI)
  show "investors (snd (handle_commitment_recorded clock payload s)) = investors s"
    using assms by (intro commitment_keeps_investor)
  show "investors (snd (handle_units_issued clock payload s)) = investors s"
    using assms by (intro units_keeps_investor)
  show "investors (snd (handle_settlement_recorded clock payload s)) = investors s"
    using assms by (intro settlement_keeps_investor)
next
  fix r
  assume "fst (handle_investor_whitelisted clock payload s) = None"
    and "r \<in> set (investors (snd (handle_investor_whitelisted clock payload s)))"
    and "inv_wallet_address r = lower w"
  moreover from this(1)
  have "handle_investor_whitelisted clock payload s
          = (None, snd (handle_investor_whitelisted clock payload s))"
    by (metis prod.collapse)
  ultimately show "inv_jurisdiction r = char_val (dict_get payload ''jurisdiction'')"
    "Some (inv_kyc_passed r) = bool_val (dict_get_default payload ''kyc_passed'' (JBool False))"
    "Some (inv_aml_passed r) = bool_val (dict_get_default payload ''aml_passed'' (JBool False))"
    "inv_last_event_tx_hash r = char_val (dict_get payload ''transaction_hash'')"
    using whitelisted_overwrites [OF _ assms(1)] by blast+
qed

theorem get_or_create_keeps_investor_witness:
  "map inv_wallet_address (investors one_investor) = [''0xabc'']
   \<and> map inv_jurisdiction (investors one_investor) = [Some ''US'']
   \<and> investors (snd (handle_commitment_recorded (tick 2) (commitment_recorded_event ''0xABC'' 1000) one_investor))
       = investors one_investor
   \<and> investors (snd (handle_units_issued (tick 2) (units_issued_event ''0xABC'' 10) one_investor))
       = investors one_investor
   \<and> investors (snd (handle_settlement_recorded (tick 2) (settlement_recorded_event ''0xABC'' 10) one_investor))
       = investors one_investor
   \<and> inv_jurisdiction
        (hd (investors (snd (handle_investor_whitelisted (tick 2)
               (investor_whitelisted_event ''0xABC'' ''DE'' False) one_investor)))) = Some ''DE''
   \<and> \<not> inv_kyc_passed
        (hd (investors (snd (handle_investor_whitelisted (tick 2)
               (investor_whitelisted_event ''0xABC'' ''DE'' False) one_investor))))"
proof -
  let ?w = "investor_whitelisted_event ''0xABC'' ''DE'' False"
  let ?s' = "snd (handle_investor_whitelisted (tick 2) ?w one_investor)"
  have ex: "\<exists>r \<in> set (investors one_investor). inv_wallet_address r = lower ''0xABC''"
    by code_simp
  have rows: "map inv_wallet_address (investors one_investor) = [''0xabc'']"
    "map inv_jurisdiction (investors one_investor) = [Some ''US'']"
    by code_simp+
  have inv: "dict_get (commitment_recorded_event ''0xABC'' 1000) ''investor'' = JStr ''0xABC''"
    "dict_get (units_issued_event ''0xABC'' 10) ''investor'' = JStr ''0xABC''"
    "dict_get (settlement_recorded_event ''0xABC'' 10) ''investor'' = JStr ''0xABC''"
    "dict_get ?w ''investor'' = JStr ''0xABC''"
    by code_simp+
  have ok: "fst (handle_investor_whitelisted (tick 2) ?w one_investor) = None"
    by code_simp
  have mem: "hd (investors ?s') \<in> set (investors ?s')"
    "inv_wallet_address (hd (investors ?s')) = lower ''0xABC''"
    by code_simp+
  have vals: "char_val (dict_get ?w ''jurisdiction'') = Some ''DE''"
    "bool_val (dict_get_default ?w ''kyc_passed'' (JBool False)) = Some False"
    by code_simp+
  from get_or_create_keeps_investor [OF inv(1) ex, of "tick 2"]
       get_or_create_keeps_investor [OF inv(2) ex, of "tick 2"]
       get_or_create_keeps_investor [OF inv(3) ex, of "tick 2"]
       get_or_create_keeps_investor [OF inv(4) ex, of "tick 2"] ok mem vals rows
  show ?thesis
    by (auto simp del: One_nat_def)
qed

section \<open>Wallet keys\<close>

lemma Investor_get_or_create_found:
  "filter (\<lambda>x. inv_wallet_address x = wallet) (investors s) = [r] \<Longrightarrow>
   Investor_get_or_create clock wallet s = (Inr r, s)"
  by (simp add: Investor_get_or_create_def)

lemma get_or_create_leaves_one:
  assumes one: "filter (\<lambda>x. inv_wallet_address x = lower w1) (investors s1) = [r]"
    and w2: "dict_get p2 ''investor'' = JStr w2"
    and low: "lower w1 = lower w2"
  shows "handle_commitment_recorded clock p2 s1 =
           Commitment_create clock r (dict_get p2 ''amount'') (dict_get p2 ''currency'')
             (dict_get p2 ''payment_reference'') (dict_get p2 ''transaction_hash'')
             (clock Timezone_now) s1"
    and "handle_settlement_recorded clock p2 s1 =
           SettlementRecord_create clock r (dict_get p2 ''units'')
             (dict_get p2 ''settlement_system'') (dict_get p2 ''external_reference'')
             (dict_get p2 ''transaction_hash'') (clock Timezone_now) s1"
    and "investors (snd (handle_units_issued clock p2 s1)) = investors s1"
    and "fst (handle_units_issued clock p2 s1) = None \<Longrightarrow>
           units_issued (snd (handle_units_issued clock p2 s1)) \<noteq> [] \<and>
           ui_investor (last (units_issued (snd (handle_units_issued clock p2 s1)))) = inv_pk r"
proof -
  from one low have one2: "filter (\<lambda>x. inv_wallet_address x = lower w2) (investors s1) = [r]"
    by simp
  note found = Investor_get_or_create_found [OF one2, of clock]
  show "handle_commitment_recorded clock p2 s1 =
           Commitment_create clock r (dict_get p2 ''amount'') (dict_get p2 ''currency'')
             (dict_get p2 ''payment_reference'') (dict_get p2 ''transaction_hash'')
             (clock Timezone_now) s1"
    by (simp add: handle_commitment_recorded_def w2 found)
  show "handle_settlement_recorded clock p2 s1 =
           SettlementRecord_create clock r (dict_get p2 ''units'')
             (dict_get p2 ''settlement_system'') (dict_get p2 ''external_reference'')
             (dict_get p2 ''transaction_hash'') (clock Timezone_now) s1"
    by (simp add: handle_settlement_recorded_def w2 found)
  have "r \<in> set (filter (\<lambda>x. inv_wallet_address x = lower w2) (investors s1))"
    using one2 by simp
  then have ex: "\<exists>r \<in> set (investors s1). inv_wallet_address r = lower w2"
    by auto
  show "investors (snd (handle_units_issued clock p2 s1)) = investors s1"
    using ex w2 by (rule units_keeps_investor)
  assume "fst (handle_units_issued clock p2 s1) = None"
  then have run: "handle_units_issued clock p2 s1 = (None, snd (handle_units_issued clock p2 s1))"
    by (metis prod.collapse)
  from units_unique [OF run w2] obtain r' where
    r': "filter (\<lambda>x. inv_wallet_address x = lower w2)
           (investors (snd (handle_units_issued clock p2 s1))) = [r']"
    and fk: "units_issued (snd (handle_units_issued clock p2 s1)) \<noteq> []"
      "ui_investor (last (units_issued (snd (handle_units_issued clock p2 s1)))) = inv_pk r'"
    by blast
  from r' one2 \<open>investors (snd (handle_units_issued clock p2 s1)) = investors s1\<close>
  have "r' = r" by simp
  with fk show "units_issued (snd (handle_units_issued clock p2 s1)) \<noteq> [] \<and>
           ui_investor (last (units_issued (snd (handle_units_issued clock p2 s1)))) = inv_pk r"
    by simp
qed

lemma map_only_match:
  assumes "filter P xs = [r]"
  shows "map (\<lambda>x. if P x then f r else x) xs = map (\<lambda>x. if P x then f x else x) xs"
proof (rule map_cong [OF refl])
  fix x assume "x \<in> set xs"
  show "(if P x then f r else x) = (if P x then f x else x)"
  proof (cases "P x")
    case True
    with \<open>x \<in> set xs\<close> have "x \<in> set (filter P xs)" by simp
    with assms have "x = r" by simp
    then show ?thesis by simp
  qed simp
qed

lemma whitelisted_updates_one:
  assumes one: "filter (\<lambda>x. inv_wallet_address x = lower w1) (investors s1) = [r]"
    and w2: "dict_get p2 ''investor'' = JStr w2"
    and low: "lower w1 = lower w2"
    and run: "handle_investor_whitelisted clock p2 s1 = (None, s2)"
  shows "filter (\<lambda>x. inv_wallet_address x = lower w1) (investors s2) =
           [r\<lparr>inv_jurisdiction := char_val (dict_get p2 ''jurisdiction''),
              inv_kyc_passed := the (bool_val (dict_get_default p2 ''kyc_passed'' (JBool False))),
              inv_aml_passed := the (bool_val (dict_get_default p2 ''aml_passed'' (JBool False))),
              inv_last_event_tx_hash := char_val (dict_get p2 ''transaction_hash''),
              inv_updated_at := clock Investor_updated_at\<rparr>]"
    and "length (investors s2) = length (investors s1)"
proof -
  from one low have one2: "filter (\<lambda>x. inv_wallet_address x = lower w2) (investors s1) = [r]"
    by simp
  then have key: "inv_wallet_address r = lower w2"
    by (rule filter_singletonD)
  let ?r' = "r\<lparr>inv_jurisdiction := char_val (dict_get p2 ''jurisdiction''),
              inv_kyc_passed := the (bool_val (dict_get_default p2 ''kyc_passed'' (JBool False))),
              inv_aml_passed := the (bool_val (dict_get_default p2 ''aml_passed'' (JBool False))),
              inv_last_event_tx_hash := char_val (dict_get p2 ''transaction_hash''),
              inv_updated_at := clock Investor_updated_at\<rparr>"
  from run w2 one2
  have s2: "investors s2 =
              map (\<lambda>x. if inv_wallet_address x = lower w2 then ?r' else x) (investors s1)"
    by (auto simp: handle_investor_whitelisted_def Investor_update_or_create_def Let_def
             split: option.splits)
  have "inv_wallet_address ?r' = lower w2"
    using key by simp
  then have "filter (\<lambda>x. inv_wallet_address x = lower w2) (investors s2) = [?r']"
    unfolding s2 using one2
    by (simp add: filter_map_same_key [where P = "\<lambda>x. inv_wallet_address x = lower w2"])
  then show "filter (\<lambda>x. inv_wallet_address x = lower w1) (investors s2) = [?r']"
    using low by simp
  show "length (investors s2) = length (investors s1)"
    by (simp add: s2)
qed

text \<open>
  Claim C8. Take two payloads whose wallets have the same lower-case form. Every
  reducer gives the same result on both when they differ in nothing else. When one of
  the four investor-referencing reducers has returned on the first payload, exactly one
  Investor row has the lower-cased wallet as its key, and the second payload is resolved
  to this row, whatever its letter case: the lookup the reducers make with the
  lower-cased wallet returns it and writes nothing, CommitmentRecorded and SettlementRecorded are
  the insertion of a row that points to it, UnitsIssued leaves the Investor table as it is
  and the row it appends points to it, and InvestorWhitelisted, when it returns, has
  rewritten this row in place without adding one. Each reducer that returns on the
  first payload has itself left one row with that key, to which the row it appended
  points.
\<close>

theorem wallet_key_normalised:
  assumes w1: "dict_get p1 ''investor'' = JStr w1"
    and w2: "dict_get p2 ''investor'' = JStr w2"
    and low: "lower w1 = lower w2"
  shows "((\<forall>k. k \<noteq> ''investor'' \<longrightarrow> map_of p1 k = map_of p2 k)
            \<longrightarrow> ingest_event clock p1 s = ingest_event clock p2 s)
       \<and> (first \<in> {handle_investor_whitelisted, handle_commitment_recorded,
                    handle_units_issued, handle_settlement_recorded}
            \<and> first clock p1 s = (None, s1) \<longrightarrow>
          (\<exists>r. filter (\<lambda>x. inv_wallet_address x = lower w1) (investors s1) = [r]
              \<and> Investor_get_or_create clock2 (lower w2) s1 = (Inr r, s1)
              \<and> handle_commitment_recorded clock2 p2 s1 =
                  Commitment_create clock2 r (dict_get p2 ''amount'') (dict_get p2 ''currency'')
                    (dict_get p2 ''payment_reference'') (dict_get p2 ''transaction_hash'')
                    (clock2 Timezone_now) s1
              \<and> handle_settlement_recorded clock2 p2 s1 =
                  SettlementRecord_create clock2 r (dict_get p2 ''units'')
                    (dict_get p2 ''settlement_system'') (dict_get p2 ''external_reference'')
                    (dict_get p2 ''transaction_hash'') (clock2 Timezone_now) s1
              \<and> investors (snd (handle_units_issued clock2 p2 s1)) = investors s1
              \<and> (fst (handle_units_issued clock2 p2 s1) = None \<longrightarrow>
                   units_issued (snd (handle_units_issued clock2 p2 s1)) \<noteq> [] \<and>
                   ui_investor (last (units_issued (snd (handle_units_issued clock2 p2 s1))))
                     = inv_pk r)
              \<and> (\<forall>s2. handle_investor_whitelisted clock2 p2 s1 = (None, s2) \<longrightarrow>
                   length (investors s2) = length (investors s1) \<and>
                   filter (\<lambda>x. inv_wallet_address x = lower w1) (investors s2) =
                     [r\<lparr>inv_jurisdiction := char_val (dict_get p2 ''jurisdiction''),
                        inv_kyc_passed :=
                          the (bool_val (dict_get_default p2 ''kyc_passed'' (JBool False))),
                        inv_aml_passed :=
                          the (bool_val (dict_get_default p2 ''aml_passed'' (JBool False))),
                        inv_last_event_tx_hash := char_val (dict_get p2 ''transaction_hash''),
                        inv_updated_at := clock2 Investor_updated_at\<rparr>])))
       \<and> (handle_commitment_recorded clock p1 s = (None, s1) \<longrightarrow>
            (\<exists>r. filter (\<lambda>x. inv_wallet_address x = lower w1) (investors s1) = [r] \<and>
                 commitments s1 \<noteq> [] \<and> com_investor (last (commitments s1)) = inv_pk r))
       \<and> (handle_units_issued clock p1 s = (None, s1) \<longrightarrow>
            (\<exists>r. filter (\<lambda>x. inv_wallet_address x = lower w1) (investors s1) = [r] \<and>
                 units_issued s1 \<noteq> [] \<and> ui_investor (last (units_issued s1)) = inv_pk r))
       \<and> (handle_settlement_recorded clock p1 s = (None, s1) \<longrightarrow>
            (\<exists>r. filter (\<lambda>x. inv_wallet_address x = lower w1) (investors s1) = [r] \<and>
                 settlement_records s1 \<noteq> [] \<and>
                 sr_investor (last (settlement_records s1)) = inv_pk r))"
proof (intro conjI impI)
  assume "\<forall>k. k \<noteq> ''investor'' \<longrightarrow> map_of p1 k = map_of p2 k"
  then show "ingest_event clock p1 s = ingest_event clock p2 s"
    using w1 w2 low by (intro ingest_event_wallet_case [of p1 p2 w1 w2]) auto
next
  assume a: "first \<in> {handle_investor_whitelisted, handle_commitment_recorded,
                    handle_units_issued, handle_settlement_recorded}
            \<and> first clock p1 s = (None, s1)"
  then consider "handle_investor_whitelisted clock p1 s = (None, s1)"
    | "handle_commitment_recorded clock p1 s = (None, s1)"
    | "handle_units_issued clock p1 s = (None, s1)"
    | "handle_settlement_recorded clock p1 s = (None, s1)"
    by auto
  then have "\<exists>r. filter (\<lambda>x. inv_wallet_address x = lower w1) (investors s1) = [r]"
  proof cases
    case 1 from whitelisted_unique [OF 1 w1] show ?thesis .
  next
    case 2 from commitment_unique [OF 2 w1] show ?thesis by blast
  next
    case 3 from units_unique [OF 3 w1] show ?thesis by blast
  next
    case 4 from settlement_unique [OF 4 w1] show ?thesis by blast
  qed
  then obtain r where one: "filter (\<lambda>x. inv_wallet_address x = lower w1) (investors s1) = [r]"
    ..
  note g = get_or_create_leaves_one [OF one w2 low, of clock2]
  note u = whitelisted_updates_one [OF one w2 low, of clock2]
  from one low have found: "Investor_get_or_create clock2 (lower w2) s1 = (Inr r, s1)"
    by (intro Investor_get_or_create_found) simp
  show "\<exists>r. filter (\<lambda>x. inv_wallet_address x = lower w1) (investors s1) = [r]
              \<and> Investor_get_or_create clock2 (lower w2) s1 = (Inr r, s1)
              \<and> handle_commitment_recorded clock2 p2 s1 =
                  Commitment_create clock2 r (dict_get p2 ''amount'') (dict_get p2 ''currency'')
                    (dict_get p2 ''payment_reference'') (dict_get p2 ''transaction_hash'')
                    (clock2 Timezone_now) s1
              \<and> handle_settlement_recorded clock2 p2 s1 =
                  SettlementRecord_create clock2 r (dict_get p2 ''units'')
                    (dict_get p2 ''settlement_system'') (dict_get p2 ''external_reference'')
                    (dict_get p2 ''transaction_hash'') (clock2 Timezone_now) s1
              \<and> investors (snd (handle_units_issued clock2 p2 s1)) = investors s1
              \<and> (fst (handle_units_issued clock2 p2 s1) = None \<longrightarrow>
                   units_issued (snd (handle_units_issued clock2 p2 s1)) \<noteq> [] \<and>
                   ui_investor (last (units_issued (snd (handle_units_issued clock2 p2 s1))))
                     = inv_pk r)
              \<and> (\<forall>s2. handle_investor_whitelisted clock2 p2 s1 = (None, s2) \<longrightarrow>
                   length (investors s2) = length (investors s1) \<and>
                   filter (\<lambda>x. inv_wallet_address x = lower w1) (investors s2) =
                     [r\<lparr>inv_jurisdiction := char_val (dict_get p2 ''jurisdiction''),
                        inv_kyc_passed :=
                          the (bool_val (dict_get_default p2 ''kyc_passed'' (JBool False))),
                        inv_aml_passed :=
                          the (bool_val (dict_get_default p2 ''aml_passed'' (JBool False))),
                        inv_last_event_tx_hash := char_val (dict_get p2 ''transaction_hash''),
                        inv_updated_at := clock2 Investor_updated_at\<rparr>])"
    apply (rule exI [of _ r])
    apply (intro conjI allI impI)
           apply (rule one)
          apply (rule found)
         apply (rule g(1))
        apply (rule g(2))
       apply (rule g(3))
      apply (erule g(4) [THEN conjunct1])
     apply (erule g(4) [THEN conjunct2])
    apply (erule u(2))
    apply (erule u(1))
    done
next
  assume "handle_commitment_recorded clock p1 s = (None, s1)"
  then show "\<exists>r. filter (\<lambda>x. inv_wallet_address x = lower w1) (investors s1) = [r] \<and>
                commitments s1 \<noteq> [] \<and> com_investor (last (commitments s1)) = inv_pk r"
    using w1 by (intro commitment_unique)
next
  assume "handle_units_issued clock p1 s = (None, s1)"
  then show "\<exists>r. filter (\<lambda>x. inv_wallet_address x = lower w1) (investors s1) = [r] \<and>
                units_issued s1 \<noteq> [] \<and> ui_investor (last (units_issued s1)) = inv_pk r"
    using w1 by (intro units_unique)
next
  assume "handle_settlement_recorded clock p1 s = (None, s1)"
  then show "\<exists>r. filter (\<lambda>x. inv_wallet_address x = lower w1) (investors s1) = [r] \<and>
                settlement_records s1 \<noteq> [] \<and>
                sr_investor (last (settlement_records s1)) = inv_pk r"
    using w1 by (intro settlement_unique)
qed

theorem wallet_key_normalised_witness:
  "lower ''0xABC'' = lower ''0xabc''
   \<and> handle_investor_whitelisted (tick 1) (investor_whitelisted_event ''0xABC'' ''US'' True)
        empty_store = (None, one_investor)
   \<and> (\<exists>r. filter (\<lambda>x. inv_wallet_address x = ''0xabc'') (investors one_investor) = [r]
          \<and> inv_jurisdiction r = Some ''US'' \<and> inv_kyc_passed r
          \<and> Investor_get_or_create (tick 2) ''0xabc'' one_investor = (Inr r, one_investor)
          \<and> handle_commitment_recorded (tick 2) (commitment_recorded_event ''0xabc'' 1000)
               one_investor
             = Commitment_create (tick 2) r (JInt 1000) (JStr ''USD'') (JStr ''REF1'')
                 (JStr ''0xH1'') 200 one_investor
          \<and> map com_investor (commitments whitelisted_then_committed) = [inv_pk r]
          \<and> ui_investor (last (units_issued
               (snd (handle_units_issued (tick 3) (units_issued_event ''0xAbC'' 10)
                       one_investor)))) = inv_pk r
          \<and> (\<exists>s2. handle_investor_whitelisted (tick 2)
                      (investor_whitelisted_event ''0xabc'' ''DE'' False) one_investor
                    = (None, s2)
                  \<and> length (investors s2) = 1
                  \<and> map inv_pk (investors s2) = [inv_pk r]
                  \<and> map inv_jurisdiction (investors s2) = [Some ''DE'']))
   \<and> investors whitelisted_then_committed = investors one_investor
   \<and> ingest_event (tick 2) (commitment_recorded_event ''0xABC'' 1000) one_investor
       = ingest_event (tick 2) (commitment_recorded_event ''0xabc'' 1000) one_investor
   \<and> (\<exists>r. filter (\<lambda>x. inv_wallet_address x = ''0xabc'')
              (investors (snd (handle_commitment_recorded (tick 1)
                                 (commitment_recorded_event ''0xABC'' 1000) empty_store))) = [r]
          \<and> com_investor (last (commitments
               (snd (handle_commitment_recorded (tick 1)
                       (commitment_recorded_event ''0xABC'' 1000) empty_store)))) = inv_pk r)
   \<and> map inv_wallet_address (investors one_wallet) = [''0xabc'']
   \<and> map inv_jurisdiction (investors one_wallet) = [Some ''US'']
   \<and> map inv_pk (investors one_wallet) = [1]
   \<and> map com_investor (commitments one_wallet) = [1]
   \<and> map ui_investor (units_issued one_wallet) = [1]
   \<and> map sr_investor (settlement_records one_wallet) = [1]"
proof -
  let ?p1 = "investor_whitelisted_event ''0xABC'' ''US'' True"
  let ?p2 = "commitment_recorded_event ''0xabc'' 1000"
  let ?q = "commitment_recorded_event ''0xABC'' 1000"
  let ?u = "units_issued_event ''0xAbC'' 10"
  let ?v = "investor_whitelisted_event ''0xabc'' ''DE'' False"
  let ?one = "\<lambda>s. filter (\<lambda>x. inv_wallet_address x = ''0xabc'') (investors s)"
  have w1: "dict_get ?p1 ''investor'' = JStr ''0xABC''"
    and w2: "dict_get ?p2 ''investor'' = JStr ''0xabc''"
    and wq: "dict_get ?q ''investor'' = JStr ''0xABC''"
    and wu: "dict_get ?u ''investor'' = JStr ''0xAbC''"
    and wv: "dict_get ?v ''investor'' = JStr ''0xabc''"
    by code_simp+
  have low: "lower ''0xABC'' = lower ''0xabc''"
    and lowu: "lower ''0xABC'' = lower ''0xAbC''"
    by code_simp+
  have key: "lower ''0xABC'' = ''0xabc''"
    by code_simp
  have run: "handle_investor_whitelisted (tick 1) ?p1 empty_store = (None, one_investor)"
    by code_simp
  have first: "handle_investor_whitelisted \<in>
                 {handle_investor_whitelisted, handle_commitment_recorded,
                  handle_units_issued, handle_settlement_recorded}
               \<and> handle_investor_whitelisted (tick 1) ?p1 empty_store = (None, one_investor)"
    using run by simp
  have same: "\<forall>k. k \<noteq> ''investor'' \<longrightarrow> map_of ?q k = map_of ?p2 k"
    by (simp add: commitment_recorded_event_def)
  have args: "dict_get ?p2 ''amount'' = JInt 1000" "dict_get ?p2 ''currency'' = JStr ''USD''"
    "dict_get ?p2 ''payment_reference'' = JStr ''REF1''"
    "dict_get ?p2 ''transaction_hash'' = JStr ''0xH1''" "tick 2 Timezone_now = 200"
    by code_simp+
  have row: "map inv_jurisdiction (?one one_investor) = [Some ''US'']"
    "map inv_kyc_passed (?one one_investor) = [True]"
    "map inv_pk (?one one_investor) = [1]"
    by code_simp+
  from wallet_key_normalised [where ?clock2.0 = "tick 2", OF w1 w2 low,
         THEN conjunct2, THEN conjunct1, THEN mp, OF first]
  obtain r where one: "?one one_investor = [r]"
    and lookup: "Investor_get_or_create (tick 2) (lower ''0xabc'') one_investor
                   = (Inr r, one_investor)"
    and c: "handle_commitment_recorded (tick 2) ?p2 one_investor =
              Commitment_create (tick 2) r (JInt 1000) (JStr ''USD'') (JStr ''REF1'')
                (JStr ''0xH1'') 200 one_investor"
    unfolding key args by blast
  from one row have r: "inv_jurisdiction r = Some ''US''" "inv_kyc_passed r" "inv_pk r = 1"
    by simp_all
  have fk: "map com_investor (commitments whitelisted_then_committed) = [1]"
    by code_simp
  have units: "ui_investor (last (units_issued
                 (snd (handle_units_issued (tick 3) ?u one_investor)))) = 1"
  proof -
    have ok: "fst (handle_units_issued (tick 3) ?u one_investor) = None"
      by code_simp
    from wallet_key_normalised [where ?clock2.0 = "tick 3", OF w1 wu lowu,
           THEN conjunct2, THEN conjunct1, THEN mp, OF first]
    obtain r' where "?one one_investor = [r']"
      and "fst (handle_units_issued (tick 3) ?u one_investor) = None \<longrightarrow>
             units_issued (snd (handle_units_issued (tick 3) ?u one_investor)) \<noteq> [] \<and>
             ui_investor (last (units_issued
               (snd (handle_units_issued (tick 3) ?u one_investor)))) = inv_pk r'"
      unfolding key by (elim exE conjE) (rule that; assumption)
    with ok row(3) show ?thesis by simp
  qed
  have again: "\<exists>s2. handle_investor_whitelisted (tick 2) ?v one_investor = (None, s2)
                  \<and> length (investors s2) = 1
                  \<and> map inv_pk (investors s2) = [1]
                  \<and> map inv_jurisdiction (investors s2) = [Some ''DE'']"
  proof -
    let ?s2 = "snd (handle_investor_whitelisted (tick 2) ?v one_investor)"
    have "fst (handle_investor_whitelisted (tick 2) ?v one_investor) = None"
      by code_simp
    then have ok: "handle_investor_whitelisted (tick 2) ?v one_investor = (None, ?s2)"
      by (metis prod.collapse)
    have l1: "length (investors one_investor) = 1"
      by code_simp
    from wallet_key_normalised [where ?clock2.0 = "tick 2", OF w1 wv low,
           THEN conjunct2, THEN conjunct1, THEN mp, OF first]
    have "\<forall>s2. handle_investor_whitelisted (tick 2) ?v one_investor = (None, s2) \<longrightarrow>
                length (investors s2) = length (investors one_investor)"
      by (elim exE conjE) (intro allI impI, drule spec, drule (1) mp, erule conjunct1)
    with ok l1 have len: "length (investors ?s2) = 1"
      by simp
    have pk: "map inv_pk (investors ?s2) = [1]"
      and jur: "map inv_jurisdiction (investors ?s2) = [Some ''DE'']"
      by code_simp+
    show ?thesis
      by (rule exI [of _ ?s2]) (intro conjI ok len pk jur)
  qed
  have inv: "investors whitelisted_then_committed = investors one_investor"
    by code_simp
  have eq: "ingest_event (tick 2) ?q one_investor = ingest_event (tick 2) ?p2 one_investor"
    by (rule wallet_key_normalised [OF wq w2 low, THEN conjunct1, THEN mp, OF same])
  have cfirst: "\<exists>r. ?one (snd (handle_commitment_recorded (tick 1) ?q empty_store)) = [r]
          \<and> com_investor (last (commitments
               (snd (handle_commitment_recorded (tick 1) ?q empty_store)))) = inv_pk r"
  proof -
    have "fst (handle_commitment_recorded (tick 1) ?q empty_store) = None"
      by code_simp
    then have ok: "handle_commitment_recorded (tick 1) ?q empty_store
                     = (None, snd (handle_commitment_recorded (tick 1) ?q empty_store))"
      by (metis prod.collapse)
    from wallet_key_normalised [OF wq w2 low, THEN conjunct2, THEN conjunct2, THEN conjunct1,
           THEN mp, OF ok]
    show ?thesis
      unfolding key by blast
  qed
  have rows: "map inv_wallet_address (investors one_wallet) = [''0xabc'']"
    "map inv_jurisdiction (investors one_wallet) = [Some ''US'']"
    "map inv_pk (investors one_wallet) = [1]"
    "map com_investor (commitments one_wallet) = [1]"
    "map ui_investor (units_issued one_wallet) = [1]"
    "map sr_investor (settlement_records one_wallet) = [1]"
    by code_simp+
  have key2: "lower ''0xabc'' = ''0xabc''"
    by code_simp
  note lookup = lookup [unfolded key2]
  from one r lookup c fk units again
  have shared: "\<exists>r. ?one one_investor = [r]
          \<and> inv_jurisdiction r = Some ''US'' \<and> inv_kyc_passed r
          \<and> Investor_get_or_create (tick 2) ''0xabc'' one_investor = (Inr r, one_investor)
          \<and> handle_commitment_recorded (tick 2) ?p2 one_investor
             = Commitment_create (tick 2) r (JInt 1000) (JStr ''USD'') (JStr ''REF1'')
                 (JStr ''0xH1'') 200 one_investor
          \<and> map com_investor (commitments whitelisted_then_committed) = [inv_pk r]
          \<and> ui_investor (last (units_issued
               (snd (handle_units_issued (tick 3) ?u one_investor)))) = inv_pk r
          \<and> (\<exists>s2. handle_investor_whitelisted (tick 2) ?v one_investor = (None, s2)
                  \<and> length (investors s2) = 1
                  \<and> map inv_pk (investors s2) = [inv_pk r]
                  \<and> map inv_jurisdiction (investors s2) = [Some ''DE''])"
    by (intro exI [of _ r]) simp
  show ?thesis
    apply (intro conjI)
    apply (rule low)
    apply (rule run)
    apply (rule shared)
    apply (rule inv)
    apply (rule eq)
    apply (rule cfirst)
    apply (rule rows)+
    done
qed

section \<open>Replaying OfferingConfigured\<close>

lemma filter_cases:
  obtains "filter P xs = []" | x where "filter P xs = [x]"
    | x y ys where "filter P xs = x # y # ys"
  by (cases "filter P xs" rule: list.exhaust) (auto, metis list.exhaust)

lemma Identifier_update_or_create_result:
  assumes "Identifier_update_or_create clock key a b c d e f s = (Inr r, s1)"
  shows "char_error key = None \<and> Identifier_save_error a b c d e f = None"
    and "filter (\<lambda>x. Some (idf_internal_asset_id x) = char_val key) (identifiers s1) = [r]"
    and "idf_isin r = char_val a \<and> idf_lei r = char_val b \<and> idf_upi r = char_val c \<and>
         idf_cusip r = char_val d \<and> idf_clearstream_id r = char_val e \<and>
         idf_euroclear_id r = char_val f"
    and "char_val key = Some (idf_internal_asset_id r)"
    and "s1\<lparr>identifiers := identifiers s\<rparr> = s"
    and "idf_updated_at r = clock Identifier_updated_at"
proof -
  show ok: "char_error key = None \<and> Identifier_save_error a b c d e f = None"
    using assms
    by (auto simp: Identifier_update_or_create_def split: option.splits list.splits)
  show "s1\<lparr>identifiers := identifiers s\<rparr> = s"
    using assms by (rule Identifier_update_or_create_others)
  show "idf_updated_at r = clock Identifier_updated_at"
    using assms
    by (auto simp: Identifier_update_or_create_def Let_def split: option.splits list.splits)
  let ?P = "\<lambda>x. Some (idf_internal_asset_id x) = char_val key"
  have "filter ?P (identifiers s1) = [r] \<and>
         (idf_isin r = char_val a \<and> idf_lei r = char_val b \<and> idf_upi r = char_val c \<and>
         idf_cusip r = char_val d \<and> idf_clearstream_id r = char_val e \<and>
         idf_euroclear_id r = char_val f) \<and> char_val key = Some (idf_internal_asset_id r)"
  proof (cases rule: filter_cases [of ?P "identifiers s"])
    case 1
    with assms ok show ?thesis
      by (auto simp: Identifier_update_or_create_def Let_def split: option.splits)
  next
    case (2 x)
    then have "?P x" by (rule filter_singletonD)
    with assms ok 2 show ?thesis
      by (auto simp: Identifier_update_or_create_def Let_def filter_map_same_key)
  next
    case (3 x y ys)
    with assms ok show ?thesis
      by (auto simp: Identifier_update_or_create_def Let_def)
  qed
  then show "filter ?P (identifiers s1) = [r]"
    and "idf_isin r = char_val a \<and> idf_lei r = char_val b \<and> idf_upi r = char_val c \<and>
         idf_cusip r = char_val d \<and> idf_clearstream_id r = char_val e \<and>
         idf_euroclear_id r = char_val f"
    and "char_val key = Some (idf_internal_asset_id r)"
    by blast+
qed

lemma Identifier_update_or_create_again:
  assumes "char_error key = None \<and> Identifier_save_error a b c d e f = None"
    and "filter (\<lambda>x. Some (idf_internal_asset_id x) = char_val key) (identifiers s) = [r]"
    and "idf_isin r = char_val a \<and> idf_lei r = char_val b \<and> idf_upi r = char_val c \<and>
         idf_cusip r = char_val d \<and> idf_clearstream_id r = char_val e \<and>
         idf_euroclear_id r = char_val f"
  shows "Identifier_update_or_create clock key a b c d e f s =
           (Inr (r\<lparr>idf_updated_at := clock Identifier_updated_at\<rparr>),
            s\<lparr>identifiers :=
                map (\<lambda>x. if Some (idf_internal_asset_id x) = char_val key
                         then x\<lparr>idf_updated_at := clock Identifier_updated_at\<rparr> else x)
                  (identifiers s)\<rparr>)"
proof -
  have r': "r\<lparr>idf_isin := char_val a, idf_lei := char_val b, idf_upi := char_val c,
              idf_cusip := char_val d, idf_clearstream_id := char_val e,
              idf_euroclear_id := char_val f, idf_updated_at := clock Identifier_updated_at\<rparr>
            = r\<lparr>idf_updated_at := clock Identifier_updated_at\<rparr>"
    using assms(3) by (cases r) simp
  show ?thesis
    using assms(1,2)
    by (simp add: Identifier_update_or_create_def Let_def r'
          map_only_match [OF assms(2), of "\<lambda>x. x\<lparr>idf_updated_at := clock Identifier_updated_at\<rparr>"])
qed

lemma Offering_save_error_None:
  "Offering_save_error a b c d e f h = None \<Longrightarrow>
   char_val a \<noteq> None \<and> int_val b \<noteq> None \<and> int_val c \<noteq> None \<and> int_val d \<noteq> None
     \<and> int_val e \<noteq> None \<and> char_val f \<noteq> None"
  by (auto simp: Offering_save_error_def split: option.splits if_splits)

lemma Offering_update_or_create_result:
  assumes "Offering_update_or_create clock key a b c d e f idf h s = (Inr r, s1)"
  shows "char_error key = None \<and> Offering_save_error a b c d e f h = None"
    and "filter (\<lambda>x. Some (off_internal_asset_id x) = char_val key) (offerings s1) = [r]"
    and "Some (off_offering_type r) = char_val a \<and> Some (off_max_raise_amount r) = int_val b \<and>
         Some (off_lockup_period r) = int_val c \<and> Some (off_start_timestamp r) = int_val d \<and>
         Some (off_end_timestamp r) = int_val e \<and> Some (off_base_currency r) = char_val f \<and>
         off_identifier r = idf_pk idf \<and> off_last_event_tx_hash r = char_val h"
    and "char_val key = Some (off_internal_asset_id r)"
    and "s1\<lparr>offerings := offerings s\<rparr> = s"
    and "off_updated_at r = clock Offering_updated_at"
proof -
  show ok: "char_error key = None \<and> Offering_save_error a b c d e f h = None"
    using assms
    by (auto simp: Offering_update_or_create_def split: option.splits list.splits)
  show "s1\<lparr>offerings := offerings s\<rparr> = s"
    using assms by (rule Offering_update_or_create_others)
  show "off_updated_at r = clock Offering_updated_at"
    using assms
    by (auto simp: Offering_update_or_create_def Let_def split: option.splits list.splits)
  from ok have nn: "char_val a \<noteq> None \<and> int_val b \<noteq> None \<and> int_val c \<noteq> None
      \<and> int_val d \<noteq> None \<and> int_val e \<noteq> None \<and> char_val f \<noteq> None"
    by (intro Offering_save_error_None [of a b c d e f h]) simp
  let ?P = "\<lambda>x. Some (off_internal_asset_id x) = char_val key"
  have "filter ?P (offerings s1) = [r] \<and>
         (Some (off_offering_type r) = char_val a \<and> Some (off_max_raise_amount r) = int_val b \<and>
         Some (off_lockup_period r) = int_val c \<and> Some (off_start_timestamp r) = int_val d \<and>
         Some (off_end_timestamp r) = int_val e \<and> Some (off_base_currency r) = char_val f \<and>
         off_identifier r = idf_pk idf \<and> off_last_event_tx_hash r = char_val h) \<and>
         char_val key = Some (off_internal_asset_id r)"
  proof (cases rule: filter_cases [of ?P "offerings s"])
    case 1
    with assms ok nn show ?thesis
      by (auto simp: Offering_update_or_create_def Let_def split: option.splits)
  next
    case (2 x)
    then have "?P x" by (rule filter_singletonD)
    with assms ok nn 2 show ?thesis
      by (auto simp: Offering_update_or_create_def Let_def filter_map_same_key)
  next
    case (3 x y ys)
    with assms ok show ?thesis
      by (auto simp: Offering_update_or_create_def Let_def)
  qed
  then show "filter ?P (offerings s1) = [r]"
    and "Some (off_offering_type r) = char_val a \<and> Some (off_max_raise_amount r) = int_val b \<and>
         Some (off_lockup_period r) = int_val c \<and> Some (off_start_timestamp r) = int_val d \<and>
         Some (off_end_timestamp r) = int_val e \<and> Some (off_base_currency r) = char_val f \<and>
         off_identifier r = idf_pk idf \<and> off_last_event_tx_hash r = char_val h"
    and "char_val key = Some (off_internal_asset_id r)"
    by blast+
qed

lemma Offering_update_or_create_again:
  assumes "char_error key = None \<and> Offering_save_error a b c d e f h = None"
    and "filter (\<lambda>x. Some (off_internal_asset_id x) = char_val key) (offerings s) = [r]"
    and "Some (off_offering_type r) = char_val a \<and> Some (off_max_raise_amount r) = int_val b \<and>
         Some (off_lockup_period r) = int_val c \<and> Some (off_start_timestamp r) = int_val d \<and>
         Some (off_end_timestamp r) = int_val e \<and> Some (off_base_currency r) = char_val f \<and>
         off_identifier r = idf_pk idf \<and> off_last_event_tx_hash r = char_val h"
  shows "Offering_update_or_create clock key a b c d e f idf h s =
           (Inr (r\<lparr>off_updated_at := clock Offering_updated_at\<rparr>),
            s\<lparr>offerings :=
                map (\<lambda>x. if Some (off_internal_asset_id x) = char_val key
                         then x\<lparr>off_updated_at := clock Offering_updated_at\<rparr> else x)
                  (offerings s)\<rparr>)"
proof -
  have vals: "the (char_val a) = off_offering_type r" "the (int_val b) = off_max_raise_amount r"
    "the (int_val c) = off_lockup_period r" "the (int_val d) = off_start_timestamp r"
    "the (int_val e) = off_end_timestamp r" "the (char_val f) = off_base_currency r"
    using assms(3) by (metis option.sel)+
  have r': "r\<lparr>off_identifier := idf_pk idf,
              off_last_event_tx_hash := char_val h,
              off_updated_at := clock Offering_updated_at\<rparr>
            = r\<lparr>off_updated_at := clock Offering_updated_at\<rparr>"
    using assms(3) by (cases r) simp
  show ?thesis
    using assms(1,2)
    by (simp add: Offering_update_or_create_def Let_def vals r'
          map_only_match [OF assms(2), of "\<lambda>x. x\<lparr>off_updated_at := clock Offering_updated_at\<rparr>"])
qed

lemma handle_offering_configured_None:
  assumes "handle_offering_configured clock payload s = (None, s1)"
  obtains d idf sa off where
    "dict_get_default payload ''identifiers'' (JObj []) = JObj d"
    "Identifier_update_or_create clock
       (dict_get d ''internal_asset_id'') (dict_get d ''isin'') (dict_get d ''lei'')
       (dict_get d ''upi'') (dict_get d ''cusip'') (dict_get d ''clearstream_id'')
       (dict_get d ''euroclear_id'') s = (Inr idf, sa)"
    "Offering_update_or_create clock
       (dict_get d ''internal_asset_id'') (dict_get payload ''offering_type'')
       (dict_get payload ''max_raise_amount'') (dict_get payload ''lockup_period'')
       (dict_get payload ''start_timestamp'') (dict_get payload ''end_timestamp'')
       (dict_get payload ''base_currency'') idf (dict_get payload ''transaction_hash'') sa
     = (Inr off, s1)"
  using assms
  by (auto simp: handle_offering_configured_def split: jvalue.splits prod.splits sum.splits)

lemma offering_configured_again:
  assumes run: "handle_offering_configured clock1 payload s = (None, s1)"
  shows "\<exists>d k. dict_get_default payload ''identifiers'' (JObj []) = JObj d
           \<and> char_val (dict_get d ''internal_asset_id'') = Some k
           \<and> (\<exists>r. filter (\<lambda>x. idf_internal_asset_id x = k) (identifiers s1) = [r])
           \<and> (\<exists>r. filter (\<lambda>x. off_internal_asset_id x = k) (offerings s1) = [r])
           \<and> handle_offering_configured clock2 payload s1 =
               (None,
                s1\<lparr>identifiers :=
                     map (\<lambda>x. if idf_internal_asset_id x = k
                              then x\<lparr>idf_updated_at := clock2 Identifier_updated_at\<rparr> else x)
                       (identifiers s1),
                   offerings :=
                     map (\<lambda>x. if off_internal_asset_id x = k
                              then x\<lparr>off_updated_at := clock2 Offering_updated_at\<rparr> else x)
                       (offerings s1)\<rparr>)"
proof -
  from run obtain d idf sa off where
    d: "dict_get_default payload ''identifiers'' (JObj []) = JObj d"
    and i1: "Identifier_update_or_create clock1
       (dict_get d ''internal_asset_id'') (dict_get d ''isin'') (dict_get d ''lei'')
       (dict_get d ''upi'') (dict_get d ''cusip'') (dict_get d ''clearstream_id'')
       (dict_get d ''euroclear_id'') s = (Inr idf, sa)"
    and o1: "Offering_update_or_create clock1
       (dict_get d ''internal_asset_id'') (dict_get payload ''offering_type'')
       (dict_get payload ''max_raise_amount'') (dict_get payload ''lockup_period'')
       (dict_get payload ''start_timestamp'') (dict_get payload ''end_timestamp'')
       (dict_get payload ''base_currency'') idf (dict_get payload ''transaction_hash'') sa
     = (Inr off, s1)"
    by (rule handle_offering_configured_None)
  note ir = Identifier_update_or_create_result [OF i1]
  note orr = Offering_update_or_create_result [OF o1]
  define k where "k = idf_internal_asset_id idf"
  let ?ti = "clock2 Identifier_updated_at"
  let ?to = "clock2 Offering_updated_at"
  have cv: "char_val (dict_get d ''internal_asset_id'') = Some k"
    using ir(4) by (simp add: k_def)
  have ids: "identifiers s1 = identifiers sa"
    using orr(5) by (metis store.select_convs(1) store.surjective store.update_convs(2))
  have fi: "filter (\<lambda>x. Some (idf_internal_asset_id x) = char_val (dict_get d ''internal_asset_id''))
              (identifiers s1) = [idf]"
    using ir(2) ids by simp
  from Identifier_update_or_create_again [OF ir(1) fi ir(3), of clock2]
  have i2: "Identifier_update_or_create clock2
       (dict_get d ''internal_asset_id'') (dict_get d ''isin'') (dict_get d ''lei'')
       (dict_get d ''upi'') (dict_get d ''cusip'') (dict_get d ''clearstream_id'')
       (dict_get d ''euroclear_id'') s1
     = (Inr (idf\<lparr>idf_updated_at := ?ti\<rparr>),
        s1\<lparr>identifiers :=
            map (\<lambda>x. if idf_internal_asset_id x = k then x\<lparr>idf_updated_at := ?ti\<rparr> else x)
              (identifiers s1)\<rparr>)"
    by (simp add: cv)
  let ?sb = "s1\<lparr>identifiers :=
            map (\<lambda>x. if idf_internal_asset_id x = k then x\<lparr>idf_updated_at := ?ti\<rparr> else x)
              (identifiers s1)\<rparr>"
  have fo: "filter (\<lambda>x. Some (off_internal_asset_id x) = char_val (dict_get d ''internal_asset_id''))
              (offerings ?sb) = [off]"
    using orr(2) by simp
  have fields: "Some (off_offering_type off) = char_val (dict_get payload ''offering_type'') \<and>
         Some (off_max_raise_amount off) = int_val (dict_get payload ''max_raise_amount'') \<and>
         Some (off_lockup_period off) = int_val (dict_get payload ''lockup_period'') \<and>
         Some (off_start_timestamp off) = int_val (dict_get payload ''start_timestamp'') \<and>
         Some (off_end_timestamp off) = int_val (dict_get payload ''end_timestamp'') \<and>
         Some (off_base_currency off) = char_val (dict_get payload ''base_currency'') \<and>
         off_identifier off = idf_pk (idf\<lparr>idf_updated_at := ?ti\<rparr>) \<and>
         off_last_event_tx_hash off = char_val (dict_get payload ''transaction_hash'')"
    using orr(3) by simp
  from Offering_update_or_create_again [OF orr(1) fo fields, of clock2]
  have o2: "Offering_update_or_create clock2
       (dict_get d ''internal_asset_id'') (dict_get payload ''offering_type'')
       (dict_get payload ''max_raise_amount'') (dict_get payload ''lockup_period'')
       (dict_get payload ''start_timestamp'') (dict_get payload ''end_timestamp'')
       (dict_get payload ''base_currency'') (idf\<lparr>idf_updated_at := ?ti\<rparr>)
       (dict_get payload ''transaction_hash'') ?sb
     = (Inr (off\<lparr>off_updated_at := ?to\<rparr>),
        s1\<lparr>identifiers :=
             map (\<lambda>x. if idf_internal_asset_id x = k then x\<lparr>idf_updated_at := ?ti\<rparr> else x)
               (identifiers s1),
           offerings :=
             map (\<lambda>x. if off_internal_asset_id x = k then x\<lparr>off_updated_at := ?to\<rparr> else x)
               (offerings s1)\<rparr>)"
    by (simp add: cv)
  have second: "handle_offering_configured clock2 payload s1 =
               (None,
                s1\<lparr>identifiers :=
                     map (\<lambda>x. if idf_internal_asset_id x = k then x\<lparr>idf_updated_at := ?ti\<rparr> else x)
                       (identifiers s1),
                   offerings :=
                     map (\<lambda>x. if off_internal_asset_id x = k then x\<lparr>off_updated_at := ?to\<rparr> else x)
                       (offerings s1)\<rparr>)"
    by (simp add: handle_offering_configured_def d i2 o2)
  have "filter (\<lambda>x. idf_internal_asset_id x = k) (identifiers s1) = [idf]"
    using fi by (simp add: cv)
  moreover have "filter (\<lambda>x. off_internal_asset_id x = k) (offerings s1) = [off]"
    using orr(2) by (simp add: cv)
  ultimately show ?thesis
    using d cv second by blast
qed


lemma filter_map_keep:
  assumes "\<And>x. P (f x) = P x"
  shows "filter P (map f xs) = map f (filter P xs)"
  by (induction xs) (simp_all add: assms)

text \<open>
  Claim C7. After an OfferingConfigured event that returned, the same payload applied
  again returns again. After the first application and after the second there is
  exactly one Offering row and exactly one Identifier row with the payload's
  \<open>internal_asset_id\<close>, and every row of both tables has after the second application
  the values it had after the first in every column the data model names. The second
  application changes nothing in the database but the column \<^verbatim>\<open>updated_at\<close> of these
  two rows, which Django sets at every save.
\<close>

theorem offering_configured_twice:
  assumes run: "handle_offering_configured clock1 payload s = (None, s1)"
  shows "\<exists>d k s2.
           dict_get_default payload ''identifiers'' (JObj []) = JObj d
           \<and> char_val (dict_get d ''internal_asset_id'') = Some k
           \<and> handle_offering_configured clock2 payload s1 = (None, s2)
           \<and> length (filter (\<lambda>x. off_internal_asset_id x = k) (offerings s1)) = 1
           \<and> length (filter (\<lambda>x. idf_internal_asset_id x = k) (identifiers s1)) = 1
           \<and> length (filter (\<lambda>x. off_internal_asset_id x = k) (offerings s2)) = 1
           \<and> length (filter (\<lambda>x. idf_internal_asset_id x = k) (identifiers s2)) = 1
           \<and> map offering_values (offerings s2) = map offering_values (offerings s1)
           \<and> map identifier_values (identifiers s2) = map identifier_values (identifiers s1)
           \<and> s2 = s1\<lparr>identifiers :=
                        map (\<lambda>x. if idf_internal_asset_id x = k
                                 then x\<lparr>idf_updated_at := clock2 Identifier_updated_at\<rparr>
                                 else x) (identifiers s1),
                      offerings :=
                        map (\<lambda>x. if off_internal_asset_id x = k
                                 then x\<lparr>off_updated_at := clock2 Offering_updated_at\<rparr>
                                 else x) (offerings s1)\<rparr>"
proof -
  from offering_configured_again [OF run, of clock2] obtain d k ri ro where
    d: "dict_get_default payload ''identifiers'' (JObj []) = JObj d"
    and k: "char_val (dict_get d ''internal_asset_id'') = Some k"
    and fi: "filter (\<lambda>x. idf_internal_asset_id x = k) (identifiers s1) = [ri]"
    and fo: "filter (\<lambda>x. off_internal_asset_id x = k) (offerings s1) = [ro]"
    and second: "handle_offering_configured clock2 payload s1 =
               (None,
                s1\<lparr>identifiers :=
                     map (\<lambda>x. if idf_internal_asset_id x = k
                              then x\<lparr>idf_updated_at := clock2 Identifier_updated_at\<rparr> else x)
                       (identifiers s1),
                   offerings :=
                     map (\<lambda>x. if off_internal_asset_id x = k
                              then x\<lparr>off_updated_at := clock2 Offering_updated_at\<rparr> else x)
                       (offerings s1)\<rparr>)"
    by blast
  let ?fi = "\<lambda>x. if idf_internal_asset_id x = k
                  then x\<lparr>idf_updated_at := clock2 Identifier_updated_at\<rparr> else x"
  let ?fo = "\<lambda>x. if off_internal_asset_id x = k
                  then x\<lparr>off_updated_at := clock2 Offering_updated_at\<rparr> else x"
  let ?s2 = "s1\<lparr>identifiers := map ?fi (identifiers s1), offerings := map ?fo (offerings s1)\<rparr>"
  have li: "length (filter (\<lambda>x. idf_internal_asset_id x = k) (map ?fi (identifiers s1))) = 1"
    by (subst filter_map_keep) (simp_all add: fi)
  have lo: "length (filter (\<lambda>x. off_internal_asset_id x = k) (map ?fo (offerings s1))) = 1"
    by (subst filter_map_keep) (simp_all add: fo)
  have vo: "map offering_values (map ?fo (offerings s1)) = map offering_values (offerings s1)"
    by (simp add: offering_values_def)
  have vi: "map identifier_values (map ?fi (identifiers s1))
              = map identifier_values (identifiers s1)"
    by (simp add: identifier_values_def)
  show ?thesis
    apply (rule exI [of _ d], rule exI [of _ k], rule exI [of _ ?s2])
    using d k second fi fo li lo vo vi by simp
qed

theorem offering_configured_twice_witness:
  "handle_offering_configured (tick 1) (offering_configured_event ''ASSET-A'' 1000 ''0xT1'')
      empty_store = (None, configured_once)
   \<and> handle_offering_configured (tick 2) (offering_configured_event ''ASSET-A'' 1000 ''0xT1'')
        configured_once = (None, configured_twice)
   \<and> map off_internal_asset_id (offerings configured_once) = [''ASSET-A'']
   \<and> map off_internal_asset_id (offerings configured_twice) = [''ASSET-A'']
   \<and> map idf_internal_asset_id (identifiers configured_twice) = [''ASSET-A'']
   \<and> map offering_values (offerings configured_twice)
       = map offering_values (offerings configured_once)
   \<and> map identifier_values (identifiers configured_twice)
       = map identifier_values (identifiers configured_once)
   \<and> map off_max_raise_amount (offerings configured_twice) = [1000]
   \<and> map off_updated_at (offerings configured_once) = [104]
   \<and> map off_updated_at (offerings configured_twice) = [204]"
proof -
  let ?p = "offering_configured_event ''ASSET-A'' 1000 ''0xT1''"
  have run: "handle_offering_configured (tick 1) ?p empty_store = (None, configured_once)"
    by code_simp
  from offering_configured_twice [OF run, of "tick 2"] obtain s2 where
    second: "handle_offering_configured (tick 2) ?p configured_once = (None, s2)"
    and vo: "map offering_values (offerings s2) = map offering_values (offerings configured_once)"
    and vi: "map identifier_values (identifiers s2)
               = map identifier_values (identifiers configured_once)"
    by blast
  from second have s2: "s2 = configured_twice"
    by (simp add: configured_twice_def)
  have "map off_internal_asset_id (offerings configured_once) = [''ASSET-A'']"
    "map off_internal_asset_id (offerings configured_twice) = [''ASSET-A'']"
    "map idf_internal_asset_id (identifiers configured_twice) = [''ASSET-A'']"
    "map off_max_raise_amount (offerings configured_twice) = [1000]"
    "map off_updated_at (offerings configured_once) = [104]"
    "map off_updated_at (offerings configured_twice) = [204]"
    by code_simp+
  with run second vo vi s2 show ?thesis by simp
qed

section \<open>Offering rows under later events\<close>

lemma Offering_update_or_create_shape:
  assumes "Offering_update_or_create clock key a b c d e f idf h s = (res, s1)"
  shows "offerings s1 = offerings s
       \<or> (\<exists>r. offerings s1 = offerings s @ [r] \<and> off_total_committed r = 0
              \<and> off_total_units_issued r = 0)
       \<or> (\<exists>g. offerings s1 =
                 map (\<lambda>x. if Some (off_internal_asset_id x) = char_val key then g x else x)
                   (offerings s)
              \<and> (\<forall>x. off_internal_asset_id (g x) = off_internal_asset_id x
                     \<and> off_total_committed (g x) = off_total_committed x
                     \<and> off_total_units_issued (g x) = off_total_units_issued x
                     \<and> off_is_finalized (g x) = off_is_finalized x))"
proof -
  let ?P = "\<lambda>x. Some (off_internal_asset_id x) = char_val key"
  let ?g = "\<lambda>x. x\<lparr>off_offering_type := the (char_val a),
                    off_max_raise_amount := the (int_val b),
                    off_lockup_period := the (int_val c),
                    off_start_timestamp := the (int_val d),
                    off_end_timestamp := the (int_val e),
                    off_base_currency := the (char_val f),
                    off_identifier := idf_pk idf,
                    off_last_event_tx_hash := char_val h,
                    off_updated_at := clock Offering_updated_at\<rparr>"
  show ?thesis
  proof (cases rule: filter_cases [of ?P "offerings s"])
    case 1
    with assms show ?thesis
      by (auto simp: Offering_update_or_create_def Let_def split: option.splits)
  next
    case 2
    show ?thesis
    proof (cases "offerings s1 = offerings s")
      case False
      with assms 2 have "offerings s1 = map (\<lambda>x. if ?P x then ?g x else x) (offerings s)"
        by (auto simp: Offering_update_or_create_def Let_def map_only_match [OF 2, of ?g]
                 split: option.splits)
      then show ?thesis
        by (intro disjI2 exI [of _ ?g]) simp
    qed simp
  next
    case 3
    with assms show ?thesis
      by (auto simp: Offering_update_or_create_def Let_def split: option.splits)
  qed
qed


lemma offering_row_step_refl: "offering_row_step p r r"
  by (simp add: offering_row_step_def)

lemma offerings_step_refl: "offerings_step p xs xs"
  by (simp add: offerings_step_def offering_row_step_refl)

lemma offerings_step_append: "offerings_step p xs (xs @ ys)"
  by (simp add: offerings_step_def offering_row_step_refl nth_append)

lemma Identifier_update_or_create_offerings:
  "Identifier_update_or_create clock key a b c d e f s = (res, s1) \<Longrightarrow> offerings s1 = offerings s"
  by (drule Identifier_update_or_create_others, drule arg_cong [where f = offerings]) simp

lemma Identifier_get_or_create_offerings:
  "Identifier_get_or_create clock key s = (res, s1) \<Longrightarrow> offerings s1 = offerings s"
  by (drule Identifier_get_or_create_others, drule arg_cong [where f = offerings]) simp

lemma Investor_get_or_create_offerings:
  "Investor_get_or_create clock w s = (res, s1) \<Longrightarrow> offerings s1 = offerings s"
  by (drule Investor_get_or_create_others, drule arg_cong [where f = offerings]) simp

lemma Investor_update_or_create_offerings:
  "Investor_update_or_create clock w a b c d s = (res, s1) \<Longrightarrow> offerings s1 = offerings s"
  by (drule Investor_update_or_create_others, drule arg_cong [where f = offerings]) simp

lemma create_offerings_snd:
  "offerings (snd (Commitment_create clock investor a b c d t s)) = offerings s"
  "offerings (snd (UnitsIssued_create clock investor a b c d e idf h t s)) = offerings s"
  "offerings (snd (SettlementRecord_create clock investor a b c d t s)) = offerings s"
  by (simp_all add: Commitment_create_def UnitsIssued_create_def SettlementRecord_create_def
        split: option.splits)

lemma whitelisted_offerings:
  "offerings (snd (handle_investor_whitelisted clock p s)) = offerings s"
  by (auto simp: handle_investor_whitelisted_def split: jvalue.splits prod.splits sum.splits
           dest: Investor_update_or_create_offerings)

lemma commitment_offerings:
  "offerings (snd (handle_commitment_recorded clock p s)) = offerings s"
  by (auto simp: handle_commitment_recorded_def Let_def create_offerings_snd
           split: jvalue.splits prod.splits sum.splits
           dest!: Investor_get_or_create_offerings)

lemma settlement_offerings:
  "offerings (snd (handle_settlement_recorded clock p s)) = offerings s"
  by (auto simp: handle_settlement_recorded_def Let_def create_offerings_snd
           split: jvalue.splits prod.splits sum.splits
           dest!: Investor_get_or_create_offerings)

lemma units_offerings:
  "offerings (snd (handle_units_issued clock p s)) = offerings s"
  by (auto simp: handle_units_issued_def Let_def create_offerings_snd
           split: jvalue.splits prod.splits sum.splits
           dest!: Investor_get_or_create_offerings Identifier_get_or_create_offerings)


lemma configured_offerings_shape:
  assumes "dict_get_default p ''identifiers'' (JObj []) = JObj d"
  shows "offerings (snd (handle_offering_configured clock p s)) = offerings s
       \<or> (\<exists>r. offerings (snd (handle_offering_configured clock p s)) = offerings s @ [r]
              \<and> off_total_committed r = 0 \<and> off_total_units_issued r = 0)
       \<or> (\<exists>g. offerings (snd (handle_offering_configured clock p s)) =
                 map (\<lambda>x. if Some (off_internal_asset_id x)
                               = char_val (dict_get d ''internal_asset_id'') then g x else x)
                   (offerings s)
              \<and> (\<forall>x. off_internal_asset_id (g x) = off_internal_asset_id x
                     \<and> off_total_committed (g x) = off_total_committed x
                     \<and> off_total_units_issued (g x) = off_total_units_issued x
                     \<and> off_is_finalized (g x) = off_is_finalized x))"
proof -
  obtain res sa where i: "Identifier_update_or_create clock
       (dict_get d ''internal_asset_id'') (dict_get d ''isin'') (dict_get d ''lei'')
       (dict_get d ''upi'') (dict_get d ''cusip'') (dict_get d ''clearstream_id'')
       (dict_get d ''euroclear_id'') s = (res, sa)"
    by (cases "Identifier_update_or_create clock
       (dict_get d ''internal_asset_id'') (dict_get d ''isin'') (dict_get d ''lei'')
       (dict_get d ''upi'') (dict_get d ''cusip'') (dict_get d ''clearstream_id'')
       (dict_get d ''euroclear_id'') s")
  note sa = Identifier_update_or_create_offerings [OF i]
  show ?thesis
  proof (cases res)
    case (Inl e)
    with i sa assms show ?thesis
      by (simp add: handle_offering_configured_def)
  next
    case (Inr idf)
    obtain res2 s1 where o: "Offering_update_or_create clock
       (dict_get d ''internal_asset_id'') (dict_get p ''offering_type'')
       (dict_get p ''max_raise_amount'') (dict_get p ''lockup_period'')
       (dict_get p ''start_timestamp'') (dict_get p ''end_timestamp'')
       (dict_get p ''base_currency'') idf (dict_get p ''transaction_hash'') sa = (res2, s1)"
      by (cases "Offering_update_or_create clock
       (dict_get d ''internal_asset_id'') (dict_get p ''offering_type'')
       (dict_get p ''max_raise_amount'') (dict_get p ''lockup_period'')
       (dict_get p ''start_timestamp'') (dict_get p ''end_timestamp'')
       (dict_get p ''base_currency'') idf (dict_get p ''transaction_hash'') sa")
    have "snd (handle_offering_configured clock p s) = s1"
      using assms i Inr o by (cases res2) (simp_all add: handle_offering_configured_def)
    with Offering_update_or_create_shape [OF o] sa show ?thesis
      by simp
  qed
qed

lemma configured_offerings_step:
  assumes ev: "dict_get p ''event'' = JStr ''OfferingConfigured''"
  shows "offerings_step p (offerings s) (offerings (snd (handle_offering_configured clock p s)))"
proof (cases "dict_get_default p ''identifiers'' (JObj [])")
  case (JObj d)
  from configured_offerings_shape [OF JObj, of clock s]
  consider "offerings (snd (handle_offering_configured clock p s)) = offerings s"
    | r where "offerings (snd (handle_offering_configured clock p s)) = offerings s @ [r]"
    | g where "offerings (snd (handle_offering_configured clock p s)) =
                 map (\<lambda>x. if Some (off_internal_asset_id x)
                               = char_val (dict_get d ''internal_asset_id'') then g x else x)
                   (offerings s)"
        "\<forall>x. off_internal_asset_id (g x) = off_internal_asset_id x
                     \<and> off_total_committed (g x) = off_total_committed x
                     \<and> off_total_units_issued (g x) = off_total_units_issued x
                     \<and> off_is_finalized (g x) = off_is_finalized x"
    by blast
  then show ?thesis
  proof cases
    case 1 then show ?thesis by (simp add: offerings_step_refl)
  next
    case 2 then show ?thesis by (simp add: offerings_step_append)
  next
    case 3
    show ?thesis
      unfolding 3(1) offerings_step_def
    proof (intro conjI allI impI)
      fix i assume i: "i < length (offerings s)"
      let ?x = "offerings s ! i"
      show "offering_row_step p ?x
              (map (\<lambda>x. if Some (off_internal_asset_id x)
                               = char_val (dict_get d ''internal_asset_id'') then g x else x)
                   (offerings s) ! i)"
      proof (cases "Some (off_internal_asset_id ?x) = char_val (dict_get d ''internal_asset_id'')")
        case True
        then have "char_val (dict_get d ''internal_asset_id'') = Some (off_internal_asset_id ?x)"
          by simp
        with True i 3(2) ev JObj show ?thesis
          by (simp add: offering_row_step_def offering_totals_def)
      next
        case False
        with i show ?thesis by (simp add: offering_row_step_refl)
      qed
    qed simp
  qed
qed (simp_all add: handle_offering_configured_def offerings_step_refl)

lemma finalized_offerings_shape:
  "offerings (snd (handle_finalized clock p s)) = offerings s
   \<or> (\<exists>tc tu fa.
        int_val (dict_get p ''total_committed'') = Some tc \<and>
        int_val (dict_get p ''total_units_issued'') = Some tu \<and>
        offerings (snd (handle_finalized clock p s)) =
          map (\<lambda>r. if off_last_event_tx_hash r = char_val (dict_get p ''transaction_hash'')
                   then r\<lparr>off_total_committed := tc, off_total_units_issued := tu,
                          off_finalized_at := fa, off_is_finalized := True\<rparr>
                   else r) (offerings s))"
proof (cases "filter (\<lambda>r. off_last_event_tx_hash r = char_val (dict_get p ''transaction_hash''))
                (offerings s) = []")
  case True
  then have "map (\<lambda>r. if off_last_event_tx_hash r = char_val (dict_get p ''transaction_hash'')
                      then f r else r) (offerings s) = offerings s" for f
    by (intro map_idI) (auto simp: filter_empty_conv)
  then show ?thesis
    by (simp add: handle_finalized_def Offering_filter_update_def Let_def split: option.splits)
next
  case False
  then show ?thesis
    by (auto simp: handle_finalized_def Offering_filter_update_def Let_def split: option.splits)
qed

lemma finalized_offerings_step:
  assumes ev: "dict_get p ''event'' = JStr ''Finalized''"
  shows "offerings_step p (offerings s) (offerings (snd (handle_finalized clock p s)))"
  using finalized_offerings_shape [of clock p s]
proof (elim disjE exE conjE)
  assume "offerings (snd (handle_finalized clock p s)) = offerings s"
  then show ?thesis by (simp add: offerings_step_refl)
next
  fix tc tu fa
  assume "offerings (snd (handle_finalized clock p s)) =
          map (\<lambda>r. if off_last_event_tx_hash r = char_val (dict_get p ''transaction_hash'')
                   then r\<lparr>off_total_committed := tc, off_total_units_issued := tu,
                          off_finalized_at := fa, off_is_finalized := True\<rparr>
                   else r) (offerings s)"
  then show ?thesis
    using ev by (simp add: offerings_step_def offering_row_step_def offering_config_def)
qed

lemma EVENT_HANDLERS_named:
  "EVENT_HANDLERS name = Some h \<Longrightarrow>
     (name = ''OfferingConfigured'' \<and> h = handle_offering_configured) \<or>
     (name = ''InvestorWhitelisted'' \<and> h = handle_investor_whitelisted) \<or>
     (name = ''CommitmentRecorded'' \<and> h = handle_commitment_recorded) \<or>
     (name = ''UnitsIssued'' \<and> h = handle_units_issued) \<or>
     (name = ''SettlementRecorded'' \<and> h = handle_settlement_recorded) \<or>
     (name = ''Finalized'' \<and> h = handle_finalized)"
  by (auto simp: EVENT_HANDLERS_def split: if_splits)

lemma ingest_event_cases:
  "snd (ingest_event clock p s) = s
   \<or> (dict_get p ''event'' = JStr ''OfferingConfigured''
        \<and> ingest_event clock p s = handle_offering_configured clock p s)
   \<or> (dict_get p ''event'' = JStr ''InvestorWhitelisted''
        \<and> ingest_event clock p s = handle_investor_whitelisted clock p s)
   \<or> (dict_get p ''event'' = JStr ''CommitmentRecorded''
        \<and> ingest_event clock p s = handle_commitment_recorded clock p s)
   \<or> (dict_get p ''event'' = JStr ''UnitsIssued''
        \<and> ingest_event clock p s = handle_units_issued clock p s)
   \<or> (dict_get p ''event'' = JStr ''SettlementRecorded''
        \<and> ingest_event clock p s = handle_settlement_recorded clock p s)
   \<or> (dict_get p ''event'' = JStr ''Finalized''
        \<and> ingest_event clock p s = handle_finalized clock p s)"
proof (cases "dict_get p ''event''")
  case (JStr name)
  show ?thesis
  proof (cases "EVENT_HANDLERS name")
    case None
    with JStr show ?thesis by (simp add: ingest_event_def Let_def)
  next
    case (Some h)
    have "ingest_event clock p s = h clock p s \<or> snd (ingest_event clock p s) = s"
      using JStr Some by (simp add: ingest_event_def Let_def)
    with EVENT_HANDLERS_named [OF Some] JStr show ?thesis
      by auto
  qed
qed (simp_all add: ingest_event_def Let_def truthy_def)

lemma ingest_event_offerings_step:
  "offerings_step p (offerings s) (offerings (snd (ingest_event clock p s)))"
  using ingest_event_cases [of clock p s]
  by (elim disjE conjE)
     (simp_all add: offerings_step_refl configured_offerings_step finalized_offerings_step
        whitelisted_offerings commitment_offerings units_offerings settlement_offerings)


lemma totals_nonneg_cong:
  "offerings s' = offerings s \<Longrightarrow> totals_nonneg s' = totals_nonneg s"
  by (simp add: totals_nonneg_def)

lemma nonneg_totals_int_val:
  "nonneg_totals p \<Longrightarrow> int_val (dict_get p ''total_committed'') = Some tc \<Longrightarrow> 0 \<le> tc"
  "nonneg_totals p \<Longrightarrow> int_val (dict_get p ''total_units_issued'') = Some tu \<Longrightarrow> 0 \<le> tu"
  by (auto simp: nonneg_totals_def)

lemma ingest_event_totals_nonneg:
  assumes inv: "totals_nonneg s"
    and fin: "dict_get p ''event'' = JStr ''Finalized'' \<longrightarrow> nonneg_totals p"
  shows "totals_nonneg (snd (ingest_event clock p s))"
  using ingest_event_cases [of clock p s]
proof (elim disjE conjE)
  assume "snd (ingest_event clock p s) = s"
  with inv show ?thesis by simp
next
  assume ev: "dict_get p ''event'' = JStr ''OfferingConfigured''"
    and eq: "ingest_event clock p s = handle_offering_configured clock p s"
  show ?thesis
  proof (cases "dict_get_default p ''identifiers'' (JObj [])")
    case (JObj d)
    from configured_offerings_shape [OF JObj, of clock s] inv show ?thesis
      unfolding eq totals_nonneg_def by (elim disjE exE conjE) auto
  qed (use inv in \<open>simp_all add: eq handle_offering_configured_def\<close>)
next
  assume "ingest_event clock p s = handle_investor_whitelisted clock p s"
  with inv show ?thesis
    by (simp add: totals_nonneg_cong [OF whitelisted_offerings])
next
  assume "ingest_event clock p s = handle_commitment_recorded clock p s"
  with inv show ?thesis
    by (simp add: totals_nonneg_cong [OF commitment_offerings])
next
  assume "ingest_event clock p s = handle_units_issued clock p s"
  with inv show ?thesis
    by (simp add: totals_nonneg_cong [OF units_offerings])
next
  assume "ingest_event clock p s = handle_settlement_recorded clock p s"
  with inv show ?thesis
    by (simp add: totals_nonneg_cong [OF settlement_offerings])
next
  assume ev: "dict_get p ''event'' = JStr ''Finalized''"
    and eq: "ingest_event clock p s = handle_finalized clock p s"
  from ev fin have nn: "nonneg_totals p" by simp
  from finalized_offerings_shape [of clock p s] inv nonneg_totals_int_val [OF nn]
  show ?thesis
    unfolding eq totals_nonneg_def by (elim disjE exE conjE) auto
qed

lemma ingest_all_totals_nonneg:
  assumes "totals_nonneg s"
    and "\<forall>(t, q) \<in> set events. dict_get q ''event'' = JStr ''Finalized'' \<longrightarrow> nonneg_totals q"
  shows "totals_nonneg (ingest_all events s)"
  using assms
proof (induction events arbitrary: s)
  case Nil
  then show ?case by simp
next
  case (Cons ev events)
  obtain t q where ev: "ev = (t, q)" by (cases ev)
  from Cons.prems ev have "totals_nonneg (snd (ingest_event t q s))"
    by (intro ingest_event_totals_nonneg) auto
  with Cons show ?case
    by (simp add: ev)
qed

text \<open>
  Claim C1, as the code has it. No reducer reads \<open>is_finalized\<close>, so the same rule holds
  for every Offering row, finalized or not. One event keeps every row in its place with
  its key, never turns \<open>is_finalized\<close> back to false, changes the six configuration
  fields of a row only when it is OfferingConfigured for the row's own
  \<open>internal_asset_id\<close>, and changes the two totals of a row only when it is Finalized
  with the row's \<open>last_event_tx_hash\<close>; the asset and the hash of the payload are taken
  as the columns convert them. In every state reached from the empty database by events
  whose Finalized payloads carry no total that the column converts to a negative
  integer, both totals of every Offering are at least 0.
\<close>

theorem offering_fields_frame:
  "(\<forall>i < length (offerings s).
      i < length (offerings (snd (ingest_event clock p s))) \<and>
      offering_row_step p (offerings s ! i) (offerings (snd (ingest_event clock p s)) ! i))
   \<and> ((\<forall>(t, q) \<in> set events. dict_get q ''event'' = JStr ''Finalized'' \<longrightarrow> nonneg_totals q)
        \<longrightarrow> (\<forall>r \<in> set (offerings (ingest_all events empty_store)).
               0 \<le> off_total_committed r \<and> 0 \<le> off_total_units_issued r))"
proof (intro conjI impI)
  show "\<forall>i < length (offerings s).
      i < length (offerings (snd (ingest_event clock p s))) \<and>
      offering_row_step p (offerings s ! i) (offerings (snd (ingest_event clock p s)) ! i)"
    using ingest_event_offerings_step [of p s clock]
    by (auto simp: offerings_step_def)
next
  assume "\<forall>(t, q) \<in> set events. dict_get q ''event'' = JStr ''Finalized'' \<longrightarrow> nonneg_totals q"
  moreover have "totals_nonneg empty_store"
    by (simp add: totals_nonneg_def empty_store_def)
  ultimately have "totals_nonneg (ingest_all events empty_store)"
    by (intro ingest_all_totals_nonneg)
  then show "\<forall>r \<in> set (offerings (ingest_all events empty_store)).
               0 \<le> off_total_committed r \<and> 0 \<le> off_total_units_issued r"
    by (simp add: totals_nonneg_def)
qed

theorem offering_fields_frame_witness:
  "off_is_finalized (offerings finalized_offering ! 0)
   \<and> offerings (snd (ingest_event (tick 3) (commitment_recorded_event ''0xabc'' 1000) finalized_offering)) ! 0
       = offerings finalized_offering ! 0
   \<and> off_is_finalized (offerings reconfigured_offering ! 0)
   \<and> offering_totals (offerings reconfigured_offering ! 0)
       = offering_totals (offerings finalized_offering ! 0)
   \<and> nonneg_totals (finalized_event ''0xT1'' 500 20)
   \<and> \<not> nonneg_totals (finalized_event_text ''0xT1'' ''-5'' '' 7_000 '')
   \<and> 0 \<le> off_total_committed (offerings finalized_offering ! 0)
   \<and> off_total_committed (offerings finalized_offering ! 0) = 500"
proof -
  let ?c = "commitment_recorded_event ''0xabc'' 1000"
  let ?o = "offering_configured_event ''ASSET-A'' 9999 ''0xT3''"
  have len: "0 < length (offerings finalized_offering)"
    by code_simp
  have fin: "off_is_finalized (offerings finalized_offering ! 0)"
    "off_total_committed (offerings finalized_offering ! 0) = 500"
    by code_simp+
  have ev: "dict_get ?c ''event'' \<noteq> JStr ''OfferingConfigured''"
    "dict_get ?c ''event'' \<noteq> JStr ''Finalized''"
    "dict_get ?o ''event'' \<noteq> JStr ''Finalized''"
    by code_simp+
  have nn: "nonneg_totals (finalized_event ''0xT1'' 500 20)"
    by code_simp
  have neg: "\<not> nonneg_totals (finalized_event_text ''0xT1'' ''-5'' '' 7_000 '')"
    by code_simp
  have evs: "\<forall>(t, q) \<in> set [(tick 1, offering_configured_event ''ASSET-A'' 1000 ''0xT1''),
                             (tick 2, finalized_event ''0xT1'' 500 20)].
               dict_get q ''event'' = JStr ''Finalized'' \<longrightarrow> nonneg_totals q"
    using nn by (simp add: offering_configured_event_def dict_get_def)
  note a = offering_fields_frame [of finalized_offering "tick 3" ?o "[]",
             THEN conjunct1, rule_format, OF len]
  note b = offering_fields_frame [of finalized_offering "tick 3" ?c
             "[(tick 1, offering_configured_event ''ASSET-A'' 1000 ''0xT1''),
               (tick 2, finalized_event ''0xT1'' 500 20)]"]
  from b [THEN conjunct1, rule_format, OF len] ev
  have same: "off_is_finalized (offerings (snd (ingest_event (tick 3) ?c finalized_offering)) ! 0)"
    "offering_totals (offerings (snd (ingest_event (tick 3) ?c finalized_offering)) ! 0)
        = offering_totals (offerings finalized_offering ! 0)"
    "offering_config (offerings (snd (ingest_event (tick 3) ?c finalized_offering)) ! 0)
        = offering_config (offerings finalized_offering ! 0)"
    using fin by (auto simp: offering_row_step_def)
  from a ev fin
  have re: "off_is_finalized (offerings reconfigured_offering ! 0)"
    "offering_totals (offerings reconfigured_offering ! 0)
       = offering_totals (offerings finalized_offering ! 0)"
    by (auto simp: offering_row_step_def reconfigured_offering_def)
  from b [THEN conjunct2, THEN mp, OF evs]
  have "\<forall>r \<in> set (offerings finalized_offering).
          0 \<le> off_total_committed r \<and> 0 \<le> off_total_units_issued r"
    by (simp only: finalized_offering_def)
  moreover have "offerings finalized_offering ! 0 \<in> set (offerings finalized_offering)"
    using len by (rule nth_mem)
  ultimately have pos: "0 \<le> off_total_committed (offerings finalized_offering ! 0)"
    by blast
  have row: "offerings (snd (ingest_event (tick 3) ?c finalized_offering)) ! 0
       = offerings finalized_offering ! 0"
    by code_simp
  from fin re nn neg pos row show ?thesis by simp
qed

text \<open>
  Claim C1 as stated fails on three counts. An Offering that is finalized is
  reconfigured by a later OfferingConfigured for its asset (\<open>max_raise_amount\<close> goes from
  1000 to 9999 while \<open>is_finalized\<close> stays true); a second Finalized with the same hash
  rewrites its totals (500 to 777); and a Finalized payload with negative totals stores
  them, also when a total is sent as text.
\<close>

theorem offering_fields_frame_counterexample:
  "map off_is_finalized (offerings finalized_offering) = [True]
   \<and> map off_max_raise_amount (offerings finalized_offering) = [1000]
   \<and> map off_total_committed (offerings finalized_offering) = [500]
   \<and> map off_is_finalized (offerings reconfigured_offering) = [True]
   \<and> map off_max_raise_amount (offerings reconfigured_offering) = [9999]
   \<and> map off_total_committed (offerings refinalized_offering) = [777]
   \<and> map off_total_committed (offerings negative_totals_offering) = [- 5]
   \<and> map off_total_units_issued (offerings negative_totals_offering) = [- 7]
   \<and> map offering_totals (offerings text_totals_offering) = [(- 5, 7000)]"
  by (intro conjI; code_simp)

section \<open>Settlement rows\<close>

lemma SettlementRecord_create_fields:
  assumes "SettlementRecord_create clock investor a b c d t s = (None, s')"
  shows "\<exists>r. settlement_records s' = settlement_records s @ [r] \<and>
             investors s' = investors s \<and>
             sr_pk r = Suc (length (settlement_records s)) \<and>
             sr_investor r = inv_pk investor \<and>
             int_val a = Some (sr_units r) \<and>
             - (2 ^ 63) \<le> sr_units r \<and> sr_units r < 2 ^ 63 \<and>
             char_val b = Some (sr_settlement_system r) \<and>
             char_val c = Some (sr_external_reference r) \<and>
             char_val d = Some (sr_tx_hash r) \<and>
             sr_settled_at r = t \<and> sr_created_at r = clock SettlementRecord_created_at"
  using assms
  by (auto simp: SettlementRecord_create_def int64_def split: if_splits option.splits)

text \<open>
  Claim C2, as the code has it. A SettlementRecorded event that returns has appended one
  row to the settlement table. The row has the eight columns of the model class and no
  other: its key, the investor (the one Investor row keyed by the lower-cased wallet),
  \<open>units\<close>, \<open>settlement_system\<close>, \<open>external_reference\<close> and \<open>tx_hash\<close> from the payload
  as the columns convert them, \<open>units\<close> within the 64-bit range, the reducer's reading
  of the clock in \<open>settled_at\<close>, and in \<open>created_at\<close> the reading Django makes when it
  inserts the row. There is no status column, and the reducer writes no status: the four
  payload columns hold what the payload holds.
\<close>

theorem settlement_recorded_row:
  assumes "handle_settlement_recorded clock payload s = (None, s')"
  shows "\<exists>r w inv.
           settlement_records s' = settlement_records s @ [r]
           \<and> dict_get payload ''investor'' = JStr w
           \<and> filter (\<lambda>x. inv_wallet_address x = lower w) (investors s') = [inv]
           \<and> sr_pk r = Suc (length (settlement_records s))
           \<and> sr_investor r = inv_pk inv
           \<and> int_val (dict_get payload ''units'') = Some (sr_units r)
           \<and> - (2 ^ 63) \<le> sr_units r \<and> sr_units r < 2 ^ 63
           \<and> char_val (dict_get payload ''settlement_system'') = Some (sr_settlement_system r)
           \<and> char_val (dict_get payload ''external_reference'') = Some (sr_external_reference r)
           \<and> char_val (dict_get payload ''transaction_hash'') = Some (sr_tx_hash r)
           \<and> sr_settled_at r = clock Timezone_now
           \<and> sr_created_at r = clock SettlementRecord_created_at
           \<and> map fst (SettlementRecord_fields r) =
               [''id'', ''investor'', ''units'', ''settlement_system'', ''external_reference'',
                ''tx_hash'', ''settled_at'', ''created_at'']
           \<and> map snd (SettlementRecord_fields r) =
               [JInt (int (sr_pk r)), JInt (int (inv_pk inv)), JInt (sr_units r),
                JStr (sr_settlement_system r), JStr (sr_external_reference r),
                JStr (sr_tx_hash r), JInt (clock Timezone_now),
                JInt (clock SettlementRecord_created_at)]"
proof -
  from assms obtain w where w: "dict_get payload ''investor'' = JStr w"
    by (cases "dict_get payload ''investor''") (simp_all add: handle_settlement_recorded_def)
  obtain res s1 where g: "Investor_get_or_create clock (lower w) s = (res, s1)"
    by (cases "Investor_get_or_create clock (lower w) s")
  with assms w obtain inv where inv: "res = Inr inv"
    and c: "SettlementRecord_create clock inv (dict_get payload ''units'')
              (dict_get payload ''settlement_system'') (dict_get payload ''external_reference'')
              (dict_get payload ''transaction_hash'') (clock Timezone_now) s1 = (None, s')"
    by (cases res) (simp_all add: handle_settlement_recorded_def)
  from g inv have u: "filter (\<lambda>x. inv_wallet_address x = lower w) (investors s1) = [inv]"
    by (intro Investor_get_or_create_unique) simp
  have recs: "settlement_records s1 = settlement_records s"
    using Investor_get_or_create_others [OF g]
    by (drule_tac arg_cong [where f = settlement_records]) simp
  from SettlementRecord_create_fields [OF c] u recs w show ?thesis
    by (auto simp: SettlementRecord_fields_def)
qed

theorem settlement_recorded_row_witness:
  "handle_settlement_recorded (tick 5) (settlement_recorded_event ''0xABC'' 100) empty_store
     = (None, settlement_recorded_once)
   \<and> length (settlement_records settlement_recorded_once) = 1
   \<and> map sr_units (settlement_records settlement_recorded_once) = [100]
   \<and> map sr_settled_at (settlement_records settlement_recorded_once) = [500]
   \<and> map sr_created_at (settlement_records settlement_recorded_once) = [509]
   \<and> map inv_wallet_address (investors settlement_recorded_once) = [''0xabc'']
   \<and> map sr_units
        (settlement_records
           (snd (handle_settlement_recorded (tick 5)
                   [(''investor'', JStr ''0xABC''), (''units'', JStr ''100''),
                    (''settlement_system'', JStr ''CLEARSTREAM''),
                    (''external_reference'', JInt 42), (''transaction_hash'', JStr ''0xS1'')]
                   empty_store))) = [100]
   \<and> map sr_external_reference
        (settlement_records
           (snd (handle_settlement_recorded (tick 5)
                   [(''investor'', JStr ''0xABC''), (''units'', JStr ''100''),
                    (''settlement_system'', JStr ''CLEARSTREAM''),
                    (''external_reference'', JInt 42), (''transaction_hash'', JStr ''0xS1'')]
                   empty_store))) = [''42'']
   \<and> handle_settlement_recorded (tick 5) (settlement_recorded_event ''0xABC'' (2 ^ 63))
        empty_store
       = (Some OverflowError,
          snd (Investor_get_or_create (tick 5) ''0xabc'' empty_store))"
proof -
  let ?p = "settlement_recorded_event ''0xABC'' 100"
  have run: "handle_settlement_recorded (tick 5) ?p empty_store = (None, settlement_recorded_once)"
    by code_simp
  have e: "settlement_records empty_store = []"
    by (simp add: empty_store_def)
  from settlement_recorded_row [OF run] e
  have "length (settlement_records settlement_recorded_once) = 1"
    by auto
  moreover have "map sr_units (settlement_records settlement_recorded_once) = [100]"
    "map sr_settled_at (settlement_records settlement_recorded_once) = [500]"
    "map sr_created_at (settlement_records settlement_recorded_once) = [509]"
    "map inv_wallet_address (investors settlement_recorded_once) = [''0xabc'']"
    "map sr_units
        (settlement_records
           (snd (handle_settlement_recorded (tick 5)
                   [(''investor'', JStr ''0xABC''), (''units'', JStr ''100''),
                    (''settlement_system'', JStr ''CLEARSTREAM''),
                    (''external_reference'', JInt 42), (''transaction_hash'', JStr ''0xS1'')]
                   empty_store))) = [100]"
    "map sr_external_reference
        (settlement_records
           (snd (handle_settlement_recorded (tick 5)
                   [(''investor'', JStr ''0xABC''), (''units'', JStr ''100''),
                    (''settlement_system'', JStr ''CLEARSTREAM''),
                    (''external_reference'', JInt 42), (''transaction_hash'', JStr ''0xS1'')]
                   empty_store))) = [''42'']"
    "handle_settlement_recorded (tick 5) (settlement_recorded_event ''0xABC'' (2 ^ 63))
        empty_store
       = (Some OverflowError,
          snd (Investor_get_or_create (tick 5) ''0xabc'' empty_store))"
    by code_simp+
  ultimately show ?thesis using run by simp
qed

text \<open>
  Claim C2 as stated fails: the row the reducer creates has no status column, and the
  row of this event holds the value PENDING nowhere.
\<close>

theorem settlement_recorded_row_counterexample:
  "map SettlementRecord_fields (settlement_records settlement_recorded_once) =
     [[(''id'', JInt 1), (''investor'', JInt 1), (''units'', JInt 100),
       (''settlement_system'', JStr ''CLEARSTREAM''),
       (''external_reference'', JStr ''CLSTM-2025-001''),
       (''tx_hash'', JStr ''0xS1''), (''settled_at'', JInt 500), (''created_at'', JInt 509)]]
   \<and> list_all (\<lambda>r. map_of (SettlementRecord_fields r) ''status'' = None
                   \<and> map_of (SettlementRecord_fields r) ''settlement_status'' = None
                   \<and> JStr ''PENDING'' \<notin> set (map snd (SettlementRecord_fields r)))
        (settlement_records settlement_recorded_once)"
  by (intro conjI; code_simp)

section \<open>The Clearstream unit check\<close>

lemma except_Exception_returns: "\<exists>v. fst (except_Exception block handler) = Inr v"
proof (cases block)
  case (Pair r sent)
  then show ?thesis
    by (cases r) (auto simp: except_Exception_def split: exn.splits)
qed

lemma except_Exception_id: "fst block = Inr v \<Longrightarrow> except_Exception block handler = block"
  by (cases block) (simp add: except_Exception_def)

lemma except_Exception_Inr [simp]: "except_Exception (Inr v, sent) handler = (Inr v, sent)"
  by (simp add: except_Exception_def)

lemma except_Exception_Inl [simp]:
  "except_Exception (Inl (Exn msg), sent) handler = (Inr (handler msg), sent)"
  by (simp add: except_Exception_def)

text \<open>
  Claim C9. With Clearstream credentials configured and a provider that answers status
  200 with a JSON object, the Clearstream adapter, and \<open>reconcile_settlement\<close> for a
  mapping of system CLEARSTREAM, return \<^verbatim>\<open>(True, None)\<close> when \<^verbatim>\<open>str\<close> of the object's
  \<open>quantity\<close> (of \<^verbatim>\<open>"0"\<close> when the object has none) is the record's \<open>units\<close>, and otherwise
  \<^verbatim>\<open>(False, "Unit mismatch: on-chain=.., CSD=..")\<close>.
\<close>

theorem clearstream_units_check:
  assumes "map_of credentials ''CLEARSTREAM'' = Some creds"
    and "\<forall>request. http_client request = Reply 200 (Json (JObj csd_data))"
  shows "fst (reconcile_clearstream credentials http_client record mapping) =
           Inr (if py_str (dict_get_default csd_data ''quantity'' (JStr ''0'')) = units record
                then (True, JNull)
                else (False,
                      JStr (''Unit mismatch: on-chain='' @ units record @ '', CSD=''
                            @ py_str (dict_get_default csd_data ''quantity'' (JStr ''0'')))))
       \<and> (csd_system mapping = CLEARSTREAM \<longrightarrow>
            reconcile_settlement credentials http_client record mapping
              = reconcile_clearstream credentials http_client record mapping)"
proof
  show "fst (reconcile_clearstream credentials http_client record mapping) =
           Inr (if py_str (dict_get_default csd_data ''quantity'' (JStr ''0'')) = units record
                then (True, JNull)
                else (False,
                      JStr (''Unit mismatch: on-chain='' @ units record @ '', CSD=''
                            @ py_str (dict_get_default csd_data ''quantity'' (JStr ''0'')))))"
    using assms by (simp add: reconcile_clearstream_def Let_def)
  show "csd_system mapping = CLEARSTREAM \<longrightarrow>
            reconcile_settlement credentials http_client record mapping
              = reconcile_clearstream credentials http_client record mapping"
  proof
    assume sys: "csd_system mapping = CLEARSTREAM"
    have "\<exists>v. fst (reconcile_clearstream credentials http_client record mapping) = Inr v"
      unfolding reconcile_clearstream_def by (rule except_Exception_returns)
    then obtain v where
      "fst (reconcile_clearstream credentials http_client record mapping) = Inr v" ..
    then show "reconcile_settlement credentials http_client record mapping
              = reconcile_clearstream credentials http_client record mapping"
      using sys by (simp add: reconcile_settlement_def except_Exception_id)
  qed
qed

theorem clearstream_units_check_witness:
  "fst (reconcile_clearstream example_credentials (answers (JObj [(''quantity'', JInt 100)]))
         (example_record ''R1'' ''100'') (example_mapping CLEARSTREAM)) = Inr (True, JNull)
   \<and> fst (reconcile_clearstream example_credentials (answers (JObj [(''quantity'', JInt 99)]))
         (example_record ''R1'' ''100'') (example_mapping CLEARSTREAM))
       = Inr (False, JStr ''Unit mismatch: on-chain=100, CSD=99'')
   \<and> fst (reconcile_settlement example_credentials (answers (JObj [(''quantity'', JInt 100)]))
         (example_record ''R1'' ''100'') (example_mapping CLEARSTREAM)) = Inr (True, JNull)"
proof -
  have c: "map_of example_credentials ''CLEARSTREAM''
             = Some [(''api_key'', ''key-1''), (''endpoint'', ''https://api.clearstream.com/v1'')]"
    by (simp add: example_credentials_def)
  have a: "\<forall>request. answers (JObj d) request = Reply 200 (Json (JObj d))" for d
    by (simp add: answers_def)
  have q: "py_str (dict_get_default [(''quantity'', JInt 100)] ''quantity'' (JStr ''0'')) = ''100''"
    "py_str (dict_get_default [(''quantity'', JInt 99)] ''quantity'' (JStr ''0'')) = ''99''"
    by code_simp+
  have u: "units (example_record ''R1'' ''100'') = ''100''"
    "csd_system (example_mapping CLEARSTREAM) = CLEARSTREAM"
    by (simp_all add: example_record_def example_mapping_def)
  note m = clearstream_units_check [OF c a, of _ "example_record ''R1'' ''100''"
             "example_mapping CLEARSTREAM"]
  from m [of "[(''quantity'', JInt 100)]"] m [of "[(''quantity'', JInt 99)]"] q u
  show ?thesis by simp
qed

section \<open>The adapter boundary\<close>

lemmas adapter_defs = reconcile_clearstream_def reconcile_euroclear_def reconcile_dtcc_def
  reconcile_dpo_global_def

lemma adapters_return:
  "\<exists>v. fst (reconcile_clearstream credentials http_client record mapping) = Inr v"
  "\<exists>v. fst (reconcile_euroclear credentials http_client record mapping) = Inr v"
  "\<exists>v. fst (reconcile_dtcc credentials http_client record mapping) = Inr v"
  "\<exists>v. fst (reconcile_dpo_global credentials http_client record mapping) = Inr v"
  unfolding adapter_defs by (rule except_Exception_returns)+

lemma reconcile_settlement_dispatch:
  "reconcile_settlement credentials http_client record mapping =
     (case csd_system mapping of
        CLEARSTREAM \<Rightarrow> reconcile_clearstream credentials http_client record mapping
      | EUROCLEAR \<Rightarrow> reconcile_euroclear credentials http_client record mapping
      | DTCC \<Rightarrow> reconcile_dtcc credentials http_client record mapping
      | DPO_GLOBAL \<Rightarrow> reconcile_dpo_global credentials http_client record mapping
      | OTHER name \<Rightarrow> (Inr (False, JStr (''Unsupported CSD system: '' @ name)), []))"
proof (cases "csd_system mapping")
  case CLEARSTREAM
  from adapters_return(1) obtain v where
    "fst (reconcile_clearstream credentials http_client record mapping) = Inr v" ..
  with CLEARSTREAM show ?thesis
    by (simp add: reconcile_settlement_def except_Exception_id)
next
  case EUROCLEAR
  from adapters_return(2) obtain v where
    "fst (reconcile_euroclear credentials http_client record mapping) = Inr v" ..
  with EUROCLEAR show ?thesis
    by (simp add: reconcile_settlement_def except_Exception_id)
next
  case DTCC
  from adapters_return(3) obtain v where
    "fst (reconcile_dtcc credentials http_client record mapping) = Inr v" ..
  with DTCC show ?thesis
    by (simp add: reconcile_settlement_def except_Exception_id)
next
  case DPO_GLOBAL
  from adapters_return(4) obtain v where
    "fst (reconcile_dpo_global credentials http_client record mapping) = Inr v" ..
  with DPO_GLOBAL show ?thesis
    by (simp add: reconcile_settlement_def except_Exception_id)
next
  case (OTHER name)
  then show ?thesis
    by (simp add: reconcile_settlement_def)
qed

lemma not_configured:
  assumes "csd_system mapping \<in> {CLEARSTREAM, EUROCLEAR, DTCC, DPO_GLOBAL}"
    and "map_of credentials (CSDSystem_value (csd_system mapping)) = None"
  shows "reconcile_settlement credentials http_client record mapping =
           (Inr (False, JStr (adapter_name (csd_system mapping) @ '' credentials not configured'')),
            [])"
  using assms
  by (auto simp: reconcile_settlement_dispatch adapter_defs)

lemma provider_failure:
  assumes sys: "csd_system mapping \<in> {CLEARSTREAM, EUROCLEAR, DPO_GLOBAL}"
    and creds: "map_of credentials (CSDSystem_value (csd_system mapping)) = Some creds"
    and meta: "metadata mapping = JObj meta"
    and net: "\<forall>request. http_client request = Raises (Exn msg)
                      \<or> http_client request = Reply 200 (Not_json (Exn msg))"
  shows "fst (reconcile_settlement credentials http_client record mapping) =
           Inr (False, JStr (adapter_name (csd_system mapping) @ '' reconciliation failed: '' @ msg))"
proof -
  have r: "(case http_client request of
              Raises e \<Rightarrow> (Inl e, [request])
            | Reply status_code body \<Rightarrow>
                if status_code = 200
                then (case body of Not_json e \<Rightarrow> (Inl e, [request]) | Json v \<Rightarrow> f v)
                else g status_code) = (Inl (Exn msg), [request])" for request f g
    using net [rule_format, of request] by auto
  from sys consider "csd_system mapping = CLEARSTREAM" | "csd_system mapping = EUROCLEAR"
    | "csd_system mapping = DPO_GLOBAL" by auto
  then show ?thesis
  proof cases
    case 1
    with creds show ?thesis
      by (simp add: reconcile_settlement_dispatch reconcile_clearstream_def Let_def r)
  next
    case 2
    with creds meta show ?thesis
      by (simp add: reconcile_settlement_dispatch reconcile_euroclear_def Let_def r)
  next
    case 3
    with creds show ?thesis
      by (simp add: reconcile_settlement_dispatch reconcile_dpo_global_def Let_def r)
  qed
qed


text \<open>
  Claim C6. \<open>reconcile_settlement\<close> and the Clearstream adapter return an outcome for
  every credential set, provider behaviour, record and mapping: nothing is raised to
  the caller. When the provider call raises, or the 200 response is not JSON, for a
  configured Clearstream, Euroclear or internal system, the outcome is the failure
  \<^verbatim>\<open>(False, "<system> reconciliation failed: <text of the exception>")\<close>, which is what
  the spec calls ProviderUnavailable. When the credentials have no entry for the
  mapping's system (one of the four with an adapter), the outcome is
  \<^verbatim>\<open>(False, "<system> credentials not configured")\<close>, the spec's NotConfigured, and no
  request has been sent.
\<close>

theorem reconcile_settlement_never_raises:
  "(\<exists>v. fst (reconcile_settlement credentials http_client record mapping) = Inr v)
   \<and> (\<exists>v. fst (reconcile_clearstream credentials http_client record mapping) = Inr v)
   \<and> (csd_system mapping \<in> {CLEARSTREAM, EUROCLEAR, DPO_GLOBAL}
        \<and> map_of credentials (CSDSystem_value (csd_system mapping)) = Some creds
        \<and> metadata mapping = JObj meta
        \<and> (\<forall>request. http_client request = Raises (Exn msg)
                      \<or> http_client request = Reply 200 (Not_json (Exn msg)))
        \<longrightarrow> fst (reconcile_settlement credentials http_client record mapping) =
              Inr (False,
                   JStr (adapter_name (csd_system mapping) @ '' reconciliation failed: '' @ msg)))
   \<and> (csd_system mapping \<in> {CLEARSTREAM, EUROCLEAR, DTCC, DPO_GLOBAL}
        \<and> map_of credentials (CSDSystem_value (csd_system mapping)) = None
        \<longrightarrow> reconcile_settlement credentials http_client record mapping =
              (Inr (False,
                    JStr (adapter_name (csd_system mapping) @ '' credentials not configured'')),
               []))"
proof (intro conjI impI)
  show "\<exists>v. fst (reconcile_settlement credentials http_client record mapping) = Inr v"
    unfolding reconcile_settlement_def by (rule except_Exception_returns)
  show "\<exists>v. fst (reconcile_clearstream credentials http_client record mapping) = Inr v"
    by (rule adapters_return)
next
  assume "csd_system mapping \<in> {CLEARSTREAM, EUROCLEAR, DPO_GLOBAL}
        \<and> map_of credentials (CSDSystem_value (csd_system mapping)) = Some creds
        \<and> metadata mapping = JObj meta
        \<and> (\<forall>request. http_client request = Raises (Exn msg)
                      \<or> http_client request = Reply 200 (Not_json (Exn msg)))"
  then show "fst (reconcile_settlement credentials http_client record mapping) =
              Inr (False,
                   JStr (adapter_name (csd_system mapping) @ '' reconciliation failed: '' @ msg))"
    by (intro provider_failure [of mapping credentials creds meta http_client msg]) simp_all
next
  assume "csd_system mapping \<in> {CLEARSTREAM, EUROCLEAR, DTCC, DPO_GLOBAL}
        \<and> map_of credentials (CSDSystem_value (csd_system mapping)) = None"
  then show "reconcile_settlement credentials http_client record mapping =
              (Inr (False,
                    JStr (adapter_name (csd_system mapping) @ '' credentials not configured'')),
               [])"
    by (intro not_configured) simp_all
qed

theorem reconcile_settlement_never_raises_witness:
  "fst (reconcile_settlement example_credentials (unreachable ''timed out'')
          (example_record ''R1'' ''100'') (example_mapping CLEARSTREAM))
     = Inr (False, JStr ''Clearstream reconciliation failed: timed out'')
   \<and> fst (reconcile_settlement example_credentials (garbled ''Expecting value'')
          (example_record ''R1'' ''100'') (example_mapping EUROCLEAR))
     = Inr (False, JStr ''Euroclear reconciliation failed: Expecting value'')
   \<and> reconcile_settlement example_credentials (unreachable ''timed out'')
          (example_record ''R1'' ''100'') (example_mapping DTCC)
     = (Inr (False, JStr ''DTCC credentials not configured''), [])"
proof -
  let ?r = "example_record ''R1'' ''100''"
  have sys: "csd_system (example_mapping s) = s"
    "metadata (example_mapping s) = JObj [(''isin'', JStr ''US0378331005'')]" for s
    by (simp_all add: example_mapping_def)
  have c: "map_of example_credentials (CSDSystem_value CLEARSTREAM)
             = Some [(''api_key'', ''key-1''), (''endpoint'', ''https://api.clearstream.com/v1'')]"
    "map_of example_credentials (CSDSystem_value EUROCLEAR)
             = Some [(''api_key'', ''key-2''), (''endpoint'', ''https://api.euroclear.com'')]"
    "map_of example_credentials (CSDSystem_value DTCC) = None"
    by (simp_all add: example_credentials_def)
  have n: "\<forall>request. unreachable m request = Raises (Exn m)
                    \<or> unreachable m request = Reply 200 (Not_json (Exn m))"
    "\<forall>request. garbled m request = Raises (Exn m)
                    \<or> garbled m request = Reply 200 (Not_json (Exn m))" for m
    by (simp_all add: unreachable_def garbled_def)
  note t = reconcile_settlement_never_raises
  from t [of example_credentials "unreachable ''timed out''" ?r "example_mapping CLEARSTREAM",
          THEN conjunct2, THEN conjunct2, THEN conjunct1, rule_format] sys c(1) n(1)
  have a: "fst (reconcile_settlement example_credentials (unreachable ''timed out'')
          ?r (example_mapping CLEARSTREAM))
     = Inr (False, JStr ''Clearstream reconciliation failed: timed out'')"
    by simp
  from t [of example_credentials "garbled ''Expecting value''" ?r "example_mapping EUROCLEAR",
          THEN conjunct2, THEN conjunct2, THEN conjunct1, rule_format] sys c(2) n(2)
  have b: "fst (reconcile_settlement example_credentials (garbled ''Expecting value'')
          ?r (example_mapping EUROCLEAR))
     = Inr (False, JStr ''Euroclear reconciliation failed: Expecting value'')"
    by simp
  from t [of example_credentials "unreachable ''timed out''" ?r "example_mapping DTCC",
          THEN conjunct2, THEN conjunct2, THEN conjunct2, rule_format] sys c(3)
  have d: "reconcile_settlement example_credentials (unreachable ''timed out'')
          ?r (example_mapping DTCC)
     = (Inr (False, JStr ''DTCC credentials not configured''), [])"
    by simp
  from a b d show ?thesis by simp
qed

section \<open>The batch\<close>

lemma filter_update_count:
  assumes "i < length xs"
  shows "length (filter P (xs[i := b])) + (if P (xs ! i) then 1 else 0)
           = length (filter P xs) + (if P b then 1 else 0)"
  using assms
proof (induction xs arbitrary: i)
  case Nil
  then show ?case by simp
next
  case (Cons x xs)
  then show ?case
    by (cases i) auto
qed

lemma fire_gate:
  assumes "fire outcomes ev s = Some s'"
  shows "permits s' + in_flight s' = permits s + in_flight s"
    and "length (phases s') = length (phases s)"
proof -
  show "length (phases s') = length (phases s)"
    using assms by (cases ev) (auto split: if_splits)
  show "permits s' + in_flight s' = permits s + in_flight s"
  proof (cases ev)
    case (Acquire i)
    with assms have i: "i < length (phases s)" "phases s ! i = Waiting" "0 < permits s"
      and s': "s' = s\<lparr>permits := permits s - 1, phases := (phases s)[i := In_flight]\<rparr>"
      by (auto split: if_splits)
    from filter_update_count [OF i(1), of "\<lambda>p. p = In_flight" In_flight] i(2)
    have "in_flight s' = Suc (in_flight s)"
      by (simp add: in_flight_def s')
    with i(3) show ?thesis by (simp add: s')
  next
    case (Release i)
    with assms have i: "i < length (phases s)" "phases s ! i = In_flight"
      and s': "s' = s\<lparr>permits := Suc (permits s),
                   phases := (phases s)[i := Done (outcomes ! i)],
                   finished := finished s @ [i]\<rparr>"
      by (auto split: if_splits)
    from filter_update_count [OF i(1), of "\<lambda>p. p = In_flight" "Done (outcomes ! i)"] i(2)
    have "Suc (in_flight s') = in_flight s"
      by (simp add: in_flight_def s')
    then show ?thesis by (simp add: s')
  qed
qed

lemma run_gate:
  assumes "run outcomes schedule s = Some s'"
  shows "permits s' + in_flight s' = permits s + in_flight s"
    and "length (phases s') = length (phases s)"
  using assms
proof (induction schedule arbitrary: s)
  case Nil
  {
    case 1 then show ?case by simp
  next
    case 2 then show ?case by simp
  }
next
  case (Cons ev evs)
  {
    case 1
    then obtain s1 where f: "fire outcomes ev s = Some s1" and r: "run outcomes evs s1 = Some s'"
      by (auto split: option.splits)
    from Cons.IH(1) [OF r] fire_gate(1) [OF f] show ?case by simp
  next
    case 2
    then obtain s1 where f: "fire outcomes ev s = Some s1" and r: "run outcomes evs s1 = Some s'"
      by (auto split: option.splits)
    from Cons.IH(2) [OF r] fire_gate(2) [OF f] show ?case by simp
  }
qed

lemma in_flight_initial: "in_flight (initial_state N n) = 0"
  by (simp add: in_flight_def initial_state_def)


lemma those_Some_all:
  "those xs = Some ys \<Longrightarrow> length ys = length xs \<and> (\<forall>i < length xs. xs ! i = Some (ys ! i))"
proof (induction xs arbitrary: ys)
  case Nil
  then show ?case by simp
next
  case (Cons x xs)
  then obtain y ys' where x: "x = Some y" and t: "those xs = Some ys'" and ys: "ys = y # ys'"
    by (auto split: option.splits)
  from Cons.IH [OF t] x ys show ?case
    by (auto simp: nth_Cons split: nat.splits)
qed





lemma fire_done_outcome:
  assumes "fire outcomes ev s = Some s'"
    and "\<forall>i < length (phases s). \<forall>r. phases s ! i = Done r \<longrightarrow> r = outcomes ! i"
  shows "\<forall>i < length (phases s'). \<forall>r. phases s' ! i = Done r \<longrightarrow> r = outcomes ! i"
proof (cases ev)
  case (Acquire k)
  with assms show ?thesis
    by (auto simp: nth_list_update split: if_splits)
next
  case (Release k)
  with assms show ?thesis
    by (auto simp: nth_list_update split: if_splits)
qed

lemma run_done_outcome:
  assumes "run outcomes schedule s = Some s'"
    and "\<forall>i < length (phases s). \<forall>r. phases s ! i = Done r \<longrightarrow> r = outcomes ! i"
  shows "\<forall>i < length (phases s'). \<forall>r. phases s' ! i = Done r \<longrightarrow> r = outcomes ! i"
  using assms
proof (induction schedule arbitrary: s)
  case Nil
  then show ?case by simp
next
  case (Cons ev evs)
  from Cons.prems(1) obtain s1 where f: "fire outcomes ev s = Some s1"
    and r: "run outcomes evs s1 = Some s'"
    by (auto split: option.splits)
  from Cons.IH [OF r fire_done_outcome [OF f Cons.prems(2)]] show ?case .
qed

lemma gathered_is_outcomes:
  assumes r: "run outcomes schedule (initial_state N (length outcomes)) = Some s"
    and g: "gathered s = Some completed"
  shows "completed = outcomes"
proof (rule nth_equalityI)
  have len: "length (phases s) = length outcomes"
    using run_gate(2) [OF r] by (simp add: initial_state_def)
  from those_Some_all [OF g [unfolded gathered_def]]
  have l: "length completed = length (phases s)"
    and all: "\<forall>i < length (phases s). outcome_of (phases s ! i) = Some (completed ! i)"
    by simp_all
  from l len show "length completed = length outcomes" by simp
  have d: "\<forall>i < length (phases s). \<forall>r. phases s ! i = Done r \<longrightarrow> r = outcomes ! i"
    by (rule run_done_outcome [OF r]) (simp add: initial_state_def)
  fix i assume "i < length completed"
  with l have i: "i < length (phases s)" by simp
  with all have "outcome_of (phases s ! i) = Some (completed ! i)" by simp
  then have "phases s ! i = Done (completed ! i)"
    by (cases "phases s ! i") (simp_all add: outcome_of_def)
  with d i show "completed ! i = outcomes ! i" by blast
qed

lemma collect_pairs: "collect (map Inr kvs) m = m ++ map_of (rev kvs)"
proof (induction kvs arbitrary: m)
  case Nil
  then show ?case by simp
next
  case (Cons kv kvs)
  obtain k v where kv: "kv = (k, v)" by (cases kv)
  have "collect (map Inr (kv # kvs)) m = collect (map Inr kvs) (m(k \<mapsto> v))"
    by (simp add: kv)
  also have "\<dots> = m(k \<mapsto> v) ++ map_of (rev kvs)"
    by (rule Cons.IH)
  also have "\<dots> = m ++ map_of (rev (kv # kvs))"
    by (rule ext) (simp add: kv map_add_def split: option.splits)
  finally show ?case .
qed

lemma map_of_rev_last:
  assumes "i < length kvs"
    and "\<forall>j. i < j \<and> j < length kvs \<longrightarrow> fst (kvs ! j) \<noteq> fst (kvs ! i)"
  shows "map_of (rev kvs) (fst (kvs ! i)) = Some (snd (kvs ! i))"
  using assms
proof (induction kvs rule: rev_induct)
  case Nil
  then show ?case by simp
next
  case (snoc x xs)
  show ?case
  proof (cases "i = length xs")
    case True
    then show ?thesis by (cases x) simp
  next
    case False
    with snoc.prems(1) have i: "i < length xs" by simp
    from snoc.prems(2) [rule_format, of "length xs"] i
    have ne: "fst x \<noteq> fst (xs ! i)" by (simp add: nth_append)
    have "\<forall>j. i < j \<and> j < length xs \<longrightarrow> fst (xs ! j) \<noteq> fst (xs ! i)"
    proof (intro allI impI)
      fix j assume j: "i < j \<and> j < length xs"
      with snoc.prems(2) [rule_format, of j] i show "fst (xs ! j) \<noteq> fst (xs ! i)"
        by (simp add: nth_append)
    qed
    from snoc.IH [OF i this] ne i show ?thesis
      by (cases x) (simp add: nth_append)
  qed
qed

lemma reconcile_with_semaphore_returns:
  "\<exists>r. fst (reconcile_settlement credentials http_client (fst pair) (snd pair)) = Inr r
       \<and> fst (reconcile_with_semaphore credentials http_client pair)
           = Inr (external_ref (fst pair), \<lparr>success = fst r, error = snd r\<rparr>)"
proof -
  have "\<exists>r. fst (reconcile_settlement credentials http_client (fst pair) (snd pair)) = Inr r"
    unfolding reconcile_settlement_def by (rule except_Exception_returns)
  then obtain r where
    r: "fst (reconcile_settlement credentials http_client (fst pair) (snd pair)) = Inr r" ..
  then have "fst (reconcile_with_semaphore credentials http_client pair)
           = Inr (external_ref (fst pair), \<lparr>success = fst r, error = snd r\<rparr>)"
    by (cases pair; cases "reconcile_settlement credentials http_client (fst pair) (snd pair)")
       (simp add: reconcile_with_semaphore_def)
  with r show ?thesis by blast
qed


lemma those_map_Some: "those (map Some xs) = Some xs"
  by (induction xs) simp_all

lemma sequential_from:
  assumes "0 < N" and "k \<le> n"
  shows "run outcomes (concat (map (\<lambda>i. [Acquire i, Release i]) [k ..< n]))
           \<lparr>permits = N,
            phases = map (\<lambda>i. Done (outcomes ! i)) [0 ..< k] @ replicate (n - k) Waiting,
            finished = [0 ..< k]\<rparr>
         = Some \<lparr>permits = N, phases = map (\<lambda>i. Done (outcomes ! i)) [0 ..< n],
                 finished = [0 ..< n]\<rparr>"
  using assms(2)
proof (induction "n - k" arbitrary: k)
  case 0
  then show ?case by simp
next
  case (Suc m)
  then have k: "k < n" and m: "m = n - Suc k" and le: "Suc k \<le> n" by simp_all
  let ?done = "map (\<lambda>i. Done (outcomes ! i)) [0 ..< k]"
  have rep: "replicate (n - k) Waiting = Waiting # replicate (n - Suc k) Waiting"
    using k by (metis Suc_diff_Suc replicate_Suc)
  have len: "length ?done = k" by simp
  have a: "fire outcomes (Acquire k)
             \<lparr>permits = N, phases = ?done @ replicate (n - k) Waiting, finished = [0 ..< k]\<rparr>
           = Some \<lparr>permits = N - 1,
                   phases = ?done @ In_flight # replicate (n - Suc k) Waiting,
                   finished = [0 ..< k]\<rparr>"
    using assms(1) k by (simp add: rep nth_append list_update_append del: replicate_Suc)
  have b: "fire outcomes (Release k)
             \<lparr>permits = N - 1, phases = ?done @ In_flight # replicate (n - Suc k) Waiting,
              finished = [0 ..< k]\<rparr>
           = Some \<lparr>permits = N,
                   phases = map (\<lambda>i. Done (outcomes ! i)) [0 ..< Suc k]
                              @ replicate (n - Suc k) Waiting,
                   finished = [0 ..< Suc k]\<rparr>"
    using assms(1) by (simp add: nth_append list_update_append)
  have "[k ..< n] = k # [Suc k ..< n]"
    using k by (simp add: upt_conv_Cons)
  then show ?case
    using a b Suc.hyps(1) [OF m le] by simp
qed

lemma sequential_completes:
  assumes "0 < N"
  shows "\<exists>s. run outcomes (sequential (length outcomes)) (initial_state N (length outcomes)) = Some s
           \<and> gathered s = Some outcomes"
proof -
  have "map (\<lambda>i. Some (outcomes ! i)) [0 ..< length outcomes] = map Some outcomes"
    by (rule nth_equalityI) simp_all
  then have "those (map outcome_of (map (\<lambda>i. Done (outcomes ! i)) [0 ..< length outcomes]))
         = Some outcomes"
    by (simp add: outcome_of_def comp_def those_map_Some)
  with sequential_from [OF assms, of 0 "length outcomes" outcomes] show ?thesis
    by (simp add: sequential_def initial_state_def gathered_def)
qed

lemma those_None_some:
  "those xs = None \<Longrightarrow> \<exists>i < length xs. xs ! i = None"
proof (induction xs)
  case Nil
  then show ?case by simp
next
  case (Cons x xs)
  show ?case
  proof (cases x)
    case None
    then show ?thesis by auto
  next
    case (Some y)
    with Cons.prems have "those xs = None" by (simp split: option.splits)
    from Cons.IH [OF this] obtain i where "i < length xs" "xs ! i = None" by blast
    then show ?thesis by (intro exI [of _ "Suc i"]) simp
  qed
qed

lemma progress:
  assumes gate: "permits s + in_flight s = N" and "0 < N"
    and g: "gathered s = None"
  shows "\<exists>ev s'. fire outcomes ev s = Some s'"
proof (cases "in_flight s = 0")
  case False
  then obtain p where "p \<in> set (phases s)" "p = In_flight"
    by (auto simp: in_flight_def filter_empty_conv)
  then obtain i where "i < length (phases s)" "phases s ! i = In_flight"
    by (auto simp: in_set_conv_nth)
  then have "fire outcomes (Release i) s \<noteq> None" by simp
  then show ?thesis by blast
next
  case True
  with gate \<open>0 < N\<close> have p: "0 < permits s" by simp
  from those_None_some [OF g [unfolded gathered_def]]
  obtain i where i: "i < length (phases s)" "outcome_of (phases s ! i) = None"
    by auto
  from True have "phases s ! i \<noteq> In_flight"
    using i(1) by (auto simp: in_flight_def filter_empty_conv)
  with i(2) have "phases s ! i = Waiting"
    by (cases "phases s ! i") (simp_all add: outcome_of_def)
  with i(1) p have "fire outcomes (Acquire i) s \<noteq> None" by simp
  then show ?thesis by blast
qed

lemma run_without_permits:
  assumes "run outcomes schedule (initial_state 0 n) = Some s"
  shows "s = initial_state 0 n"
proof (cases schedule)
  case Nil
  with assms show ?thesis by simp
next
  case (Cons ev evs)
  have "fire outcomes ev (initial_state 0 n) = None"
    by (cases ev) (simp_all add: initial_state_def)
  with assms Cons show ?thesis by simp
qed

lemma gathered_initial: "0 < n \<Longrightarrow> gathered (initial_state N n) = None"
  by (cases n) (simp_all add: gathered_def initial_state_def outcome_of_def)


lemma task_outcomes_pairs:
  "\<exists>kvs. task_outcomes credentials http_client records = map Inr kvs
         \<and> length kvs = length records
         \<and> (\<forall>i < length records.
               \<exists>r. fst (reconcile_settlement credentials (http_client i)
                           (fst (records ! i)) (snd (records ! i))) = Inr r
                   \<and> kvs ! i = (external_ref (fst (records ! i)),
                                \<lparr>success = fst r, error = snd r\<rparr>))"
proof -
  let ?kv = "\<lambda>i. projr (fst (reconcile_with_semaphore credentials (http_client i) (records ! i)))"
  let ?kvs = "map ?kv [0 ..< length records]"
  have each: "\<exists>r. fst (reconcile_settlement credentials (http_client i)
                           (fst (records ! i)) (snd (records ! i))) = Inr r
                   \<and> fst (reconcile_with_semaphore credentials (http_client i) (records ! i))
                       = Inr (external_ref (fst (records ! i)),
                              \<lparr>success = fst r, error = snd r\<rparr>)" for i
    by (rule reconcile_with_semaphore_returns)
  have "task_outcomes credentials http_client records = map Inr ?kvs"
    unfolding task_outcomes_def
  proof (rule nth_equalityI)
    fix i
    assume "i < length (map (\<lambda>i. fst (reconcile_with_semaphore credentials (http_client i)
                                         (records ! i))) [0 ..< length records])"
    then have i: "i < length records" by simp
    from each [of i] obtain r where
      "fst (reconcile_with_semaphore credentials (http_client i) (records ! i))
         = Inr (external_ref (fst (records ! i)), \<lparr>success = fst r, error = snd r\<rparr>)"
      by blast
    with i show "map (\<lambda>i. fst (reconcile_with_semaphore credentials (http_client i)
                                  (records ! i))) [0 ..< length records] ! i
                 = map Inr ?kvs ! i"
      by simp
  qed simp
  moreover have "\<forall>i < length records.
               \<exists>r. fst (reconcile_settlement credentials (http_client i)
                           (fst (records ! i)) (snd (records ! i))) = Inr r
                   \<and> ?kvs ! i = (external_ref (fst (records ! i)),
                                 \<lparr>success = fst r, error = snd r\<rparr>)"
  proof (intro allI impI)
    fix i assume i: "i < length records"
    from each [of i] obtain r where
      r: "fst (reconcile_settlement credentials (http_client i)
                (fst (records ! i)) (snd (records ! i))) = Inr r"
      and w: "fst (reconcile_with_semaphore credentials (http_client i) (records ! i))
         = Inr (external_ref (fst (records ! i)), \<lparr>success = fst r, error = snd r\<rparr>)"
      by blast
    from i w have "?kvs ! i = (external_ref (fst (records ! i)),
                                 \<lparr>success = fst r, error = snd r\<rparr>)"
      by simp
    with r show "\<exists>r. fst (reconcile_settlement credentials (http_client i)
                           (fst (records ! i)) (snd (records ! i))) = Inr r
                   \<and> ?kvs ! i = (external_ref (fst (records ! i)),
                                 \<lparr>success = fst r, error = snd r\<rparr>)"
      by blast
  qed
  ultimately show ?thesis
    by (intro exI [of _ ?kvs]) simp
qed

lemma batch_reconcile_Some:
  assumes "0 \<le> max_concurrent"
    and "batch_reconcile credentials http_client records max_concurrent schedule = Some res"
  shows "res = Inr (collect (task_outcomes credentials http_client records) Map.empty)"
proof -
  let ?out = "task_outcomes credentials http_client records"
  have len: "length ?out = length records"
    by (simp add: task_outcomes_def)
  from assms obtain s completed where
    r: "run ?out schedule (initial_state (nat max_concurrent) (length records)) = Some s"
    and g: "gathered s = Some completed"
    and res: "res = Inr (collect completed Map.empty)"
    by (auto simp: batch_reconcile_def split: option.splits if_splits)
  from gathered_is_outcomes [of ?out schedule "nat max_concurrent" s completed] r g len
  have "completed = ?out" by simp
  with res show ?thesis by simp
qed

lemma entries_of_pairs:
  assumes out: "task_outcomes credentials http_client records = map Inr kvs"
    and len: "length kvs = length records"
    and kv: "\<forall>i < length records. fst (kvs ! i) = external_ref (fst (records ! i))"
  shows "dom (collect (task_outcomes credentials http_client records) Map.empty)
           = (\<lambda>pair. external_ref (fst pair)) ` set records"
    and "i < length records \<Longrightarrow>
         \<forall>j. i < j \<and> j < length records \<longrightarrow>
             external_ref (fst (records ! j)) \<noteq> external_ref (fst (records ! i)) \<Longrightarrow>
         collect (task_outcomes credentials http_client records) Map.empty
           (external_ref (fst (records ! i))) = Some (snd (kvs ! i))"
proof -
  have c: "collect (task_outcomes credentials http_client records) Map.empty = map_of (rev kvs)"
    by (simp add: out collect_pairs)
  have "fst ` set kvs = (\<lambda>pair. external_ref (fst pair)) ` set records"
  proof -
    have "map fst kvs = map (\<lambda>pair. external_ref (fst pair)) records"
      by (rule nth_equalityI) (use len kv in simp_all)
    then have "set (map fst kvs) = set (map (\<lambda>pair. external_ref (fst pair)) records)"
      by simp
    then show ?thesis by simp
  qed
  then show "dom (collect (task_outcomes credentials http_client records) Map.empty)
           = (\<lambda>pair. external_ref (fst pair)) ` set records"
    by (simp add: c dom_map_of_conv_image_fst)
  assume i: "i < length records"
    and last: "\<forall>j. i < j \<and> j < length records \<longrightarrow>
             external_ref (fst (records ! j)) \<noteq> external_ref (fst (records ! i))"
  have "map_of (rev kvs) (fst (kvs ! i)) = Some (snd (kvs ! i))"
  proof (rule map_of_rev_last)
    show "i < length kvs" using i len by simp
    show "\<forall>j. i < j \<and> j < length kvs \<longrightarrow> fst (kvs ! j) \<noteq> fst (kvs ! i)"
      using last kv i len by auto
  qed
  with kv i show "collect (task_outcomes credentials http_client records) Map.empty
           (external_ref (fst (records ! i))) = Some (snd (kvs ! i))"
    by (simp add: c)
qed

text \<open>
  Claim C4, as the code has it. A negative bound is refused by the semaphore's
  constructor with \<^verbatim>\<open>ValueError\<close> before any task is made. For a bound it accepts, whenever
  \<^verbatim>\<open>batch_reconcile\<close> returns it returns a dict whose keys are the external references
  of the records. For the last pair in the list with a given reference, the entry
  under that reference is the outcome of \<open>reconcile_settlement\<close> on that pair and on the
  answers its own provider call gets; the other pairs and their providers do not occur
  in it. So of two records with one reference the one later in the list wins, in
  whatever order the tasks complete. With a positive bound the batch returns (the tasks
  run one after the other is such a run) and no run gets stuck before \<^verbatim>\<open>gather\<close> has
  every outcome; with the bound 0 and a pair to verify it never returns.
\<close>

theorem batch_reconcile_entries:
  "(max_concurrent < 0 \<longrightarrow>
      batch_reconcile credentials http_client records max_concurrent schedule
        = Some (Inl (Exn ''Semaphore initial value must be >= 0'')))
   \<and> (0 \<le> max_concurrent \<longrightarrow>
       (\<forall>res. batch_reconcile credentials http_client records max_concurrent schedule = Some res
            \<longrightarrow> (\<exists>m. res = Inr m
                   \<and> dom m = (\<lambda>pair. external_ref (fst pair)) ` set records
                   \<and> (\<forall>i < length records.
                        (\<forall>j. i < j \<and> j < length records \<longrightarrow>
                             external_ref (fst (records ! j)) \<noteq> external_ref (fst (records ! i)))
                        \<longrightarrow> (\<exists>r. fst (reconcile_settlement credentials (http_client i)
                                         (fst (records ! i)) (snd (records ! i))) = Inr r
                                 \<and> m (external_ref (fst (records ! i)))
                                     = Some \<lparr>success = fst r, error = snd r\<rparr>)))))
       \<and> (0 < max_concurrent \<longrightarrow>
            (\<exists>m. batch_reconcile credentials http_client records max_concurrent
                    (sequential (length records)) = Some (Inr m)))
       \<and> (0 < max_concurrent \<longrightarrow>
            (\<forall>s. run (task_outcomes credentials http_client records) schedule
                     (initial_state (nat max_concurrent) (length records)) = Some s
                   \<and> gathered s = None
                 \<longrightarrow> (\<exists>ev s'. fire (task_outcomes credentials http_client records) ev s = Some s')))
       \<and> (max_concurrent = 0 \<and> records \<noteq> [] \<longrightarrow>
            batch_reconcile credentials http_client records max_concurrent schedule = None)"
proof (intro conjI allI impI)
  let ?out = "task_outcomes credentials http_client records"
  have len: "length ?out = length records"
    by (simp add: task_outcomes_def)
  {
    assume "max_concurrent < 0"
    then show "batch_reconcile credentials http_client records max_concurrent schedule
                 = Some (Inl (Exn ''Semaphore initial value must be >= 0''))"
      by (simp add: batch_reconcile_def)
  }
  {
    fix res
    assume nonneg: "0 \<le> max_concurrent"
    assume b: "batch_reconcile credentials http_client records max_concurrent schedule = Some res"
    from task_outcomes_pairs [of credentials http_client records] obtain kvs where
      out: "?out = map Inr kvs" and kl: "length kvs = length records"
      and kv: "\<forall>i < length records.
               \<exists>r. fst (reconcile_settlement credentials (http_client i)
                           (fst (records ! i)) (snd (records ! i))) = Inr r
                   \<and> kvs ! i = (external_ref (fst (records ! i)),
                                \<lparr>success = fst r, error = snd r\<rparr>)"
      by blast
    from kv have kf: "\<forall>i < length records. fst (kvs ! i) = external_ref (fst (records ! i))"
      by auto
    let ?m = "collect ?out Map.empty"
    have res: "res = Inr ?m"
      using nonneg b by (rule batch_reconcile_Some)
    have d: "dom ?m = (\<lambda>pair. external_ref (fst pair)) ` set records"
      using out kl kf by (rule entries_of_pairs(1))
    have e: "\<forall>i < length records.
                        (\<forall>j. i < j \<and> j < length records \<longrightarrow>
                             external_ref (fst (records ! j)) \<noteq> external_ref (fst (records ! i)))
                        \<longrightarrow> (\<exists>r. fst (reconcile_settlement credentials (http_client i)
                                         (fst (records ! i)) (snd (records ! i))) = Inr r
                                 \<and> ?m (external_ref (fst (records ! i)))
                                     = Some \<lparr>success = fst r, error = snd r\<rparr>)"
    proof (intro allI impI)
      fix i
      assume i: "i < length records"
        and last: "\<forall>j. i < j \<and> j < length records \<longrightarrow>
                     external_ref (fst (records ! j)) \<noteq> external_ref (fst (records ! i))"
      from kv i obtain r where
        r: "fst (reconcile_settlement credentials (http_client i)
                           (fst (records ! i)) (snd (records ! i))) = Inr r"
        and k: "kvs ! i = (external_ref (fst (records ! i)), \<lparr>success = fst r, error = snd r\<rparr>)"
        by blast
      from entries_of_pairs(2) [OF out kl kf i last] k
      have "?m (external_ref (fst (records ! i))) = Some \<lparr>success = fst r, error = snd r\<rparr>"
        by simp
      with r show "\<exists>r. fst (reconcile_settlement credentials (http_client i)
                                         (fst (records ! i)) (snd (records ! i))) = Inr r
                                 \<and> ?m (external_ref (fst (records ! i)))
                                     = Some \<lparr>success = fst r, error = snd r\<rparr>"
        by blast
    qed
    from res d e
    show "\<exists>m. res = Inr m
                   \<and> dom m = (\<lambda>pair. external_ref (fst pair)) ` set records
                   \<and> (\<forall>i < length records.
                        (\<forall>j. i < j \<and> j < length records \<longrightarrow>
                             external_ref (fst (records ! j)) \<noteq> external_ref (fst (records ! i)))
                        \<longrightarrow> (\<exists>r. fst (reconcile_settlement credentials (http_client i)
                                         (fst (records ! i)) (snd (records ! i))) = Inr r
                                 \<and> m (external_ref (fst (records ! i)))
                                     = Some \<lparr>success = fst r, error = snd r\<rparr>))"
      by blast
  }
  {
    assume pos: "0 < max_concurrent"
    then have "0 < nat max_concurrent" by simp
    from sequential_completes [OF this, of ?out] len
    show "\<exists>m. batch_reconcile credentials http_client records max_concurrent
                    (sequential (length records)) = Some (Inr m)"
      using pos by (auto simp: batch_reconcile_def)
  }
  {
    fix s
    assume pos: "0 < max_concurrent"
      and rs: "run ?out schedule (initial_state (nat max_concurrent) (length records)) = Some s
                 \<and> gathered s = None"
    from rs have r: "run ?out schedule (initial_state (nat max_concurrent) (length records))
                       = Some s"
      by simp
    have "permits (initial_state (nat max_concurrent) (length records)) = nat max_concurrent"
      by (simp add: initial_state_def)
    with run_gate(1) [OF r]
    have gate: "permits s + in_flight s = nat max_concurrent"
      by (simp add: in_flight_initial)
    from pos have posN: "0 < nat max_concurrent" by simp
    from rs have g: "gathered s = None" by simp
    show "\<exists>ev s'. fire ?out ev s = Some s'"
      by (rule progress [OF gate posN g])
  }
  {
    assume z: "max_concurrent = 0 \<and> records \<noteq> []"
    show "batch_reconcile credentials http_client records max_concurrent schedule = None"
    proof (cases "run ?out schedule (initial_state 0 (length records))")
      case None
      with z show ?thesis by (simp add: batch_reconcile_def)
    next
      case (Some s)
      from run_without_permits [OF Some] z have "gathered s = None"
        by (simp add: gathered_initial)
      with Some z show ?thesis by (simp add: batch_reconcile_def)
    qed
  }
qed


theorem batch_reconcile_entries_witness:
  "(\<exists>m. batch_reconcile example_credentials second_unreachable three_pairs 2
          [Acquire 0, Acquire 1, Release 0, Acquire 2, Release 1, Release 2] = Some (Inr m)
       \<and> m ''R1'' = Some \<lparr>success = True, error = JNull\<rparr>
       \<and> m ''R2'' = Some \<lparr>success = False,
                          error = JStr ''Clearstream reconciliation failed: timed out''\<rparr>
       \<and> m ''R3'' = Some \<lparr>success = True, error = JNull\<rparr>)
   \<and> batch_reconcile example_credentials second_unreachable three_pairs (- 1) []
       = Some (Inl (Exn ''Semaphore initial value must be >= 0''))
   \<and> (\<exists>m. batch_reconcile example_credentials second_unreachable three_pairs 1
            (sequential (length three_pairs)) = Some (Inr m))
   \<and> batch_reconcile example_credentials second_unreachable three_pairs 0 [] = None
   \<and> (\<exists>ev s'. fire (task_outcomes example_credentials second_unreachable three_pairs) ev
                 (the (run (task_outcomes example_credentials second_unreachable three_pairs)
                         [Acquire 0, Acquire 1] (initial_state (nat 2) (length three_pairs))))
               = Some s')"
proof -
  let ?S = "[Acquire 0, Acquire 1, Release 0, Acquire 2, Release 1, Release 2]"
  let ?b = "batch_reconcile example_credentials second_unreachable three_pairs 2 ?S"
  have "?b \<noteq> None"
    by code_simp
  then obtain res where res: "?b = Some res" by auto
  have two: "(0::int) \<le> 2" by simp
  from batch_reconcile_entries [THEN conjunct2, THEN conjunct1, THEN mp, OF two,
         rule_format, OF res]
  obtain m where m: "res = Inr m"
    and entries: "\<forall>i < length three_pairs.
                        (\<forall>j. i < j \<and> j < length three_pairs \<longrightarrow>
                             external_ref (fst (three_pairs ! j)) \<noteq> external_ref (fst (three_pairs ! i)))
                        \<longrightarrow> (\<exists>r. fst (reconcile_settlement example_credentials (second_unreachable i)
                                         (fst (three_pairs ! i)) (snd (three_pairs ! i))) = Inr r
                                 \<and> m (external_ref (fst (three_pairs ! i)))
                                     = Some \<lparr>success = fst r, error = snd r\<rparr>)"
    by blast
  have l: "length three_pairs = 3" "external_ref (fst (three_pairs ! 2)) = ''R3''"
    by (simp_all add: three_pairs_def example_record_def)
  have r3: "fst (reconcile_settlement example_credentials (second_unreachable 2)
              (fst (three_pairs ! 2)) (snd (three_pairs ! 2))) = Inr (True, JNull)"
    by code_simp
  have i2: "2 < length three_pairs"
    using l by simp
  have nolater: "\<forall>j. 2 < j \<and> j < length three_pairs \<longrightarrow>
      external_ref (fst (three_pairs ! j)) \<noteq> external_ref (fst (three_pairs ! 2))"
    using l(1) by auto
  from entries i2 nolater obtain r where
    "fst (reconcile_settlement example_credentials (second_unreachable 2)
            (fst (three_pairs ! 2)) (snd (three_pairs ! 2))) = Inr r"
    "m (external_ref (fst (three_pairs ! 2))) = Some \<lparr>success = fst r, error = snd r\<rparr>"
    by blast
  with r3 l have e3: "m ''R3'' = Some \<lparr>success = True, error = JNull\<rparr>"
    by simp
  have "(case ?b of Some (Inr m) \<Rightarrow> m ''R1'' | _ \<Rightarrow> None)
          = Some \<lparr>success = True, error = JNull\<rparr>"
    "(case ?b of Some (Inr m) \<Rightarrow> m ''R2'' | _ \<Rightarrow> None)
          = Some \<lparr>success = False, error = JStr ''Clearstream reconciliation failed: timed out''\<rparr>"
    by code_simp+
  with res m have "m ''R1'' = Some \<lparr>success = True, error = JNull\<rparr>"
    "m ''R2'' = Some \<lparr>success = False,
                          error = JStr ''Clearstream reconciliation failed: timed out''\<rparr>"
    by simp_all
  with res m e3 have first:
    "\<exists>m. ?b = Some (Inr m)
       \<and> m ''R1'' = Some \<lparr>success = True, error = JNull\<rparr>
       \<and> m ''R2'' = Some \<lparr>success = False,
                          error = JStr ''Clearstream reconciliation failed: timed out''\<rparr>
       \<and> m ''R3'' = Some \<lparr>success = True, error = JNull\<rparr>"
    by simp
  have neg: "(- 1 :: int) < 0" and pos: "(0 :: int) < 1"
    and zero: "(0 :: int) = 0 \<and> three_pairs \<noteq> []"
    by (simp_all add: three_pairs_def)
  note refused = batch_reconcile_entries [THEN conjunct1, THEN mp, OF neg,
                   of example_credentials second_unreachable three_pairs "[]"]
  note returns = batch_reconcile_entries [THEN conjunct2, THEN conjunct2, THEN conjunct1,
                   THEN mp, OF pos, of example_credentials second_unreachable three_pairs]
  note stuck = batch_reconcile_entries [THEN conjunct2, THEN conjunct2, THEN conjunct2,
                 THEN conjunct2, THEN mp, OF zero,
                 of example_credentials second_unreachable "[]"]
  let ?out = "task_outcomes example_credentials second_unreachable three_pairs"
  let ?s = "the (run ?out [Acquire 0, Acquire 1] (initial_state (nat 2) (length three_pairs)))"
  have mid: "run ?out [Acquire 0, Acquire 1] (initial_state (nat 2) (length three_pairs)) = Some ?s
               \<and> gathered ?s = None"
    by code_simp
  have pos2: "(0 :: int) < 2" by simp
  note moves = batch_reconcile_entries [THEN conjunct2, THEN conjunct2, THEN conjunct2,
                 THEN conjunct1, THEN mp, OF pos2, rule_format, OF mid]
  show ?thesis
    by (intro conjI first refused returns stuck moves)
qed

text \<open>
  Claim C4 as stated fails in its last clause. Two records share the reference R1; the
  provider confirms the first and reports 99 units for the second. Both tasks are
  admitted, the second completes first, the first completes last. The dict
  \<^verbatim>\<open>batch_reconcile\<close> returns holds the second record's mismatch under R1; written in
  completion order it would hold the first record's success.
\<close>

theorem batch_reconcile_entries_counterexample:
  "map_option finished
     (run (task_outcomes example_credentials confirms_first_only same_ref_pairs)
        [Acquire 0, Acquire 1, Release 1, Release 0]
        (initial_state (nat 2) (length same_ref_pairs))) = Some [1, 0]
   \<and> (case batch_reconcile example_credentials confirms_first_only same_ref_pairs 2
              [Acquire 0, Acquire 1, Release 1, Release 0] of
         Some (Inr m) \<Rightarrow> m ''R1'' | _ \<Rightarrow> None)
       = Some \<lparr>success = False, error = JStr ''Unit mismatch: on-chain=100, CSD=99''\<rparr>
   \<and> collect_by_completion [1, 0]
         (task_outcomes example_credentials confirms_first_only same_ref_pairs) ''R1''
       = Some \<lparr>success = True, error = JNull\<rparr>"
  by (intro conjI; code_simp)

end
